theory Spec2Isabelle
  imports Complex_Main "HOL-Library.Multiset" "HOL-Library.Sublist"
begin

section \<open>JavaScript numbers\<close>

text \<open>
  The library computes on JavaScript numbers. A finite number is modelled as an exact
  \<^typ>\<open>real\<close>: rounding is not modelled, so an equation proved here holds in the source up
  to floating-point rounding. Where the source divides by a quantity that may be zero, the
  outcome of the JavaScript division (\<open>Infinity\<close>, \<open>-Infinity\<close> or \<open>NaN\<close>) is written out
  as a branch of the model. A result that may be \<open>NaN\<close> has type \<open>jsnum\<close>. Where a function
  is examined on whatever a caller passes, its arguments have the type \<open>js_value\<close> below.
\<close>

datatype jsnum = NaN | Num real

fun js_gt :: "jsnum \<Rightarrow> real \<Rightarrow> bool" where
  "js_gt NaN k = False"
| "js_gt (Num x) k = (x > k)"

fun js_lt :: "jsnum \<Rightarrow> real \<Rightarrow> bool" where
  "js_lt NaN k = False"
| "js_lt (Num x) k = (x < k)"

text \<open>
  A value of the type Number with its three values that are not finite, for the places
  where a caller's argument is taken as it comes. The two zeros are not told apart: the
  zero of the model is \<open>+0\<close>.
\<close>

datatype number = NotANumber | PlusInfinity | MinusInfinity | Finite real

text \<open>
  The values a caller may pass where a number is expected. Strings and objects are outside
  the model.
\<close>

datatype js_value = Undefined | Null | Boolean bool | Number number

text \<open>The conversion \<open>ToNumber\<close> that the arithmetic and relational operators apply.\<close>

fun ToNumber :: "js_value \<Rightarrow> number" where
  "ToNumber Undefined = NotANumber"
| "ToNumber Null = Finite 0"
| "ToNumber (Boolean b) = Finite (if b then 1 else 0)"
| "ToNumber (Number n) = n"

text \<open>
  \<open>value.toFixed\<close> is a function for a number only: on \<open>undefined\<close> and \<open>null\<close> the property
  access throws a \<open>TypeError\<close>, and on a boolean the call of the missing method does.
\<close>

fun has_toFixed :: "js_value \<Rightarrow> bool" where
  "has_toFixed (Number n) = True"
| "has_toFixed v = False"

datatype thrown = TypeError

text \<open>The operators \<open>+\<close>, \<open>-\<close>, \<open>*\<close> and \<open>/\<close> on numbers (IEEE 754, without rounding).\<close>

fun number_add :: "number \<Rightarrow> number \<Rightarrow> number" where
  "number_add (Finite x) (Finite y) = Finite (x + y)"
| "number_add NotANumber b = NotANumber"
| "number_add a NotANumber = NotANumber"
| "number_add PlusInfinity MinusInfinity = NotANumber"
| "number_add MinusInfinity PlusInfinity = NotANumber"
| "number_add PlusInfinity b = PlusInfinity"
| "number_add a PlusInfinity = PlusInfinity"
| "number_add MinusInfinity b = MinusInfinity"
| "number_add a MinusInfinity = MinusInfinity"

fun number_negate :: "number \<Rightarrow> number" where
  "number_negate NotANumber = NotANumber"
| "number_negate PlusInfinity = MinusInfinity"
| "number_negate MinusInfinity = PlusInfinity"
| "number_negate (Finite x) = Finite (- x)"

definition number_sub :: "number \<Rightarrow> number \<Rightarrow> number" where
  "number_sub a b = number_add a (number_negate b)"

text \<open>\<open>is_positive\<close> and \<open>is_negative\<close>: the sign of a number that is not \<open>NaN\<close>.\<close>

fun is_positive :: "number \<Rightarrow> bool" where
  "is_positive PlusInfinity = True"
| "is_positive (Finite x) = (x > 0)"
| "is_positive n = False"

fun is_negative :: "number \<Rightarrow> bool" where
  "is_negative MinusInfinity = True"
| "is_negative (Finite x) = (x < 0)"
| "is_negative n = False"

fun number_mul :: "number \<Rightarrow> number \<Rightarrow> number" where
  "number_mul (Finite x) (Finite y) = Finite (x * y)"
| "number_mul a b =
     (if is_positive a \<and> is_positive b \<or> is_negative a \<and> is_negative b then PlusInfinity
      else if is_positive a \<and> is_negative b \<or> is_negative a \<and> is_positive b then MinusInfinity
      else NotANumber)"

text \<open>
  A finite number divided by an infinity is a zero; a non-zero number divided by zero is an
  infinity with the sign of the dividend, the divisor being \<open>+0\<close>.
\<close>

fun number_div :: "number \<Rightarrow> number \<Rightarrow> number" where
  "number_div (Finite x) (Finite y) =
     (if y \<noteq> 0 then Finite (x / y)
      else if x > 0 then PlusInfinity else if x < 0 then MinusInfinity else NotANumber)"
| "number_div (Finite x) PlusInfinity = Finite 0"
| "number_div (Finite x) MinusInfinity = Finite 0"
| "number_div PlusInfinity (Finite y) = (if y \<ge> 0 then PlusInfinity else MinusInfinity)"
| "number_div MinusInfinity (Finite y) = (if y \<ge> 0 then MinusInfinity else PlusInfinity)"
| "number_div a b = NotANumber"

text \<open>The relations \<open><\<close> and \<open><=\<close>, false as soon as an operand is \<open>NaN\<close>.\<close>

fun number_less :: "number \<Rightarrow> number \<Rightarrow> bool" where
  "number_less (Finite x) (Finite y) = (x < y)"
| "number_less NotANumber b = False"
| "number_less a NotANumber = False"
| "number_less a MinusInfinity = False"
| "number_less PlusInfinity b = False"
| "number_less MinusInfinity b = True"
| "number_less a PlusInfinity = True"

definition number_le :: "number \<Rightarrow> number \<Rightarrow> bool" where
  "number_le a b \<longleftrightarrow> a \<noteq> NotANumber \<and> b \<noteq> NotANumber \<and> \<not> number_less b a"

text \<open>\<open>Math.abs\<close> and \<open>Math.max\<close> of two arguments.\<close>

fun number_abs :: "number \<Rightarrow> number" where
  "number_abs NotANumber = NotANumber"
| "number_abs PlusInfinity = PlusInfinity"
| "number_abs MinusInfinity = PlusInfinity"
| "number_abs (Finite x) = Finite \<bar>x\<bar>"

definition number_max :: "number \<Rightarrow> number \<Rightarrow> number" where
  "number_max a b =
     (if a = NotANumber \<or> b = NotANumber then NotANumber
      else if number_less a b then b else a)"

section \<open>DopplerSpeedCalculator (doppler-calculator-v2.js)\<close>

record DopplerSpeedCalculator =
  soundSpeed :: real
  ambientTemperature :: real
  maxReasonableSpeed :: real
  minReasonableSpeed :: real

text \<open>The constructor with its default arguments \<open>soundSpeed = 343, temperature = 20\<close>.\<close>

definition new_DopplerSpeedCalculator :: DopplerSpeedCalculator where
  "new_DopplerSpeedCalculator =
     \<lparr>soundSpeed = 343, ambientTemperature = 20,
      maxReasonableSpeed = 1000, minReasonableSpeed = 0\<rparr>"

definition setSpeedLimits :: "real \<Rightarrow> real \<Rightarrow> DopplerSpeedCalculator \<Rightarrow> DopplerSpeedCalculator" where
  "setSpeedLimits minSpeed maxSpeed c =
     c\<lparr>minReasonableSpeed := minSpeed, maxReasonableSpeed := maxSpeed\<rparr>"

text \<open>
  \<open>calculateSpeed\<close>. When \<open>approachingFrequency + recedingFrequency = 0\<close> the source
  divides by zero: a zero numerator gives \<open>NaN\<close>, which passes both bound tests and is
  returned; a non-zero numerator gives \<open>Infinity\<close> or \<open>-Infinity\<close>, which fails one of the
  bound tests, so that 0 is returned.
\<close>

definition calculateSpeed :: "DopplerSpeedCalculator \<Rightarrow> real \<Rightarrow> real \<Rightarrow> jsnum" where
  "calculateSpeed c approachingFrequency recedingFrequency =
     (if approachingFrequency + recedingFrequency = 0 then
        (if soundSpeed c * (approachingFrequency - recedingFrequency) = 0 then NaN else Num 0)
      else
        (let speedMs = soundSpeed c * (approachingFrequency - recedingFrequency) /
                       (approachingFrequency + recedingFrequency);
             speedKmh = speedMs * 3.6
         in if speedKmh \<ge> maxReasonableSpeed c \<or> speedKmh < minReasonableSpeed c
            then Num 0 else Num speedKmh))"

text \<open>
  \<open>calculateSpeed\<close> once more, on arguments of any kind; on two finite numbers it is the
  function above. The operators convert their operands to numbers (\<open>+\<close> adds, no operand
  being a string). Only the out-of-bounds branch builds the message of the log, which
  calls \<open>toFixed\<close> on both arguments, the approaching frequency first, and on the speed,
  which is a number: the branch throws a \<open>TypeError\<close> unless both arguments are numbers.
\<close>

definition calculateSpeed_any ::
  "DopplerSpeedCalculator \<Rightarrow> js_value \<Rightarrow> js_value \<Rightarrow> thrown + number" where
  "calculateSpeed_any c approachingFrequency recedingFrequency =
     (let speedMs = number_div
                      (number_mul (Finite (soundSpeed c))
                         (number_sub (ToNumber approachingFrequency) (ToNumber recedingFrequency)))
                      (number_add (ToNumber approachingFrequency) (ToNumber recedingFrequency));
          speedKmh = number_mul speedMs (Finite 3.6)
      in if number_le (Finite (maxReasonableSpeed c)) speedKmh \<or>
            number_less speedKmh (Finite (minReasonableSpeed c))
         then (if has_toFixed approachingFrequency \<and> has_toFixed recedingFrequency
               then Inr (Finite 0) else Inl TypeError)
         else Inr speedKmh)"

text \<open>
  The text of the field \<open>error\<close>: one of the literals of the source, or the message of a
  caught exception, which the engine words.
\<close>

datatype error_text = Text string | MessageOf thrown

text \<open>
  The result object of \<open>calculateSpeedWithValidation\<close>. \<open>error\<close> is \<open>None\<close> for the
  source's \<open>null\<close>; \<open>frequencyShift\<close> and \<open>relativeFactor\<close> are absent from the objects of
  the early returns and of the \<open>catch\<close> block.
\<close>

record validation_result =
  speedKMH :: number
  speedMPH :: number
  valid :: bool
  error :: "error_text option"
  frequencyShift :: "number option"
  relativeFactor :: "number option"

text \<open>The \<open>try\<close> block of \<open>calculateSpeedWithValidation\<close>.\<close>

definition calculateSpeedWithValidation_try ::
  "DopplerSpeedCalculator \<Rightarrow> js_value \<Rightarrow> js_value \<Rightarrow> thrown + validation_result" where
  "calculateSpeedWithValidation_try c f1 f2 =
     (if number_le (ToNumber f1) (Finite 0) \<or> number_le (ToNumber f2) (Finite 0) then
        Inr \<lparr>speedKMH = Finite 0, speedMPH = Finite 0, valid = False,
             error = Some (Text ''Invalid frequency values''),
             frequencyShift = None, relativeFactor = None\<rparr>
      else if number_less (number_abs (number_sub (ToNumber f1) (ToNumber f2))) (Finite 1) then
        Inr \<lparr>speedKMH = Finite 0, speedMPH = Finite 0, valid = False,
             error = Some (Text ''Frequency difference too small''),
             frequencyShift = None, relativeFactor = None\<rparr>
      else
        (case calculateSpeed_any c f1 f2 of
           Inl exception \<Rightarrow> Inl exception
         | Inr returned \<Rightarrow>
             (let speedKMH = returned;
                  speedMPH = number_mul speedKMH (Finite 0.621371)
              in Inr \<lparr>speedKMH = speedKMH, speedMPH = speedMPH,
                      valid = number_less (Finite 0) speedKMH,
                      error = (if speedKMH = Finite 0
                               then Some (Text ''Speed outside reasonable range'') else None),
                      frequencyShift =
                        Some (number_abs (number_sub (ToNumber f1) (ToNumber f2))),
                      relativeFactor =
                        Some (number_div
                                (number_abs (number_sub (ToNumber f1) (ToNumber f2)))
                                (number_max (ToNumber f1) (ToNumber f2)))\<rparr>)))"

text \<open>
  \<open>calculateSpeedWithValidation\<close>: the \<open>try\<close> block, and the \<open>catch\<close> block that turns an
  exception into a result object. \<open>Inl\<close> would be an exception that leaves the function.
\<close>

definition calculateSpeedWithValidation ::
  "DopplerSpeedCalculator \<Rightarrow> js_value \<Rightarrow> js_value \<Rightarrow> thrown + validation_result" where
  "calculateSpeedWithValidation c f1 f2 =
     (case calculateSpeedWithValidation_try c f1 f2 of
        Inr result \<Rightarrow> Inr result
      | Inl exception \<Rightarrow>
          Inr \<lparr>speedKMH = Finite 0, speedMPH = Finite 0, valid = False,
               error = Some (MessageOf exception),
               frequencyShift = None, relativeFactor = None\<rparr>)"

section \<open>FrequencyMatcher (doppler-calculator-v2.js, second class)\<close>

text \<open>A frequency candidate: an object with the fields \<open>frequency\<close> and \<open>power\<close>.\<close>

record frequency_candidate =
  frequency :: real
  power :: real

text \<open>
  The object of a successful pair calculation. \<open>pair_error\<close> is the source's field
  \<open>error\<close> (the distance to the expected speed, in mph). \<open>accuracy\<close> is \<open>None\<close> when the
  source divides by an expected speed of 0 and the field is not a finite number.
\<close>

record speed_result =
  speedKmh :: real
  speedMph :: real
  approachFreq :: real
  recedeFreq :: real
  pair_error :: real
  accuracy :: "real option"

text \<open>
  The three shapes of object that \<open>calculateSpeedForFrequencyPair\<close> returns:
  \<open>InvalidPair\<close> is \<open>{valid: false, speedKmh: 0, speedMph: 0, approachFreq, recedeFreq,
  error: 'Invalid speed calculation'}\<close>; \<open>NaNPair\<close> is the object with \<open>valid: true\<close> whose
  numeric fields are all \<open>NaN\<close> (the calculator returned \<open>NaN\<close>, which is not \<open>=== 0\<close>);
  \<open>ValidPair\<close> is the object with \<open>valid: true\<close> and finite fields.
\<close>

datatype pair_result = InvalidPair real real | NaNPair real real | ValidPair speed_result

definition calculateSpeedForFrequencyPair ::
  "DopplerSpeedCalculator \<Rightarrow> real \<Rightarrow> real \<Rightarrow> real \<Rightarrow> pair_result" where
  "calculateSpeedForFrequencyPair speedCalculator approachFreq' recedeFreq' expectedSpeedMph =
     (case calculateSpeed speedCalculator approachFreq' recedeFreq' of
        NaN \<Rightarrow> NaNPair approachFreq' recedeFreq'
      | Num speedKmh' \<Rightarrow>
          if speedKmh' = 0 then InvalidPair approachFreq' recedeFreq'
          else
            (let speedMph' = speedKmh' * 0.621371;
                 error' = \<bar>speedMph' - expectedSpeedMph\<bar>
             in ValidPair
                  \<lparr>speedKmh = speedKmh', speedMph = speedMph',
                   approachFreq = approachFreq', recedeFreq = recedeFreq',
                   pair_error = error',
                   accuracy = (if expectedSpeedMph = 0 then None
                               else Some (100 - (error' / expectedSpeedMph * 100)))\<rparr>))"

text \<open>
  The body of the inner loop of \<open>findOptimalSpeedCalculation\<close>. The pair
  \<open>(bestResult, bestError)\<close> of the source is the single option \<open>bestResult\<close>:
  \<open>bestError\<close> is \<open>Infinity\<close> exactly while \<open>bestResult\<close> is \<open>null\<close>, and is
  \<open>bestResult.error\<close> afterwards. A \<open>NaN\<close> error is never below \<open>bestError\<close>.
\<close>

definition considerPair ::
  "DopplerSpeedCalculator \<Rightarrow> real \<Rightarrow> speed_result option \<Rightarrow> real \<Rightarrow> real \<Rightarrow> speed_result option" where
  "considerPair speedCalculator expectedSpeedMph bestResult approachFreq' recedeFreq' =
     (case calculateSpeedForFrequencyPair speedCalculator approachFreq' recedeFreq' expectedSpeedMph of
        ValidPair result \<Rightarrow>
          (case bestResult of
             None \<Rightarrow> Some result
           | Some best \<Rightarrow> if pair_error result < pair_error best then Some result else bestResult)
      | _ \<Rightarrow> bestResult)"

text \<open>
  \<open>findOptimalSpeedCalculation\<close>: the two nested \<open>for ... of\<close> loops. \<open>Inl\<close> carries the
  error message of the object with \<open>valid: false\<close>.
\<close>

definition findOptimalSpeedCalculation ::
  "DopplerSpeedCalculator \<Rightarrow> ('a frequency_candidate_scheme) list \<Rightarrow>
   ('b frequency_candidate_scheme) list \<Rightarrow> real \<Rightarrow> string + speed_result" where
  "findOptimalSpeedCalculation speedCalculator approachFrequencies recedeFrequencies expectedSpeedMph =
     (case foldl (\<lambda>bestResult approachFreq'.
                    foldl (\<lambda>bestResult recedeFreq'.
                             considerPair speedCalculator expectedSpeedMph bestResult
                               (frequency approachFreq') (frequency recedeFreq'))
                          bestResult recedeFrequencies)
                 None approachFrequencies of
        Some bestResult \<Rightarrow> Inr bestResult
      | None \<Rightarrow> Inl ''No valid frequency pairs found'')"

section \<open>AudioAnalyzer: the three strategies (audio-analyzer.js)\<close>

datatype strategy_tag = Primary | Secondary | Tertiary

record tier_result = speed_result +
  strategy :: strategy_tag

text \<open>\<open>expectedSpeed || d\<close>: \<open>null\<close> and 0 are falsy.\<close>

definition or_default :: "real option \<Rightarrow> real \<Rightarrow> real" where
  "or_default expectedSpeed d =
     (case expectedSpeed of None \<Rightarrow> d | Some e \<Rightarrow> if e = 0 then d else e)"

definition tag_result :: "strategy_tag \<Rightarrow> speed_result \<Rightarrow> tier_result" where
  "tag_result t r = speed_result.extend r (tier_result.fields t)"

text \<open>
  \<open>trySecondaryStrategy\<close>: a fresh calculator with limits \<open>(0, 500)\<close>, and an expected speed
  of 50 by default. \<open>None\<close> is the object \<open>{valid: false}\<close>.
\<close>

definition trySecondaryStrategy ::
  "('a frequency_candidate_scheme) list \<Rightarrow> ('b frequency_candidate_scheme) list \<Rightarrow>
   real option \<Rightarrow> tier_result option" where
  "trySecondaryStrategy approachFrequencies recedeFrequencies expectedSpeed =
     (let lenientCalculator = setSpeedLimits 0 500 new_DopplerSpeedCalculator
      in case findOptimalSpeedCalculation lenientCalculator approachFrequencies recedeFrequencies
                (or_default expectedSpeed 50) of
           Inr matchResult \<Rightarrow> Some (tag_result Secondary matchResult)
         | Inl _ \<Rightarrow> None)"

text \<open>
  The body of the innermost loop of \<open>tryTertiaryStrategy\<close>, for one ordered pair
  \<open>[freq1, freq2]\<close>. As in \<open>considerPair\<close>, \<open>bestError\<close> is \<open>Infinity\<close> while
  \<open>bestResult\<close> is \<open>null\<close>.
\<close>

definition considerOrdered ::
  "DopplerSpeedCalculator \<Rightarrow> real option \<Rightarrow> tier_result option \<Rightarrow> real \<times> real \<Rightarrow> tier_result option" where
  "considerOrdered veryLenientCalculator expectedSpeed bestResult p =
     (case p of (freq1, freq2) \<Rightarrow>
        (let speedKmh' = calculateSpeed veryLenientCalculator freq1 freq2
         in if js_gt speedKmh' 0 \<and> js_lt speedKmh' 1000 then
              (case speedKmh' of
                 NaN \<Rightarrow> bestResult
               | Num kmh \<Rightarrow>
                  (let speedMph' = kmh * 0.621371;
                       truthy = (case expectedSpeed of None \<Rightarrow> False | Some e \<Rightarrow> e \<noteq> 0);
                       error' = (if truthy then \<bar>speedMph' - the expectedSpeed\<bar> else 0);
                       candidate =
                         \<lparr>speedKmh = kmh, speedMph = speedMph',
                          approachFreq = freq1, recedeFreq = freq2,
                          pair_error = error',
                          accuracy = Some (if truthy
                                           then 100 - (error' / the expectedSpeed * 100) else 100),
                          strategy = Tertiary\<rparr>
                   in case bestResult of
                        None \<Rightarrow> Some candidate
                      | Some best \<Rightarrow>
                          if error' < pair_error best then Some candidate else bestResult))
            else bestResult))"

text \<open>
  \<open>tryTertiaryStrategy\<close>: a fresh calculator with limits \<open>(0, 1000)\<close>; \<open>slice(0, 10)\<close> of
  each list; both orders of every pair. \<open>None\<close> is the object \<open>{valid: false}\<close>.
\<close>

definition tryTertiaryStrategy ::
  "('a frequency_candidate_scheme) list \<Rightarrow> ('b frequency_candidate_scheme) list \<Rightarrow>
   real option \<Rightarrow> tier_result option" where
  "tryTertiaryStrategy approachFrequencies recedeFrequencies expectedSpeed =
     (let veryLenientCalculator = setSpeedLimits 0 1000 new_DopplerSpeedCalculator
      in foldl (\<lambda>bestResult approachFreq'.
                  foldl (\<lambda>bestResult recedeFreq'.
                           foldl (considerOrdered veryLenientCalculator expectedSpeed) bestResult
                             [(frequency approachFreq', frequency recedeFreq'),
                              (frequency recedeFreq', frequency approachFreq')])
                        bestResult (take 10 recedeFrequencies))
               None (take 10 approachFrequencies))"

text \<open>
  \<open>Array.prototype.reduce\<close> without an initial value: a \<open>TypeError\<close> on the empty array
  (\<open>None\<close>), otherwise a left fold that starts from the first element.
\<close>

fun js_reduce :: "('a \<Rightarrow> 'a \<Rightarrow> 'a) \<Rightarrow> 'a list \<Rightarrow> 'a option" where
  "js_reduce f [] = None"
| "js_reduce f (x # xs) = Some (foldl f x xs)"

text \<open>The callback \<open>(best, current) => current.speedMph < best.speedMph ? current : best\<close>.\<close>

definition lowerSpeed :: "tier_result \<Rightarrow> tier_result \<Rightarrow> tier_result" where
  "lowerSpeed best current = (if speedMph current < speedMph best then current else best)"

text \<open>
  The final part of \<open>findBestSpeedCalculation\<close>, from the test \<open>strategies.length === 0\<close>
  on. \<open>Inl\<close> carries the error message of the object with \<open>valid: false\<close>; a
  \<open>TypeError\<close> of \<open>reduce\<close> would be caught and returned in the same form.
\<close>

definition chooseBestResult :: "tier_result list \<Rightarrow> string + tier_result" where
  "chooseBestResult strategies =
     (if length strategies = 0 then Inl ''No valid frequency pairs found''
      else
        (let reasonableStrategies =
               filter (\<lambda>s. speedMph s \<ge> 10 \<and> speedMph s \<le> 100) strategies
         in case (if length reasonableStrategies > 0
                  then js_reduce lowerSpeed reasonableStrategies
                  else js_reduce lowerSpeed strategies) of
              Some bestResult \<Rightarrow> Inr bestResult
            | None \<Rightarrow> Inl ''Reduce of empty array with no initial value''))"

text \<open>
  The array \<open>strategies\<close> that \<open>findBestSpeedCalculation\<close> collects: the valid results of
  the three strategies, pushed in the order Primary, Secondary, Tertiary. The analyzer's
  own calculator is the default one.
\<close>

definition collectStrategies ::
  "('a frequency_candidate_scheme) list \<Rightarrow> ('b frequency_candidate_scheme) list \<Rightarrow>
   real option \<Rightarrow> tier_result list" where
  "collectStrategies approachFrequencies recedeFrequencies expectedSpeed =
     (case findOptimalSpeedCalculation new_DopplerSpeedCalculator approachFrequencies
             recedeFrequencies (or_default expectedSpeed 30) of
        Inr primaryResult \<Rightarrow> [tag_result Primary primaryResult]
      | Inl _ \<Rightarrow> []) @
     (case trySecondaryStrategy approachFrequencies recedeFrequencies expectedSpeed of
        Some secondaryResult \<Rightarrow> [secondaryResult]
      | None \<Rightarrow> []) @
     (case tryTertiaryStrategy approachFrequencies recedeFrequencies expectedSpeed of
        Some tertiaryResult \<Rightarrow> [tertiaryResult]
      | None \<Rightarrow> [])"

definition findBestSpeedCalculation ::
  "('a frequency_candidate_scheme) list \<Rightarrow> ('b frequency_candidate_scheme) list \<Rightarrow>
   real option \<Rightarrow> string + tier_result" where
  "findBestSpeedCalculation approachFrequencies recedeFrequencies expectedSpeed =
     chooseBestResult (collectStrategies approachFrequencies recedeFrequencies expectedSpeed)"

section \<open>FrequencyAnalysis (frequency-analysis.js)\<close>

text \<open>
  \<open>Array.prototype.sort\<close> with a comparator. The sort is stable (ECMAScript 2019), and
  for a comparator that orders the elements consistently the result is the one sorted
  arrangement that keeps equal elements in their original order: the result of this
  insertion sort, which puts an element in front of the first element it does not
  exceed.
\<close>

fun js_insort :: "('a \<Rightarrow> 'a \<Rightarrow> real) \<Rightarrow> 'a \<Rightarrow> 'a list \<Rightarrow> 'a list" where
  "js_insort cmp x [] = [x]"
| "js_insort cmp x (y # ys) = (if cmp x y \<le> 0 then x # y # ys else y # js_insort cmp x ys)"

definition js_sort :: "('a \<Rightarrow> 'a \<Rightarrow> real) \<Rightarrow> 'a list \<Rightarrow> 'a list" where
  "js_sort cmp xs = foldr (js_insort cmp) xs []"

text \<open>
  A ranked frequency, as \<open>rankFrequencies\<close> produces it. \<open>powerScore\<close> is
  \<open>freq.power / maxPower\<close>, which is \<open>NaN\<close> when every power is 0; \<open>rank\<close> is the
  1-based position before ranking.
\<close>

record ranked_frequency = frequency_candidate +
  rankingScore :: jsnum
  powerScore :: jsnum
  positionBonus :: real
  frequencyBonus :: real
  rank :: nat

text \<open>
  The numeric fields that the two objects returned by \<open>calculateSectionQuality\<close> share.
  \<open>frequencyDistribution\<close> is \<open>None\<close> where the source returns \<open>undefined\<close>; \<open>peakClarity\<close>
  is a quotient whose divisor may be 0.
\<close>

record quality_metrics =
  overallConfidence :: jsnum
  signalStrength :: real
  peakClarity :: number
  frequencyDistribution :: "real option"
  noiseLevel :: real

text \<open>\<open>calculateVariance\<close>.\<close>

definition calculateVariance :: "real list \<Rightarrow> real" where
  "calculateVariance values =
     (if length values = 0 then 0
      else
        (let mean = foldl (\<lambda>sum val. sum + val) 0 values / real (length values);
             variance = foldl (\<lambda>sum val. sum + (val - mean) ^ 2) 0 values / real (length values)
         in variance))"

text \<open>\<open>Math.max(0.0, Math.min(1.0, x))\<close>, which keeps \<open>NaN\<close>.\<close>

fun clamp_unit :: "number \<Rightarrow> jsnum" where
  "clamp_unit NotANumber = NaN"
| "clamp_unit PlusInfinity = Num 1"
| "clamp_unit MinusInfinity = Num 0"
| "clamp_unit (Finite x) = Num (max 0 (min 1 x))"

text \<open>
  \<open>calculateSectionQuality\<close>, on the list of the strongest frequencies. For more than one
  frequency the source declares \<open>frequencyDistribution\<close> with \<open>const\<close> inside the block of
  the \<open>if\<close>; that name ends with the block, and the variable of the function, declared
  with \<open>var\<close> in the other branch, is still \<open>undefined\<close> when the overall confidence is
  computed. \<open>undefined * 0.2\<close> is \<open>NaN\<close>, and so is the sum.
\<close>

definition calculateSectionQuality :: "frequency_candidate list \<Rightarrow> quality_metrics" where
  "calculateSectionQuality frequencies' =
     (if length frequencies' = 0 then
        \<lparr>overallConfidence = Num 0, signalStrength = 0, peakClarity = Finite 0,
         frequencyDistribution = Some 0, noiseLevel = 1\<rparr>
      else
        (let maxPower = Max (set (map power frequencies'));
             avgPower = foldl (\<lambda>sum f. sum + power f) 0 frequencies' / real (length frequencies');
             signalStrength' = min 1 (maxPower / 0.001);
             peakClarity' =
               (if length frequencies' > 1
                then number_div (Finite (power (frequencies' ! 0) - power (frequencies' ! 1)))
                                (Finite (power (frequencies' ! 0)))
                else Finite 1);
             frequencyDistribution' = (if length frequencies' > 1 then None else Some 0.5);
             powerVariance = calculateVariance (map power frequencies');
             noiseLevel' = min 1 (powerVariance / (avgPower * avgPower + 1 / 10 ^ 10));
             overallConfidence' =
               number_add
                 (number_add
                    (number_add (Finite (signalStrength' * 0.4))
                                (number_mul peakClarity' (Finite 0.3)))
                    (number_mul (case frequencyDistribution' of
                                   None \<Rightarrow> NotANumber | Some d \<Rightarrow> Finite d)
                                (Finite 0.2)))
                 (Finite ((1 - noiseLevel') * 0.1))
         in \<lparr>overallConfidence = clamp_unit overallConfidence',
             signalStrength = signalStrength',
             peakClarity = peakClarity',
             frequencyDistribution = frequencyDistribution',
             noiseLevel = noiseLevel'\<rparr>))"

text \<open>
  The result of \<open>analyzeSingleSection\<close>, as far as \<open>combineAnalyses\<close> reads it. The
  source's fields \<open>valid\<close> and \<open>confidence\<close> carry the prefix \<open>sa_\<close> here, because other
  objects have fields of the same names.
\<close>

record section_analysis =
  sa_valid :: bool
  frequencies :: "ranked_frequency list"
  qualityMetrics :: quality_metrics
  sa_confidence :: jsnum

text \<open>
  An element of \<open>speedCalculations\<close>. The source's fields \<open>approachFreq\<close> and
  \<open>recedeFreq\<close> carry the prefix \<open>sc_\<close>. \<open>speed\<close> is what \<open>calculateSpeed\<close> returned, in
  km/h. \<open>relativeShift\<close> is \<open>None\<close> when the source divides by a recede frequency of 0.
\<close>

record speed_calculation =
  sc_approachFreq :: real
  sc_recedeFreq :: real
  approachPower :: real
  recedePower :: real
  approachRank :: nat
  recedeRank :: nat
  speed :: jsnum
  confidence :: real
  frequencySeparation :: real
  relativeShift :: "real option"

record combined_analysis =
  ca_valid :: bool
  ca_error :: "string option"
  speedCalculations :: "speed_calculation list"
  bestSpeed :: "speed_calculation option"
  ca_confidence :: real
  averageConfidence :: real
  validCalculations :: nat

text \<open>
  The fields of a \<open>FrequencyAnalysis\<close> object that the matching reads, and its
  constructor's defaults: \<open>options.confidenceThreshold || 0.3\<close>,
  \<open>options.topFrequencyCount || 10\<close>, and a default calculator.
\<close>

record FrequencyAnalysis =
  topFrequencyCount :: real
  confidenceThreshold :: real
  dopplerCalculator :: DopplerSpeedCalculator

definition new_FrequencyAnalysis :: "real option \<Rightarrow> real option \<Rightarrow> FrequencyAnalysis" where
  "new_FrequencyAnalysis options_topFrequencyCount options_confidenceThreshold =
     \<lparr>topFrequencyCount = or_default options_topFrequencyCount 10,
      confidenceThreshold = or_default options_confidenceThreshold 0.3,
      dopplerCalculator = new_DopplerSpeedCalculator\<rparr>"

text \<open>\<open>x.powerScore || 0.5\<close>: \<open>NaN\<close> and 0 are falsy.\<close>

fun or_half :: "jsnum \<Rightarrow> real" where
  "or_half NaN = 0.5"
| "or_half (Num x) = (if x = 0 then 0.5 else x)"

text \<open>The speed-reasonableness part of \<open>calculateSpeedConfidence\<close>, on the number passed in.\<close>

fun speedConfidence :: "jsnum \<Rightarrow> real" where
  "speedConfidence NaN = 1"
| "speedConfidence (Num speed') =
     (if speed' < 5 then speed' / 5
      else if speed' > 100 then max 0.2 (1 - (speed' - 100) / 100)
      else 1)"

text \<open>
  \<open>calculateSpeedConfidence\<close>. When the overall confidence of a section is \<open>NaN\<close>, so are
  the quality confidence, the weighted sum and the result of the final clamp. When
  \<open>recedeFreq.frequency\<close> is 0 the separation is a division by zero: for a positive
  approach frequency it is \<open>Infinity\<close> and \<open>Math.min(1, Infinity)\<close> is 1; for a negative one
  it is \<open>-Infinity\<close>, the weighted sum is \<open>-Infinity\<close> and the final clamp gives 0; for 0 it
  is \<open>NaN\<close>, and so is the result.
\<close>

definition calculateSpeedConfidence ::
  "ranked_frequency \<Rightarrow> ranked_frequency \<Rightarrow> jsnum \<Rightarrow> quality_metrics \<Rightarrow> quality_metrics \<Rightarrow> jsnum" where
  "calculateSpeedConfidence approachFreq' recedeFreq' speed' approachQuality recedeQuality =
     (case (overallConfidence approachQuality, overallConfidence recedeQuality) of
        (Num approachOverall, Num recedeOverall) \<Rightarrow>
          (let powerConfidence = min (or_half (powerScore approachFreq'))
                                     (or_half (powerScore recedeFreq'));
               qualityConfidence = (approachOverall + recedeOverall) / 2;
               rankingConfidence = 1 - ((real (rank approachFreq') - 1) * 0.1 +
                                          (real (rank recedeFreq') - 1) * 0.1);
               combined = (\<lambda>separationConfidence.
                             powerConfidence * 0.3 + qualityConfidence * 0.25 +
                             speedConfidence speed' * 0.2 + separationConfidence * 0.15 +
                             max 0 rankingConfidence * 0.1)
           in if frequency recedeFreq' = 0 then
                (if frequency approachFreq' > 0 then Num (max 0 (min 1 (combined 1)))
                 else if frequency approachFreq' < 0 then Num 0
                 else NaN)
              else
                (let separation = (frequency approachFreq' - frequency recedeFreq') /
                                  frequency recedeFreq';
                     separationConfidence = min 1 (separation * 10)
                 in Num (max 0 (min 1 (combined separationConfidence)))))
      | _ \<Rightarrow> NaN)"

text \<open>
  The body of the inner loop of \<open>combineAnalyses\<close>: skip the pair unless the approach
  frequency is higher, and push a calculation when its confidence reaches the threshold
  (a \<open>NaN\<close> confidence does not). Nothing inside the source's \<open>try\<close> throws.
\<close>

definition considerCombination ::
  "FrequencyAnalysis \<Rightarrow> quality_metrics \<Rightarrow> quality_metrics \<Rightarrow> speed_calculation list \<Rightarrow>
   ranked_frequency \<Rightarrow> ranked_frequency \<Rightarrow> speed_calculation list" where
  "considerCombination this approachQuality recedeQuality calcs approachFreq' recedeFreq' =
     (if frequency approachFreq' \<le> frequency recedeFreq' then calcs
      else
        (let speed' = calculateSpeed (dopplerCalculator this)
                        (frequency approachFreq') (frequency recedeFreq')
         in case calculateSpeedConfidence approachFreq' recedeFreq' speed'
                   approachQuality recedeQuality of
              NaN \<Rightarrow> calcs
            | Num speedConfidence' \<Rightarrow>
                if speedConfidence' \<ge> confidenceThreshold this then
                  calcs @
                  [\<lparr>sc_approachFreq = frequency approachFreq',
                    sc_recedeFreq = frequency recedeFreq',
                    approachPower = power approachFreq',
                    recedePower = power recedeFreq',
                    approachRank = rank approachFreq',
                    recedeRank = rank recedeFreq',
                    speed = speed',
                    confidence = speedConfidence',
                    frequencySeparation = frequency approachFreq' - frequency recedeFreq',
                    relativeShift =
                      (if frequency recedeFreq' = 0 then None
                       else Some ((frequency approachFreq' - frequency recedeFreq') /
                                  frequency recedeFreq'))\<rparr>]
                else calcs))"

definition combineAnalyses ::
  "FrequencyAnalysis \<Rightarrow> section_analysis \<Rightarrow> section_analysis \<Rightarrow> combined_analysis" where
  "combineAnalyses this approachAnalysis recedeAnalysis =
     (if \<not> sa_valid approachAnalysis \<or> \<not> sa_valid recedeAnalysis then
        \<lparr>ca_valid = False, ca_error = Some ''One or both sections invalid'',
         speedCalculations = [], bestSpeed = None, ca_confidence = 0,
         averageConfidence = 0, validCalculations = 0\<rparr>
      else
        (let approachFreqs = take 5 (frequencies approachAnalysis);
             recedeFreqs = take 5 (frequencies recedeAnalysis);
             pushed = foldl (\<lambda>calcs approachFreq'.
                               foldl (\<lambda>calcs recedeFreq'.
                                        considerCombination this (qualityMetrics approachAnalysis)
                                          (qualityMetrics recedeAnalysis) calcs approachFreq' recedeFreq')
                                     calcs recedeFreqs)
                            [] approachFreqs;
             sorted = js_sort (\<lambda>a b. confidence b - confidence a) pushed;
             bestSpeed' = (case sorted of [] \<Rightarrow> None | first # _ \<Rightarrow> Some first)
         in \<lparr>ca_valid = (length sorted > 0), ca_error = None,
             speedCalculations = sorted, bestSpeed = bestSpeed',
             ca_confidence = (case bestSpeed' of Some b \<Rightarrow> confidence b | None \<Rightarrow> 0),
             averageConfidence =
               (if length sorted > 0
                then foldl (\<lambda>sum calc. sum + confidence calc) 0 sorted / real (length sorted)
                else 0),
             validCalculations = length sorted\<rparr>))"

section \<open>AudioSlicer (audio-slicer.js)\<close>

text \<open>
  \<open>Array.prototype.slice(start, end)\<close> on integer arguments: a negative index counts from
  the end, and both ends are clamped to the array.
\<close>

definition js_slice :: "'a list \<Rightarrow> int \<Rightarrow> int \<Rightarrow> 'a list" where
  "js_slice xs start end' =
     (let len = int (length xs);
          k = (if start < 0 then max (len + start) 0 else min start len);
          final = (if end' < 0 then max (len + end') 0 else min end' len)
      in take (nat (final - k)) (drop (nat k) xs))"

text \<open>\<open>slice(start)\<close>: the end defaults to the length.\<close>

definition js_slice_from :: "'a list \<Rightarrow> int \<Rightarrow> 'a list" where
  "js_slice_from xs start = js_slice xs start (int (length xs))"

text \<open>The \<open>metadata\<close> objects of the two extraction functions.\<close>

datatype metadata =
    ClosestApproachMetadata int real int int int
  | QuarterMetadata nat nat
  | NoMetadata

text \<open>
  A sections object. A field that an object of the source lacks is \<open>None\<close>. The source's
  field \<open>strategy\<close> is \<open>sec_strategy\<close> here.
\<close>

record sections =
  approaching :: "real list option"
  receding :: "real list option"
  approachDuration :: real
  recedeDuration :: real
  sec_strategy :: "string option"
  sec_metadata :: metadata
  sectioningMethod :: "string option"

text \<open>
  \<open>AudioSlicer.extractSections\<close>. The sample rate is a positive number, and
  \<open>closestApproachIndex\<close> an integer.
\<close>

definition AudioSlicer_extractSections :: "real list \<Rightarrow> real \<Rightarrow> int \<Rightarrow> real \<Rightarrow> sections" where
  "AudioSlicer_extractSections samples sampleRate closestApproachIndex duration =
     (let marginSeconds = min 0.3 (duration * 0.2);
          marginSamples = \<lfloor>marginSeconds * sampleRate\<rfloor>;
          minSectionSamples = 2048;
          approachEnd = max (closestApproachIndex - marginSamples) minSectionSamples;
          recedeStart = min (closestApproachIndex + marginSamples)
                            (int (length samples) - minSectionSamples);
          approachSection = js_slice samples 0 approachEnd;
          recedeSection = js_slice_from samples recedeStart
      in \<lparr>approaching = Some approachSection,
          receding = Some recedeSection,
          approachDuration = real (length approachSection) / sampleRate,
          recedeDuration = real (length recedeSection) / sampleRate,
          sec_strategy = Some ''closest_approach'',
          sec_metadata = ClosestApproachMetadata closestApproachIndex marginSeconds marginSamples
                           approachEnd recedeStart,
          sectioningMethod = None\<rparr>)"

definition extractShortFileSections :: "real list \<Rightarrow> real \<Rightarrow> sections" where
  "extractShortFileSections samples sampleRate =
     (let quarterLength = length samples div 4;
          approachSection = js_slice samples 0 (int quarterLength);
          recedeSection = js_slice_from samples (- int quarterLength)
      in \<lparr>approaching = Some approachSection,
          receding = Some recedeSection,
          approachDuration = real (length approachSection) / sampleRate,
          recedeDuration = real (length recedeSection) / sampleRate,
          sec_strategy = Some ''short_file_quarters'',
          sec_metadata = QuarterMetadata quarterLength (length samples),
          sectioningMethod = None\<rparr>)"

text \<open>
  The messages of \<open>validateSections\<close>, with the numbers they interpolate: the length found
  and the minimum, and for the imbalance warning the two lengths whose ratio is reported.
\<close>

datatype validation_error =
    ApproachingTooShort nat nat
  | RecedingTooShort nat nat

datatype validation_warning = SectionLengthImbalance nat nat

record validation =
  isValid :: bool
  errors :: "validation_error list"
  warnings :: "validation_warning list"
  approachingDetails :: "(nat \<times> real) option"
  recedingDetails :: "(nat \<times> real) option"
  val_strategy :: string

text \<open>
  \<open>validateSections(sections, minSamples)\<close>. An array is truthy also when it is empty. The
  ratio of the lengths is \<open>Infinity\<close> for an empty receding section beside a non-empty
  approaching one (a warning), and \<open>NaN\<close> when both are empty (no warning).
\<close>

definition validateSections :: "sections \<Rightarrow> nat \<Rightarrow> validation" where
  "validateSections sections' minSamples =
     (let approachErrors =
            (case approaching sections' of
               None \<Rightarrow> [ApproachingTooShort 0 minSamples]
             | Some a \<Rightarrow> if length a < minSamples
                         then [ApproachingTooShort (length a) minSamples] else []);
          recedeErrors =
            (case receding sections' of
               None \<Rightarrow> [RecedingTooShort 0 minSamples]
             | Some r \<Rightarrow> if length r < minSamples
                         then [RecedingTooShort (length r) minSamples] else []);
          errors' = approachErrors @ recedeErrors;
          warnings' =
            (case (approaching sections', receding sections') of
               (Some a, Some r) \<Rightarrow>
                 if length r = 0
                 then (if length a > 0 then [SectionLengthImbalance (length a) (length r)] else [])
                 else (let ratio = real (length a) / real (length r)
                       in if ratio > 5 \<or> ratio < 0.2
                          then [SectionLengthImbalance (length a) (length r)] else [])
             | _ \<Rightarrow> [])
      in \<lparr>isValid = (length errors' = 0),
          errors = errors',
          warnings = warnings',
          approachingDetails =
            (case approaching sections' of
               None \<Rightarrow> None
             | Some a \<Rightarrow> if length a < minSamples then None
                         else Some (length a, approachDuration sections')),
          recedingDetails =
            (case receding sections' of
               None \<Rightarrow> None
             | Some r \<Rightarrow> if length r < minSamples then None
                         else Some (length r, recedeDuration sections')),
          val_strategy = (case sec_strategy sections' of
                            None \<Rightarrow> ''unknown''
                          | Some s \<Rightarrow> if s = [] then ''unknown'' else s)\<rparr>)"

text \<open>An element of the array \<open>strategies\<close> of \<open>extractBestSections\<close>.\<close>

record strategy_entry =
  name :: string
  entry_sections :: sections
  entry_validation :: validation
  entry_confidence :: real
  reason :: string

text \<open>The object that \<open>extractBestSections\<close> returns: the best sections and the added fields.\<close>

record best_sections =
  chosen_sections :: sections
  selectedStrategy :: string
  best_confidence :: real
  best_reason :: string
  best_validation :: validation
  alternativeStrategies :: "strategy_entry list"

text \<open>
  The array \<open>strategies\<close> that \<open>extractBestSections\<close> builds: the closest-approach
  strategy when an index inside the samples is given (\<open>None\<close> is \<open>null\<close>), the short-file
  strategy for a duration below 5 seconds, and the fallback quarters, in this order.
\<close>

definition buildStrategies :: "real list \<Rightarrow> real \<Rightarrow> int option \<Rightarrow> strategy_entry list" where
  "buildStrategies samples sampleRate closestApproachIndex =
     (let duration = real (length samples) / sampleRate;
          strategy1 =
            (case closestApproachIndex of
               None \<Rightarrow> []
             | Some idx \<Rightarrow>
                 if idx > 0 \<and> idx < int (length samples) then
                   (let sections' = AudioSlicer_extractSections samples sampleRate idx duration;
                        validation' = validateSections sections' 2048
                    in [\<lparr>name = ''closest_approach'', entry_sections = sections',
                          entry_validation = validation',
                          entry_confidence = (if isValid validation' then 0.9 else 0.1),
                          reason = (if isValid validation'
                                    then ''Closest approach detected with valid sections''
                                    else ''Closest approach sections too small'')\<rparr>])
                 else []);
          strategy2 =
            (if duration < 5 then
               (let sections' = extractShortFileSections samples sampleRate;
                    validation' = validateSections sections' 1024
                in [\<lparr>name = ''short_file_quarters'', entry_sections = sections',
                      entry_validation = validation',
                      entry_confidence = (if isValid validation' then 0.7 else 0.2),
                      reason = (if isValid validation'
                                then ''Short file strategy with valid sections''
                                else ''Short file sections too small'')\<rparr>])
             else []);
          quarterLength = length samples div 4;
          fallbackSections =
            \<lparr>approaching = Some (js_slice samples 0 (int quarterLength)),
             receding = Some (js_slice_from samples (- int quarterLength)),
             approachDuration = real quarterLength / sampleRate,
             recedeDuration = real quarterLength / sampleRate,
             sec_strategy = Some ''simple_quarters'',
             sec_metadata = NoMetadata,
             sectioningMethod = None\<rparr>;
          fallbackValidation = validateSections fallbackSections 512;
          strategy3 =
            [\<lparr>name = ''simple_quarters'', entry_sections = fallbackSections,
              entry_validation = fallbackValidation,
              entry_confidence = (if isValid fallbackValidation then 0.5 else 0.1),
              reason = (if isValid fallbackValidation
                        then ''Fallback quarters strategy'' else ''All strategies failed'')\<rparr>]
      in strategy1 @ strategy2 @ strategy3)"

text \<open>
  \<open>extractBestSections\<close>: the selection among the strategies. Indexing the sorted array
  with \<open>[0]\<close> gives \<open>undefined\<close> on an empty array, and reading a field of it would throw a
  \<open>TypeError\<close>: the \<open>Inl\<close> branch.
\<close>

definition extractBestSections :: "real list \<Rightarrow> real \<Rightarrow> int option \<Rightarrow> string + best_sections" where
  "extractBestSections samples sampleRate closestApproachIndex =
     (let strategies = buildStrategies samples sampleRate closestApproachIndex;
          validStrategies = filter (\<lambda>s. isValid (entry_validation s)) strategies;
          byConfidence = (\<lambda>a b. entry_confidence b - entry_confidence a)
      in case (if length validStrategies > 0
               then js_sort byConfidence validStrategies
               else js_sort byConfidence strategies) of
           [] \<Rightarrow> Inl ''Cannot read properties of undefined''
         | bestStrategy # _ \<Rightarrow>
             Inr \<lparr>chosen_sections = entry_sections bestStrategy,
                  selectedStrategy = name bestStrategy,
                  best_confidence = entry_confidence bestStrategy,
                  best_reason = reason bestStrategy,
                  best_validation = entry_validation bestStrategy,
                  alternativeStrategies =
                    filter (\<lambda>s. name s \<noteq> name bestStrategy) strategies\<rparr>)"

text \<open>
  \<open>extractTimeSections\<close>. \<open>timeRanges\<close> is the list of the entries \<open>[name, [startTime,
  endTime]]\<close> of the object, in the order of \<open>Object.entries\<close>; the names are distinct, as the
  keys of an object are. The first component of the result holds the sections by name,
  the second the metadata by name: \<open>startTime\<close>, \<open>endTime\<close>, \<open>startSample\<close>, \<open>endSample\<close>
  and \<open>duration\<close>. The field \<open>strategy\<close> of the object is \<open>'time_based'\<close>.
\<close>

record time_sections =
  named_sections :: "(string \<times> real list) list"
  named_metadata :: "(string \<times> real \<times> real \<times> int \<times> int \<times> real) list"

definition extractTimeSections ::
  "real list \<Rightarrow> real \<Rightarrow> (string \<times> real \<times> real) list \<Rightarrow> time_sections" where
  "extractTimeSections samples sampleRate timeRanges =
     \<lparr>named_sections =
        map (\<lambda>(sectionName, startTime, endTime).
               (let startSample = \<lfloor>startTime * sampleRate\<rfloor>;
                    endSample = \<lfloor>endTime * sampleRate\<rfloor>;
                    validStartSample = max 0 startSample;
                    validEndSample = min (int (length samples)) endSample
                in (sectionName, js_slice samples validStartSample validEndSample)))
            timeRanges,
      named_metadata =
        map (\<lambda>(sectionName, startTime, endTime).
               (let startSample = \<lfloor>startTime * sampleRate\<rfloor>;
                    endSample = \<lfloor>endTime * sampleRate\<rfloor>;
                    validStartSample = max 0 startSample;
                    validEndSample = min (int (length samples)) endSample
                in (sectionName, startTime, endTime, validStartSample, validEndSample,
                    real_of_int (validEndSample - validStartSample) / sampleRate)))
            timeRanges\<rparr>"

text \<open>
  \<open>validateSections\<close> on the object of \<open>extractTimeSections\<close>. Its sections are the
  properties \<open>approaching\<close> and \<open>receding\<close>, present when the time ranges name them. The
  object has a property \<open>approachDuration\<close> or \<open>recedeDuration\<close> only when the time ranges
  name one, and then it is an array: the duration in the details is that array, or
  \<open>undefined\<close> (\<open>None\<close>).
\<close>

record time_validation =
  tv_isValid :: bool
  tv_errors :: "validation_error list"
  tv_warnings :: "validation_warning list"
  tv_approachingDetails :: "(nat \<times> real list option) option"
  tv_recedingDetails :: "(nat \<times> real list option) option"
  tv_strategy :: string

definition validateTimeSections :: "time_sections \<Rightarrow> nat \<Rightarrow> time_validation" where
  "validateTimeSections sections' minSamples =
     (let approaching' = map_of (named_sections sections') ''approaching'';
          receding' = map_of (named_sections sections') ''receding'';
          approachErrors =
            (case approaching' of
               None \<Rightarrow> [ApproachingTooShort 0 minSamples]
             | Some a \<Rightarrow> if length a < minSamples
                         then [ApproachingTooShort (length a) minSamples] else []);
          recedeErrors =
            (case receding' of
               None \<Rightarrow> [RecedingTooShort 0 minSamples]
             | Some r \<Rightarrow> if length r < minSamples
                         then [RecedingTooShort (length r) minSamples] else []);
          errors' = approachErrors @ recedeErrors;
          warnings' =
            (case (approaching', receding') of
               (Some a, Some r) \<Rightarrow>
                 if length r = 0
                 then (if length a > 0 then [SectionLengthImbalance (length a) (length r)] else [])
                 else (let ratio = real (length a) / real (length r)
                       in if ratio > 5 \<or> ratio < 0.2
                          then [SectionLengthImbalance (length a) (length r)] else [])
             | _ \<Rightarrow> [])
      in \<lparr>tv_isValid = (length errors' = 0),
          tv_errors = errors',
          tv_warnings = warnings',
          tv_approachingDetails =
            (case approaching' of
               None \<Rightarrow> None
             | Some a \<Rightarrow> if length a < minSamples then None
                         else Some (length a, map_of (named_sections sections') ''approachDuration'')),
          tv_recedingDetails =
            (case receding' of
               None \<Rightarrow> None
             | Some r \<Rightarrow> if length r < minSamples then None
                         else Some (length r, map_of (named_sections sections') ''recedeDuration'')),
          tv_strategy = ''time_based''\<rparr>)"

section \<open>ApproachDetector: the simple detector (audio-timing-strategy.js)\<close>

text \<open>
  \<open>calculateRMSEnergy\<close>: the window stops at the end of the samples, and the mean divides
  by the window size.
\<close>

definition calculateRMSEnergy :: "real list \<Rightarrow> nat \<Rightarrow> nat \<Rightarrow> real" where
  "calculateRMSEnergy samples startIndex windowSize =
     (let endIndex = min (startIndex + windowSize) (length samples);
          sumSquares = foldl (\<lambda>sumSquares j. sumSquares + samples ! j * samples ! j) 0
                         [startIndex..<endIndex]
      in sqrt (sumSquares / real windowSize))"

text \<open>
  The loop of \<open>detectClosestApproach\<close> for the default window of 2048 samples, which
  advances by \<open>windowSize / 4 = 512\<close> while \<open>i <= samples.length - windowSize\<close>.
\<close>

function detectLoop :: "real list \<Rightarrow> nat \<Rightarrow> real \<Rightarrow> nat \<Rightarrow> nat" where
  "detectLoop samples i maxRMSEnergy closestApproachIndex =
     (if int i \<le> int (length samples) - 2048 then
        (let rmsEnergy = calculateRMSEnergy samples i 2048
         in if rmsEnergy > maxRMSEnergy
            then detectLoop samples (i + 512) rmsEnergy (i + 1024)
            else detectLoop samples (i + 512) maxRMSEnergy closestApproachIndex)
      else closestApproachIndex)"
  by pat_completeness auto
termination
  by (relation "measure (\<lambda>(samples, i, m, c). length samples - i)") auto

definition detectClosestApproach :: "real list \<Rightarrow> nat" where
  "detectClosestApproach samples = detectLoop samples 0 0 0"

definition isShortFile :: "real \<Rightarrow> bool" where
  "isShortFile duration \<longleftrightarrow> duration < 2"

section \<open>AudioAnalyzer: sectioning (audio-analyzer.js)\<close>

text \<open>The truth value of an object in a condition: every object is truthy.\<close>

definition js_truthy_object :: "'a \<Rightarrow> bool" where
  "js_truthy_object obj = True"

text \<open>\<open>extractSimpleSections\<close>: the object has neither \<open>strategy\<close> nor \<open>metadata\<close>.\<close>

definition extractSimpleSections :: "real list \<Rightarrow> real \<Rightarrow> sections" where
  "extractSimpleSections samples sampleRate =
     (let totalSamples = length samples;
          quarterLength = totalSamples div 4
      in \<lparr>approaching = Some (js_slice samples 0 (int quarterLength)),
          receding = Some (js_slice_from samples (int totalSamples - int quarterLength)),
          approachDuration = real quarterLength / sampleRate,
          recedeDuration = real quarterLength / sampleRate,
          sec_strategy = None,
          sec_metadata = NoMetadata,
          sectioningMethod = None\<rparr>)"

text \<open>
  \<open>AudioAnalyzer.extractSections(samples, sampleRate, strategy)\<close>; the default strategy is
  \<open>'peak_rms_energy'\<close>. The condition of the inner \<open>if\<close> is the object that
  \<open>validateSections\<close> returns.
\<close>

definition AudioAnalyzer_extractSections :: "real list \<Rightarrow> real \<Rightarrow> string \<Rightarrow> sections" where
  "AudioAnalyzer_extractSections samples sampleRate strategy' =
     (let duration = real (length samples) / sampleRate
      in if strategy' = ''peak_rms_energy'' then
           (if isShortFile duration then
              (extractShortFileSections samples sampleRate)\<lparr>sectioningMethod := Some ''quarters''\<rparr>
            else
              (let closestApproachIndex = detectClosestApproach samples;
                   sections' = AudioSlicer_extractSections samples sampleRate
                                 (int closestApproachIndex) duration
               in if js_truthy_object (validateSections sections' 2048)
                  then sections'\<lparr>sectioningMethod := Some ''peak_rms_energy''\<rparr>
                  else (extractSimpleSections samples sampleRate)
                         \<lparr>sectioningMethod := Some ''quarters''\<rparr>))
         else (extractSimpleSections samples sampleRate)\<lparr>sectioningMethod := Some ''quarters''\<rparr>)"

section \<open>ApproachDetector: energy peaks (audio-timing-strategy.js)\<close>

text \<open>An element of an energy profile.\<close>

record energy_point =
  index :: nat
  energy :: real
  time :: real

text \<open>
  A peak. The source's fields \<open>index\<close>, \<open>energy\<close>, \<open>time\<close> and \<open>confidence\<close> carry the prefix
  \<open>pk_\<close> here.
\<close>

record peak =
  pk_index :: nat
  pk_energy :: real
  prominence :: real
  normalizedProminence :: real
  pk_time :: real
  pk_confidence :: real

text \<open>
  The inner loop of \<open>findEnergyPeaks\<close>: the least energy among the neighbours of position
  \<open>i\<close> within the search radius, starting from the energy at \<open>i\<close>. The lower end is
  \<open>Math.max(0, i - searchRadius)\<close>, the truncated difference of naturals.
\<close>

definition minSurroundingEnergy :: "energy_point list \<Rightarrow> nat \<Rightarrow> nat \<Rightarrow> real" where
  "minSurroundingEnergy energyProfile i searchRadius =
     foldl (\<lambda>minSurrounding j.
              if j \<noteq> i \<and> energy (energyProfile ! j) < minSurrounding
              then energy (energyProfile ! j) else minSurrounding)
           (energy (energyProfile ! i))
           [i - searchRadius ..< min (length energyProfile - 1) (i + searchRadius) + 1]"

text \<open>
  The body of the outer loop, for a position \<open>i\<close> with \<open>1 \<le> i < length - 1\<close>: the peaks
  pushed at \<open>i\<close> (none or one). An energy profile holds RMS values, which are not
  negative; a local maximum then has a positive energy, so that \<open>maxEnergy\<close> is positive
  wherever a peak is built and both quotients are finite.
\<close>

definition peakAt :: "energy_point list \<Rightarrow> real \<Rightarrow> real \<Rightarrow> nat \<Rightarrow> peak list" where
  "peakAt energyProfile maxEnergy minProminence i =
     (let current = energyProfile ! i;
          prev = energyProfile ! (i - 1);
          next = energyProfile ! (i + 1)
      in if energy current > energy prev \<and> energy current > energy next then
           (let searchRadius = min 20 (length energyProfile div 10);
                minSurrounding = minSurroundingEnergy energyProfile i searchRadius;
                peakProminence = energy current - minSurrounding
            in if peakProminence \<ge> minProminence then
                 [\<lparr>pk_index = index current,
                   pk_energy = energy current,
                   prominence = peakProminence,
                   normalizedProminence = peakProminence / maxEnergy,
                   pk_time = time current,
                   pk_confidence = min 1 (peakProminence / (maxEnergy * 0.5))\<rparr>]
               else [])
         else [])"

text \<open>\<open>findEnergyPeaks(energyProfile, prominence)\<close>; the default prominence is 0.1.\<close>

definition findEnergyPeaks :: "energy_point list \<Rightarrow> real \<Rightarrow> peak list" where
  "findEnergyPeaks energyProfile prominence' =
     (if length energyProfile < 3 then []
      else
        (let maxEnergy = Max (set (map energy energyProfile));
             minProminence = maxEnergy * prominence';
             peaks = concat (map (peakAt energyProfile maxEnergy minProminence)
                               [1 ..< length energyProfile - 1])
         in js_sort (\<lambda>a b. prominence b - prominence a) peaks))"

text \<open>The text of \<open>reason\<close>, with the confidence it interpolates.\<close>

datatype detection_reason =
    NoEnergyPeaksDetected
  | LowConfidencePeakSelected real
  | HighConfidencePeakDetected real

text \<open>
  The object that \<open>selectClosestApproachPeak\<close> returns. The source's fields \<open>confidence\<close>,
  \<open>reason\<close>, \<open>energy\<close>, \<open>prominence\<close> and \<open>time\<close> carry the prefix \<open>det_\<close>; a field absent
  from an object is \<open>None\<close>.
\<close>

record detection =
  found :: bool
  det_confidence :: real
  det_reason :: detection_reason
  closestApproachIndex :: nat
  estimatedIndex :: nat
  det_energy :: "real option"
  det_prominence :: "real option"
  det_time :: "real option"
  warning :: "string option"

text \<open>
  \<open>selectClosestApproachPeak(peaks, energyProfile, windowSamples, minimumConfidence)\<close>;
  the default minimum confidence is 0.3. The loop with \<open>break\<close> finds the first peak whose
  confidence reaches the minimum.
\<close>

definition selectClosestApproachPeak ::
  "peak list \<Rightarrow> energy_point list \<Rightarrow> nat \<Rightarrow> real \<Rightarrow> detection" where
  "selectClosestApproachPeak peaks energyProfile windowSamples minimumConfidence =
     (case peaks of
        [] \<Rightarrow>
          \<lparr>found = False, det_confidence = 0, det_reason = NoEnergyPeaksDetected,
           closestApproachIndex = length energyProfile div 2,
           estimatedIndex = length energyProfile div 2,
           det_energy = None, det_prominence = None, det_time = None, warning = None\<rparr>
      | first # _ \<Rightarrow>
          (case List.find (\<lambda>peak. pk_confidence peak \<ge> minimumConfidence) peaks of
             None \<Rightarrow>
               \<lparr>found = True, det_confidence = pk_confidence first,
                det_reason = LowConfidencePeakSelected (pk_confidence first),
                closestApproachIndex = pk_index first,
                estimatedIndex = pk_index first,
                det_energy = Some (pk_energy first),
                det_prominence = Some (prominence first),
                det_time = Some (pk_time first),
                warning = Some ''Low confidence detection - results may be unreliable''\<rparr>
           | Some bestPeak \<Rightarrow>
               \<lparr>found = True, det_confidence = pk_confidence bestPeak,
                det_reason = HighConfidencePeakDetected (pk_confidence bestPeak),
                closestApproachIndex = pk_index bestPeak,
                estimatedIndex = pk_index bestPeak,
                det_energy = Some (pk_energy bestPeak),
                det_prominence = Some (prominence bestPeak),
                det_time = Some (pk_time bestPeak),
                warning = None\<rparr>))"

section \<open>AudioAnalyzer: the sectioning of the pipeline (audio-analyzer.js)\<close>

text \<open>
  The configuration, as far as \<open>extractOptimalSections\<close> reads it: \<open>timeRanges\<close> is \<open>None\<close>
  when the configuration has none.
\<close>

record analysis_config =
  sectioningStrategy :: string
  timeRanges :: "(string \<times> real \<times> real) list option"

text \<open>
  The object that \<open>extractOptimalSections\<close> returns, with the validation it has assigned to
  the field \<open>validation\<close>: an object of \<open>extractSections\<close> or \<open>extractShortFileSections\<close>,
  an object of \<open>extractTimeSections\<close>, or the object of \<open>extractBestSections\<close>, whose field
  \<open>validation\<close> is overwritten.
\<close>

datatype optimal_sections =
    SlicedSections sections validation
  | TimeSections time_sections time_validation
  | BestSections best_sections

text \<open>
  \<open>extractOptimalSections\<close>. \<open>approachDetection\<close> is \<open>None\<close> for \<open>null\<close>. Every case of the
  \<open>switch\<close> ends in the same statement, which validates the chosen object with the
  default minimum of 2048 samples. An exception of \<open>extractBestSections\<close> is not caught
  here.
\<close>

definition extractOptimalSections ::
  "real list \<Rightarrow> real \<Rightarrow> detection option \<Rightarrow> analysis_config \<Rightarrow> string + optimal_sections" where
  "extractOptimalSections samples sampleRate approachDetection config =
     (let quarters = (let sectioning = extractShortFileSections samples sampleRate
                      in Inr (SlicedSections sectioning (validateSections sectioning 2048)));
          detectedIndex = (case approachDetection of
                             None \<Rightarrow> None
                           | Some d \<Rightarrow> if found d then Some (int (closestApproachIndex d))
                                       else None)
      in if sectioningStrategy config = ''closest_approach'' then
           (case detectedIndex of
              Some i \<Rightarrow>
                (let sectioning = AudioSlicer_extractSections samples sampleRate i
                                    (real (length samples) / sampleRate)
                 in Inr (SlicedSections sectioning (validateSections sectioning 2048)))
            | None \<Rightarrow> quarters)
         else if sectioningStrategy config = ''quarters'' then quarters
         else if sectioningStrategy config = ''time_based'' then
           (case timeRanges config of
              Some ranges \<Rightarrow>
                (let sectioning = extractTimeSections samples sampleRate ranges
                 in Inr (TimeSections sectioning (validateTimeSections sectioning 2048)))
            | None \<Rightarrow> quarters)
         else
           (case extractBestSections samples sampleRate detectedIndex of
              Inl exception \<Rightarrow> Inl exception
            | Inr sectioning \<Rightarrow>
                Inr (BestSections
                       (sectioning\<lparr>best_validation :=
                                     validateSections (chosen_sections sectioning) 2048\<rparr>))))"

section \<open>SpectrumAnalyzer (pure-js/spectrum-analyzer.js)\<close>

text \<open>
  The fields of a \<open>SpectrumAnalyzer\<close>. \<open>None\<close> is \<open>null\<close>. The source's fields \<open>samples\<close>,
  \<open>sampleRate\<close> and \<open>windowType\<close> carry the prefix \<open>an_\<close>, and \<open>frequencies\<close> is
  \<open>spectrumFrequencies\<close>.
\<close>

record SpectrumAnalyzer =
  an_samples :: "real list"
  an_sampleRate :: real
  an_windowType :: string
  powerSpectrum :: "real list option"
  spectrumFrequencies :: "real list option"

text \<open>
  The constructor: \<open>[...samples]\<close> is a new array with the same elements, and
  \<open>options.windowType || 'hamming'\<close> falls back on a missing or empty string.
\<close>

definition new_SpectrumAnalyzer :: "real list \<Rightarrow> real \<Rightarrow> string option \<Rightarrow> SpectrumAnalyzer" where
  "new_SpectrumAnalyzer samples sampleRate options_windowType =
     \<lparr>an_samples = samples,
      an_sampleRate = sampleRate,
      an_windowType = (case options_windowType of
                         None \<Rightarrow> ''hamming''
                       | Some w \<Rightarrow> if w = [] then ''hamming'' else w),
      powerSpectrum = None,
      spectrumFrequencies = None\<rparr>"

text \<open>
  \<open>Math.pow(2, Math.ceil(Math.log2(originalLength)))\<close>: for a length of 0 the logarithm
  is \<open>-Infinity\<close> and the power is 0.
\<close>

definition fftLengthOf :: "nat \<Rightarrow> nat" where
  "fftLengthOf originalLength =
     (if originalLength = 0 then 0 else 2 ^ nat \<lceil>log 2 (real originalLength)\<rceil>)"

text \<open>
  \<open>calculatePowerSpectrum\<close>. The numeric content of a bin, \<open>(magnitude * windowGain) /
  fftLength\<close> of the windowed and transformed samples, is the parameter \<open>binPower\<close>, given
  the window type, the padded samples and the bin: the forward transform is an external
  capability with several implementations, and the properties below hold for any
  values. For a single sample \<open>fftLength\<close> is 1 and \<open>new Array(0.5)\<close> throws a
  \<open>RangeError\<close> before any field is assigned: the \<open>Inl\<close> branch.
\<close>

definition calculatePowerSpectrum ::
  "(string \<Rightarrow> real list \<Rightarrow> nat \<Rightarrow> real) \<Rightarrow> SpectrumAnalyzer \<Rightarrow> string + SpectrumAnalyzer" where
  "calculatePowerSpectrum binPower this =
     (let originalLength = length (an_samples this);
          fftLength = fftLengthOf originalLength;
          processedSamples =
            (if originalLength < fftLength
             then an_samples this @ replicate (fftLength - originalLength) 0
             else if originalLength > fftLength then js_slice (an_samples this) 0 (int fftLength)
             else an_samples this)
      in if fftLength = 1 then Inl ''Invalid array length''
         else
           (let halfLength = fftLength div 2
            in Inr (this\<lparr>powerSpectrum :=
                           Some (map (binPower (an_windowType this) processedSamples)
                                   [0 ..< halfLength]),
                         spectrumFrequencies :=
                           Some (map (\<lambda>i. real i * an_sampleRate this / real fftLength)
                                   [0 ..< halfLength])\<rparr>)))"

text \<open>
  \<open>findPeakFrequency\<close>: an error before the spectrum is computed; otherwise the frequency
  at the index of the greatest power above 0 among the bins from 1 on, \<open>None\<close> being
  \<open>undefined\<close> when there is no bin at all.
\<close>

definition findPeakFrequency :: "SpectrumAnalyzer \<Rightarrow> string + real option" where
  "findPeakFrequency this =
     (case powerSpectrum this of
        None \<Rightarrow> Inl ''Must call calculatePowerSpectrum() first''
      | Some ps \<Rightarrow>
          (let (maxPower, peakIndex) =
                 foldl (\<lambda>(maxPower, peakIndex) i.
                          if ps ! i > maxPower then (ps ! i, i) else (maxPower, peakIndex))
                       (0, 0) [1 ..< length ps]
           in case spectrumFrequencies this of
                None \<Rightarrow> Inl ''Cannot read properties of null''
              | Some fs \<Rightarrow> Inr (if peakIndex < length fs then Some (fs ! peakIndex) else None)))"

text \<open>
  \<open>getStrongestFrequencies(count)\<close>; the default count is 5. Both arrays have the same
  length once the spectrum is computed.
\<close>

definition getStrongestFrequencies ::
  "SpectrumAnalyzer \<Rightarrow> int \<Rightarrow> string + frequency_candidate list" where
  "getStrongestFrequencies this count' =
     (case powerSpectrum this of
        None \<Rightarrow> Inl ''Must call calculatePowerSpectrum() first''
      | Some ps \<Rightarrow>
          (case spectrumFrequencies this of
             None \<Rightarrow> Inl ''Cannot read properties of null''
           | Some fs \<Rightarrow>
               (let candidates = map (\<lambda>i. \<lparr>frequency = fs ! i, power = ps ! i\<rparr>) [0 ..< length fs];
                    sorted = js_sort (\<lambda>a b. power b - power a) candidates
                in Inr (js_slice sorted 0 count'))))"

section \<open>Arrays as mutable objects: the store\<close>

text \<open>
  The functions above take an array as the list of its elements. To follow which array
  an operation writes, the definitions of this section give every array an identity:
  the store is the list of all arrays allocated so far, and a reference is a position
  in it. A cell holds an array of numbers or an array of frequency candidates.
\<close>

datatype cell = Nums "real list" | Cands "frequency_candidate list"

type_synonym store = "cell list"

type_synonym ref = nat

definition nums :: "store \<Rightarrow> ref \<Rightarrow> real list" where
  "nums s a = (case s ! a of Nums xs \<Rightarrow> xs | Cands _ \<Rightarrow> [])"

definition cands :: "store \<Rightarrow> ref \<Rightarrow> frequency_candidate list" where
  "cands s a = (case s ! a of Cands cs \<Rightarrow> cs | Nums _ \<Rightarrow> [])"

text \<open>A new array: \<open>[...xs]\<close>, \<open>new Array(n)\<close>, \<open>slice\<close>, \<open>concat\<close> and \<open>[]\<close> all allocate.\<close>

definition alloc :: "cell \<Rightarrow> store \<Rightarrow> ref \<times> store" where
  "alloc c s = (length s, s @ [c])"

text \<open>
  The assignment \<open>xs[i] = v\<close>: inside the array it replaces the element, beyond the end
  it extends the array. An empty slot is written as 0; the functions below store_set every
  slot before they read it.
\<close>

definition js_set :: "real list \<Rightarrow> nat \<Rightarrow> real \<Rightarrow> real list" where
  "js_set xs i v =
     (if i < length xs then xs[i := v] else xs @ replicate (i - length xs) 0 @ [v])"

definition store_set :: "ref \<Rightarrow> nat \<Rightarrow> real \<Rightarrow> store \<Rightarrow> store" where
  "store_set a i v s = s[a := Nums (js_set (nums s a) i v)]"

text \<open>\<open>candidates.push(c)\<close> and the in-place \<open>candidates.sort(cmp)\<close>.\<close>

definition push_cand :: "ref \<Rightarrow> frequency_candidate \<Rightarrow> store \<Rightarrow> store" where
  "push_cand a c s = s[a := Cands (cands s a @ [c])]"

definition sort_cands ::
  "ref \<Rightarrow> (frequency_candidate \<Rightarrow> frequency_candidate \<Rightarrow> real) \<Rightarrow> store \<Rightarrow> store" where
  "sort_cands a cmp s = s[a := Cands (js_sort cmp (cands s a))]"

subsection \<open>Windowing (windowing-utils.js)\<close>

definition lower_char :: "char \<Rightarrow> char" where
  "lower_char c =
     (let n = (of_char c :: nat) in if 65 \<le> n \<and> n \<le> 90 then char_of (n + 32) else c)"

definition js_toLowerCase :: "string \<Rightarrow> string" where
  "js_toLowerCase str = map lower_char str"

text \<open>
  The window coefficient of position \<open>i\<close> in a window of \<open>N\<close> points, by the \<open>switch\<close> on
  the lower-case window type. For \<open>N = 1\<close> the source divides by zero and the coefficient
  is not a number; the spectrum computation fails for that length in any case.
\<close>

definition windowValue :: "string \<Rightarrow> nat \<Rightarrow> nat \<Rightarrow> real" where
  "windowValue windowType N i =
     (let t = js_toLowerCase windowType
      in if t = ''hamming'' then 0.54 - 0.46 * cos (2 * pi * real i / (real N - 1))
         else if t = ''hann'' \<or> t = ''hanning''
           then 0.5 * (1 - cos (2 * pi * real i / (real N - 1)))
         else if t = ''blackman''
           then 0.42 - 0.5 * cos (2 * pi * real i / (real N - 1))
                + 0.08 * cos (4 * pi * real i / (real N - 1))
         else 1)"

text \<open>
  \<open>applyWindowByType(samples, windowType)\<close>: a copy for \<open>'none'\<close>; otherwise a new array
  of \<open>N\<close> slots, written slot by slot.
\<close>

definition applyWindowByType :: "ref \<Rightarrow> string \<Rightarrow> store \<Rightarrow> ref \<times> store" where
  "applyWindowByType samples windowType s =
     (if windowType = ''none'' then alloc (Nums (nums s samples)) s
      else
        (let N = length (nums s samples);
             (windowed, s1) = alloc (Nums (replicate N 0)) s
         in (windowed,
             foldl (\<lambda>s i. store_set windowed i (nums s samples ! i * windowValue windowType N i) s)
                   s1 [0 ..< N])))"

definition getCoherentGain :: "string \<Rightarrow> nat \<Rightarrow> real" where
  "getCoherentGain windowType length' =
     (if windowType = ''none'' then 1
      else real length' /
           foldl (\<lambda>sum i. sum + windowValue windowType length' i) 0 [0 ..< length'])"

subsection \<open>The transform (pure-js/fft-wrapper.js)\<close>

text \<open>
  \<open>fftRecursive(x, N)\<close> works in place on the array \<open>x\<close> of interleaved real and imaginary
  parts, with two new arrays \<open>even\<close> and \<open>odd\<close> at every level. \<open>fft\<close> calls it with a power
  of two, so that \<open>N / 2\<close> is a whole number at every level.
\<close>

definition splitStep :: "ref \<Rightarrow> ref \<Rightarrow> ref \<Rightarrow> store \<Rightarrow> nat \<Rightarrow> store" where
  "splitStep x even' odd' s i =
     store_set odd' (i * 2 + 1) (nums s x ! (i * 4 + 3))
       (store_set odd' (i * 2) (nums s x ! (i * 4 + 2))
         (store_set even' (i * 2 + 1) (nums s x ! (i * 4 + 1))
           (store_set even' (i * 2) (nums s x ! (i * 4)) s)))"

definition combineStep :: "ref \<Rightarrow> ref \<Rightarrow> ref \<Rightarrow> nat \<Rightarrow> store \<Rightarrow> nat \<Rightarrow> store" where
  "combineStep x even' odd' N s k =
     (let angle = - 2 * pi * real k / real N;
          cos_val = cos angle;
          sin_val = sin angle;
          t_real = nums s odd' ! (k * 2) * cos_val - nums s odd' ! (k * 2 + 1) * sin_val;
          t_imag = nums s odd' ! (k * 2) * sin_val + nums s odd' ! (k * 2 + 1) * cos_val;
          s1 = store_set x (k * 2) (nums s even' ! (k * 2) + t_real) s;
          s2 = store_set x (k * 2 + 1) (nums s1 even' ! (k * 2 + 1) + t_imag) s1;
          s3 = store_set x ((k + N div 2) * 2) (nums s2 even' ! (k * 2) - t_real) s2
      in store_set x ((k + N div 2) * 2 + 1) (nums s3 even' ! (k * 2 + 1) - t_imag) s3)"

function fftRecursive :: "ref \<Rightarrow> nat \<Rightarrow> store \<Rightarrow> store" where
  "fftRecursive x N s =
     (if N \<le> 1 then s
      else
        (let even' = length s;
             s1 = snd (alloc (Nums (replicate N 0)) s);
             odd' = length s1;
             s2 = snd (alloc (Nums (replicate N 0)) s1);
             s3 = foldl (splitStep x even' odd') s2 [0 ..< N div 2];
             s4 = fftRecursive even' (N div 2) s3;
             s5 = fftRecursive odd' (N div 2) s4
         in foldl (combineStep x even' odd' N) s5 [0 ..< N div 2]))"
  by pat_completeness auto
termination
  by (relation "measure (\<lambda>(x, N, s). N)") auto

declare fftRecursive.simps [simp del]

text \<open>
  \<open>fft(signal)\<close>: an error unless \<open>length & (length - 1)\<close> is 0; a new array \<open>complex\<close> of
  twice the length, filled from the signal and transformed in place.
\<close>

definition fft :: "ref \<Rightarrow> store \<Rightarrow> string + (ref \<times> store)" where
  "fft signal s =
     (let length' = length (nums s signal)
      in if and length' (length' - 1) \<noteq> 0 then Inl ''FFT length must be power of 2''
         else
           (let (complex, s1) = alloc (Nums (replicate (length' * 2) 0)) s;
                s2 = foldl (\<lambda>s i. store_set complex (i * 2 + 1) 0
                                    (store_set complex (i * 2) (nums s signal ! i) s))
                           s1 [0 ..< length']
            in Inr (complex, fftRecursive complex length' s2)))"

subsection \<open>The analyzers on the store\<close>

text \<open>A \<open>SpectrumAnalyzer\<close> object: its fields hold references.\<close>

record SpectrumAnalyzerObject =
  samplesRef :: ref
  obj_sampleRate :: real
  obj_windowType :: string
  powerSpectrumRef :: "ref option"
  frequenciesRef :: "ref option"

text \<open>The constructor: \<open>this.samples = [...samples]\<close> is a new array.\<close>

definition construct_SpectrumAnalyzer ::
  "ref \<Rightarrow> real \<Rightarrow> string option \<Rightarrow> store \<Rightarrow> SpectrumAnalyzerObject \<times> store" where
  "construct_SpectrumAnalyzer samples sampleRate options_windowType s =
     (let (copy, s1) = alloc (Nums (nums s samples)) s
      in (\<lparr>samplesRef = copy, obj_sampleRate = sampleRate,
           obj_windowType = (case options_windowType of
                               None \<Rightarrow> ''hamming''
                             | Some w \<Rightarrow> if w = [] then ''hamming'' else w),
           powerSpectrumRef = None, frequenciesRef = None\<rparr>, s1))"

text \<open>
  \<open>calculatePowerSpectrum\<close> with every array it creates: the copy of the samples, the
  padding and the padded or truncated array (\<open>padOrTruncate\<close>, the \<open>if\<close> on the length
  of \<open>processedSamples\<close>), the windowed samples, the result of the transform, and the two
  arrays of the spectrum, written bin by bin (\<open>spectrumStep\<close>).
\<close>

definition spectrumStep ::
  "ref \<Rightarrow> ref \<Rightarrow> ref \<Rightarrow> real \<Rightarrow> real \<Rightarrow> nat \<Rightarrow> store \<Rightarrow> nat \<Rightarrow> store" where
  "spectrumStep fftResult powerSpectrum' frequencies' windowGain sampleRate fftLength s i =
     (let real' = nums s fftResult ! (i * 2);
          imag = nums s fftResult ! (i * 2 + 1);
          magnitude = sqrt (real' * real' + imag * imag);
          s1 = store_set powerSpectrum' i ((magnitude * windowGain) / real fftLength) s
      in store_set frequencies' i ((real i * sampleRate) / real fftLength) s1)"

definition padOrTruncate :: "ref \<Rightarrow> nat \<Rightarrow> store \<Rightarrow> ref \<times> store" where
  "padOrTruncate processedSamples fftLength s =
     (let length' = length (nums s processedSamples)
      in if length' < fftLength then
           (let (zeros, s1) = alloc (Nums (replicate (fftLength - length') 0)) s
            in alloc (Nums (nums s1 processedSamples @ nums s1 zeros)) s1)
         else if length' > fftLength then
           alloc (Nums (js_slice (nums s processedSamples) 0 (int fftLength))) s
         else (processedSamples, s))"

definition calculatePowerSpectrum_store ::
  "SpectrumAnalyzerObject \<Rightarrow> store \<Rightarrow> string + (SpectrumAnalyzerObject \<times> store)" where
  "calculatePowerSpectrum_store this s =
     (let originalLength = length (nums s (samplesRef this));
          fftLength = fftLengthOf originalLength;
          (copy, s1) = alloc (Nums (nums s (samplesRef this))) s;
          (processedSamples, s2) = padOrTruncate copy fftLength s1;
          (windowedSamples, s3) = applyWindowByType processedSamples (obj_windowType this) s2;
          windowGain = getCoherentGain (obj_windowType this) fftLength
      in case fft windowedSamples s3 of
           Inl e \<Rightarrow> Inl e
         | Inr (fftResult, s4) \<Rightarrow>
             if fftLength = 1 then Inl ''Invalid array length''
             else
               (let halfLength = fftLength div 2;
                    (powerSpectrum', s5) = alloc (Nums (replicate halfLength 0)) s4;
                    (frequencies', s6) = alloc (Nums (replicate halfLength 0)) s5;
                    s7 = foldl (spectrumStep fftResult powerSpectrum' frequencies' windowGain
                                  (obj_sampleRate this) fftLength)
                               s6 [0 ..< halfLength]
                in Inr (this\<lparr>powerSpectrumRef := Some powerSpectrum',
                              frequenciesRef := Some frequencies'\<rparr>, s7)))"

text \<open>
  \<open>getStrongestFrequencies\<close> with its arrays: \<open>candidates\<close>, filled by \<open>push\<close> and sorted
  in place, and the slice that is returned.
\<close>

definition getStrongestFrequencies_store ::
  "SpectrumAnalyzerObject \<Rightarrow> int \<Rightarrow> store \<Rightarrow> string + (ref \<times> store)" where
  "getStrongestFrequencies_store this count' s =
     (case (powerSpectrumRef this, frequenciesRef this) of
        (None, _) \<Rightarrow> Inl ''Must call calculatePowerSpectrum() first''
      | (Some ps, None) \<Rightarrow> Inl ''Cannot read properties of null''
      | (Some ps, Some fs) \<Rightarrow>
          (let (candidates, s1) = alloc (Cands []) s;
               s2 = foldl (\<lambda>s i. push_cand candidates
                                    \<lparr>frequency = nums s fs ! i, power = nums s ps ! i\<rparr> s)
                          s1 [0 ..< length (nums s fs)];
               s3 = sort_cands candidates (\<lambda>a b. power b - power a) s2
           in Inr (alloc (Cands (js_slice (cands s3 candidates) 0 count')) s3)))"

text \<open>The \<open>FrequencyAnalysis\<close> constructor: \<open>this.samples = [...samples]\<close>.\<close>

definition construct_FrequencyAnalysis :: "ref \<Rightarrow> store \<Rightarrow> ref \<times> store" where
  "construct_FrequencyAnalysis samples s = alloc (Nums (nums s samples)) s"

text \<open>
  The sectioning of \<open>AudioSlicer\<close> on the store: the two sections are the new arrays that
  \<open>slice\<close> returns; the pair of their references stands for the sections object.
\<close>

definition extractSections_store ::
  "ref \<Rightarrow> real \<Rightarrow> int \<Rightarrow> real \<Rightarrow> store \<Rightarrow> (ref \<times> ref) \<times> store" where
  "extractSections_store samples sampleRate closestApproachIndex' duration s =
     (let sections' = AudioSlicer_extractSections (nums s samples) sampleRate
                        closestApproachIndex' duration;
          (approachSection, s1) = alloc (Nums (the (approaching sections'))) s;
          (recedeSection, s2) = alloc (Nums (the (receding sections'))) s1
      in ((approachSection, recedeSection), s2))"

definition extractShortFileSections_store ::
  "ref \<Rightarrow> real \<Rightarrow> store \<Rightarrow> (ref \<times> ref) \<times> store" where
  "extractShortFileSections_store samples sampleRate s =
     (let sections' = extractShortFileSections (nums s samples) sampleRate;
          (approachSection, s1) = alloc (Nums (the (approaching sections'))) s;
          (recedeSection, s2) = alloc (Nums (the (receding sections'))) s1
      in ((approachSection, recedeSection), s2))"

text \<open>
  Matching on the store: \<open>findOptimalSpeedCalculation\<close> reads the two candidate arrays
  and creates no array.
\<close>

definition findOptimalSpeedCalculation_store ::
  "DopplerSpeedCalculator \<Rightarrow> ref \<Rightarrow> ref \<Rightarrow> real \<Rightarrow> store \<Rightarrow> (string + speed_result) \<times> store" where
  "findOptimalSpeedCalculation_store speedCalculator approachFrequencies recedeFrequencies
     expectedSpeedMph s =
     (findOptimalSpeedCalculation speedCalculator (cands s approachFrequencies)
        (cands s recedeFrequencies) expectedSpeedMph, s)"

text \<open>
  A core operation with its arguments, and the store after it. An operation that throws
  leaves the arrays it has created unreferenced; the store after it is the store before.
\<close>

datatype core_operation =
    NewSpectrumAnalyzer ref real "string option"
  | NewFrequencyAnalysis ref
  | CalculatePowerSpectrum SpectrumAnalyzerObject
  | GetStrongestFrequencies SpectrumAnalyzerObject int
  | ExtractSections ref real int real
  | ExtractShortFileSections ref real
  | FindOptimalSpeedCalculation DopplerSpeedCalculator ref ref real

fun perform :: "core_operation \<Rightarrow> store \<Rightarrow> store" where
  "perform (NewSpectrumAnalyzer samples sampleRate w) s =
     snd (construct_SpectrumAnalyzer samples sampleRate w s)"
| "perform (NewFrequencyAnalysis samples) s = snd (construct_FrequencyAnalysis samples s)"
| "perform (CalculatePowerSpectrum this) s =
     (case calculatePowerSpectrum_store this s of Inl _ \<Rightarrow> s | Inr (_, s') \<Rightarrow> s')"
| "perform (GetStrongestFrequencies this count') s =
     (case getStrongestFrequencies_store this count' s of Inl _ \<Rightarrow> s | Inr (_, s') \<Rightarrow> s')"
| "perform (ExtractSections samples sampleRate idx duration) s =
     snd (extractSections_store samples sampleRate idx duration s)"
| "perform (ExtractShortFileSections samples sampleRate) s =
     snd (extractShortFileSections_store samples sampleRate s)"
| "perform (FindOptimalSpeedCalculation c a r e) s =
     snd (findOptimalSpeedCalculation_store c a r e s)"

section \<open>Notions used to state the properties\<close>

text \<open>
  \<open>lower_by key\<close> is the reducer that keeps the current best unless the new element is
  strictly lower; \<open>keep_lower key\<close> is the same update on a best result that may still
  be absent. \<open>first_lowest key xs b\<close> says that \<open>b\<close> is the first element of \<open>xs\<close>
  whose key is the least key of \<open>xs\<close>.
\<close>

definition lower_by :: "('a \<Rightarrow> real) \<Rightarrow> 'a \<Rightarrow> 'a \<Rightarrow> 'a" where
  "lower_by key best current = (if key current < key best then current else best)"

definition keep_lower :: "('a \<Rightarrow> real) \<Rightarrow> 'a option \<Rightarrow> 'a \<Rightarrow> 'a option" where
  "keep_lower key bestResult current =
     (case bestResult of
        None \<Rightarrow> Some current
      | Some best \<Rightarrow> if key current < key best then Some current else bestResult)"

definition first_lowest :: "('a \<Rightarrow> real) \<Rightarrow> 'a list \<Rightarrow> 'a \<Rightarrow> bool" where
  "first_lowest key xs b \<longleftrightarrow>
     list_all (\<lambda>y. key b \<le> key y) xs \<and> List.find (\<lambda>y. key y = key b) xs = Some b"

text \<open>
  A result of \<open>calculateSpeed\<close> as a number, and the two values that pass both guards of
  \<open>calculateSpeedWithValidation\<close> without being a finite number.
\<close>

fun as_number :: "jsnum \<Rightarrow> number" where
  "as_number NaN = NotANumber"
| "as_number (Num x) = Finite x"

fun nan_or_infinity :: "number \<Rightarrow> bool" where
  "nan_or_infinity NotANumber = True"
| "nan_or_infinity PlusInfinity = True"
| "nan_or_infinity n = False"

definition veryLenient :: DopplerSpeedCalculator where
  "veryLenient = setSpeedLimits 0 1000 new_DopplerSpeedCalculator"

definition orderedPairs ::
  "('a frequency_candidate_scheme) list \<Rightarrow> ('b frequency_candidate_scheme) list \<Rightarrow> (real \<times> real) list" where
  "orderedPairs approachFrequencies recedeFrequencies =
     concat (map (\<lambda>a. concat (map (\<lambda>r. [(frequency a, frequency r), (frequency r, frequency a)])
                                   (take 10 recedeFrequencies)))
                 (take 10 approachFrequencies))"

definition pairKmh :: "real \<times> real \<Rightarrow> real" where
  "pairKmh p = (case calculateSpeed veryLenient (fst p) (snd p) of Num k \<Rightarrow> k | NaN \<Rightarrow> 0)"

definition qualifies :: "real \<times> real \<Rightarrow> bool" where
  "qualifies p \<longleftrightarrow> js_gt (calculateSpeed veryLenient (fst p) (snd p)) 0 \<and>
                   js_lt (calculateSpeed veryLenient (fst p) (snd p)) 1000"

definition anchored :: "real option \<Rightarrow> bool" where
  "anchored expectedSpeed = (case expectedSpeed of None \<Rightarrow> False | Some e \<Rightarrow> e \<noteq> 0)"

definition anchorError :: "real option \<Rightarrow> real \<times> real \<Rightarrow> real" where
  "anchorError expectedSpeed p =
     (if anchored expectedSpeed then \<bar>pairKmh p * 0.621371 - the expectedSpeed\<bar> else 0)"

definition tertiaryCandidate :: "real option \<Rightarrow> real \<times> real \<Rightarrow> tier_result" where
  "tertiaryCandidate expectedSpeed p =
     \<lparr>speedKmh = pairKmh p, speedMph = pairKmh p * 0.621371,
      approachFreq = fst p, recedeFreq = snd p,
      pair_error = anchorError expectedSpeed p,
      accuracy = Some (if anchored expectedSpeed
                       then 100 - (anchorError expectedSpeed p / the expectedSpeed * 100) else 100),
      strategy = Tertiary\<rparr>"

definition exampleApproach :: "frequency_candidate list" where
  "exampleApproach = [\<lparr>frequency = 1100, power = 1\<rparr>, \<lparr>frequency = 1000, power = 1\<rparr>]"

definition exampleRecede :: "frequency_candidate list" where
  "exampleRecede = [\<lparr>frequency = 900, power = 1\<rparr>]"

definition band :: "tier_result list \<Rightarrow> tier_result list" where
  "band strategies = filter (\<lambda>s. 10 \<le> speedMph s \<and> speedMph s \<le> 100) strategies"

definition tierAt :: "strategy_tag \<Rightarrow> real \<Rightarrow> tier_result" where
  "tierAt t mph =
     \<lparr>speedKmh = mph / 0.621371, speedMph = mph, approachFreq = 0, recedeFreq = 0,
      pair_error = 0, accuracy = None, strategy = t\<rparr>"

text \<open>The speed score of the specification, on a speed in the unit the caller chooses.\<close>

definition speedReasonableness :: "real \<Rightarrow> real" where
  "speedReasonableness s =
     (if 5 \<le> s \<and> s \<le> 100 then 1 else if s < 5 then s / 5 else max 0.2 (1 - (s - 100) / 100))"

text \<open>
  For a recede frequency of 0 below a positive approach frequency the quotient is
  \<open>Infinity\<close> in JavaScript, and its minimum with 1 is 1.
\<close>

definition separationScore :: "ranked_frequency \<Rightarrow> ranked_frequency \<Rightarrow> real" where
  "separationScore a r =
     (if frequency r = 0 then 1 else min 1 ((frequency a - frequency r) / frequency r * 10))"

text \<open>The confidence that \<open>combineAnalyses\<close> computes for a pair, and the entry it pushes.\<close>

definition pairConfidence ::
  "FrequencyAnalysis \<Rightarrow> quality_metrics \<Rightarrow> quality_metrics \<Rightarrow>
   ranked_frequency \<Rightarrow> ranked_frequency \<Rightarrow> jsnum" where
  "pairConfidence this qa qr a r =
     calculateSpeedConfidence a r
       (calculateSpeed (dopplerCalculator this) (frequency a) (frequency r)) qa qr"

definition pairEntry ::
  "FrequencyAnalysis \<Rightarrow> ranked_frequency \<Rightarrow> ranked_frequency \<Rightarrow> real \<Rightarrow> speed_calculation" where
  "pairEntry this a r k =
     \<lparr>sc_approachFreq = frequency a, sc_recedeFreq = frequency r,
      approachPower = power a, recedePower = power r,
      approachRank = rank a, recedeRank = rank r,
      speed = calculateSpeed (dopplerCalculator this) (frequency a) (frequency r),
      confidence = k,
      frequencySeparation = frequency a - frequency r,
      relativeShift = (if frequency r = 0 then None
                       else Some ((frequency a - frequency r) / frequency r))\<rparr>"

definition rankBonus :: "ranked_frequency \<Rightarrow> ranked_frequency \<Rightarrow> real" where
  "rankBonus a r = max 0 (1 - 0.1 * (real (rank a) - 1) - 0.1 * (real (rank r) - 1))"

definition clamp01 :: "real \<Rightarrow> real" where
  "clamp01 x = max 0 (min 1 x)"

text \<open>The weighted sum of the five scores, clamped to the unit interval.\<close>

definition compositeScore :: "real \<Rightarrow> real \<Rightarrow> real \<Rightarrow> real \<Rightarrow> real \<Rightarrow> real" where
  "compositeScore p q s d b = clamp01 (0.3 * p + 0.25 * q + 0.2 * s + 0.15 * d + 0.1 * b)"

definition pushedCalculations ::
  "FrequencyAnalysis \<Rightarrow> section_analysis \<Rightarrow> section_analysis \<Rightarrow> speed_calculation list" where
  "pushedCalculations fa A R =
     concat (map (\<lambda>a. concat (map (\<lambda>r. considerCombination fa (qualityMetrics A) (qualityMetrics R) [] a r)
                                   (take 5 (frequencies R))))
                 (take 5 (frequencies A)))"

definition exampleRankedApproach :: ranked_frequency where
  "exampleRankedApproach =
     \<lparr>frequency = 1100, power = 1, rankingScore = Num 1.3, powerScore = Num 1,
      positionBonus = 0.2, frequencyBonus = 0.1, rank = 1\<rparr>"

definition exampleRankedRecede :: ranked_frequency where
  "exampleRankedRecede =
     \<lparr>frequency = 900, power = 1, rankingScore = Num 1.3, powerScore = Num 1,
      positionBonus = 0.2, frequencyBonus = 0.1, rank = 1\<rparr>"

definition zeroPowerApproach :: ranked_frequency where
  "zeroPowerApproach =
     \<lparr>frequency = 1050, power = 0, rankingScore = Num 0.2, powerScore = Num 0,
      positionBonus = 0.1, frequencyBonus = 0.1, rank = 2\<rparr>"

definition fullPowerRecede :: ranked_frequency where
  "fullPowerRecede =
     \<lparr>frequency = 950, power = 1, rankingScore = Num 1.3, powerScore = Num 1,
      positionBonus = 0.2, frequencyBonus = 0.1, rank = 1\<rparr>"

definition singleQuality :: quality_metrics where
  "singleQuality = calculateSectionQuality [\<lparr>frequency = 1100, power = 1\<rparr>]"

definition pairQuality :: quality_metrics where
  "pairQuality = calculateSectionQuality
                   [\<lparr>frequency = 1100, power = 1\<rparr>, \<lparr>frequency = 1000, power = 0.5\<rparr>]"

definition exampleApproachAnalysis :: section_analysis where
  "exampleApproachAnalysis =
     \<lparr>sa_valid = True, frequencies = [exampleRankedApproach],
      qualityMetrics = singleQuality, sa_confidence = overallConfidence singleQuality\<rparr>"

definition exampleRecedeAnalysis :: section_analysis where
  "exampleRecedeAnalysis =
     \<lparr>sa_valid = True, frequencies = [exampleRankedRecede],
      qualityMetrics = singleQuality, sa_confidence = overallConfidence singleQuality\<rparr>"

text \<open>The minimum section length that \<open>extractBestSections\<close> uses for each strategy.\<close>

definition strategyThreshold :: "string \<Rightarrow> nat" where
  "strategyThreshold n =
     (if n = ''closest_approach'' then 2048
      else if n = ''short_file_quarters'' then 1024 else 512)"

definition bothAtLeast :: "sections \<Rightarrow> nat \<Rightarrow> bool" where
  "bothAtLeast s m =
     (case (approaching s, receding s) of
        (Some a, Some r) \<Rightarrow> length a \<ge> m \<and> length r \<ge> m
      | _ \<Rightarrow> False)"

definition validatedEntry :: "strategy_entry \<Rightarrow> bool" where
  "validatedEntry e \<longleftrightarrow>
     entry_validation e = validateSections (entry_sections e) (strategyThreshold (name e)) \<and>
     (name e = ''closest_approach'' \<or> name e = ''short_file_quarters'' \<or> name e = ''simple_quarters'')"

text \<open>What \<open>extractBestSections\<close> returned, read through the result: \<open>False\<close> on an error.\<close>

definition bestHas :: "(best_sections \<Rightarrow> bool) \<Rightarrow> string + best_sections \<Rightarrow> bool" where
  "bestHas P result = (case result of Inl _ \<Rightarrow> False | Inr res \<Rightarrow> P res)"

text \<open>
  The fields \<open>approaching\<close> and \<open>receding\<close> of the returned object, and the fields
  \<open>isValid\<close>, \<open>errors\<close> and \<open>warnings\<close> of its field \<open>validation\<close>.
\<close>

fun sectioning_approaching :: "optimal_sections \<Rightarrow> real list option" where
  "sectioning_approaching (SlicedSections s v) = approaching s"
| "sectioning_approaching (TimeSections t v) = map_of (named_sections t) ''approaching''"
| "sectioning_approaching (BestSections b) = approaching (chosen_sections b)"

fun sectioning_receding :: "optimal_sections \<Rightarrow> real list option" where
  "sectioning_receding (SlicedSections s v) = receding s"
| "sectioning_receding (TimeSections t v) = map_of (named_sections t) ''receding''"
| "sectioning_receding (BestSections b) = receding (chosen_sections b)"

fun validation_isValid :: "optimal_sections \<Rightarrow> bool" where
  "validation_isValid (SlicedSections s v) = isValid v"
| "validation_isValid (TimeSections t v) = tv_isValid v"
| "validation_isValid (BestSections b) = isValid (best_validation b)"

fun validation_errors :: "optimal_sections \<Rightarrow> validation_error list" where
  "validation_errors (SlicedSections s v) = errors v"
| "validation_errors (TimeSections t v) = tv_errors v"
| "validation_errors (BestSections b) = errors (best_validation b)"

fun validation_warnings :: "optimal_sections \<Rightarrow> validation_warning list" where
  "validation_warnings (SlicedSections s v) = warnings v"
| "validation_warnings (TimeSections t v) = tv_warnings v"
| "validation_warnings (BestSections b) = warnings (best_validation b)"

text \<open>The number of samples of a section, 0 for a section that is absent.\<close>

definition sectionLength :: "real list option \<Rightarrow> nat" where
  "sectionLength part = (case part of None \<Rightarrow> 0 | Some a \<Rightarrow> length a)"

text \<open>
  \<open>imbalanced m n\<close>: the ratio of the lengths \<open>m\<close> and \<open>n\<close> is above 5 to 1 or below 1 to
  5.
\<close>

definition imbalanced :: "nat \<Rightarrow> nat \<Rightarrow> bool" where
  "imbalanced m n \<longleftrightarrow> m > 5 * n \<or> 5 * m < n"

text \<open>
  \<open>validatedAt m sectioning\<close>: the validation of the returned object is what the two
  sections give for a minimum of \<open>m\<close> samples.
\<close>

definition validatedAt :: "nat \<Rightarrow> optimal_sections \<Rightarrow> bool" where
  "validatedAt m sectioning \<longleftrightarrow>
     validation_isValid sectioning =
       (m \<le> sectionLength (sectioning_approaching sectioning) \<and>
        m \<le> sectionLength (sectioning_receding sectioning)) \<and>
     validation_errors sectioning =
       (if sectionLength (sectioning_approaching sectioning) < m
        then [ApproachingTooShort (sectionLength (sectioning_approaching sectioning)) m]
        else []) @
       (if sectionLength (sectioning_receding sectioning) < m
        then [RecedingTooShort (sectionLength (sectioning_receding sectioning)) m]
        else []) \<and>
     validation_warnings sectioning =
       (case (sectioning_approaching sectioning, sectioning_receding sectioning) of
          (Some a, Some r) \<Rightarrow>
            if imbalanced (length a) (length r)
            then [SectionLengthImbalance (length a) (length r)] else []
        | _ \<Rightarrow> [])"

definition autoConfig :: analysis_config where
  "autoConfig = \<lparr>sectioningStrategy = ''auto'', timeRanges = None\<rparr>"

definition closestApproachConfig :: analysis_config where
  "closestApproachConfig = \<lparr>sectioningStrategy = ''closest_approach'', timeRanges = None\<rparr>"

definition lateApproach :: detection where
  "lateApproach =
     \<lparr>found = True, det_confidence = 1, det_reason = HighConfidencePeakDetected 1,
      closestApproachIndex = 17000, estimatedIndex = 17000,
      det_energy = Some 1, det_prominence = Some 1, det_time = Some 0.85, warning = None\<rparr>"

definition confidenceOf :: "real \<Rightarrow> peak \<Rightarrow> bool" where
  "confidenceOf globalMaxEnergy p \<longleftrightarrow>
     pk_confidence p = min 1 (prominence p / (globalMaxEnergy * 0.5))"

definition examplePoint :: "nat \<Rightarrow> real \<Rightarrow> energy_point" where
  "examplePoint i e = \<lparr>index = i + 5, energy = e, time = real i / 10\<rparr>"

definition exampleProfile :: "energy_point list" where
  "exampleProfile =
     [examplePoint 0 0.1, examplePoint 1 0.1, examplePoint 2 0.1, examplePoint 3 0.1,
      examplePoint 4 0.1, examplePoint 5 1, examplePoint 6 0.1, examplePoint 7 0.1,
      examplePoint 8 0.1, examplePoint 9 0.1]"

definition examplePeak :: peak where
  "examplePeak =
     \<lparr>pk_index = 10, pk_energy = 1, prominence = 0.9, normalizedProminence = 0.9,
      pk_time = 0.5, pk_confidence = 1\<rparr>"

definition weakPeak :: peak where
  "weakPeak =
     \<lparr>pk_index = 7, pk_energy = 0.3, prominence = 0.1, normalizedProminence = 0.1,
      pk_time = 0.2, pk_confidence = 0.2\<rparr>"

text \<open>The candidates of a computed spectrum, in the order of the bins.\<close>

definition candidatesOf :: "SpectrumAnalyzer \<Rightarrow> frequency_candidate list" where
  "candidatesOf this =
     (case (spectrumFrequencies this, powerSpectrum this) of
        (Some fs, Some ps) \<Rightarrow> map (\<lambda>i. \<lparr>frequency = fs ! i, power = ps ! i\<rparr>) [0 ..< length fs]
      | _ \<Rightarrow> [])"

text \<open>The order of the ranking: higher power first, and for equal power the lower frequency.\<close>

definition rankedBefore :: "frequency_candidate \<Rightarrow> frequency_candidate \<Rightarrow> bool" where
  "rankedBefore x y \<longleftrightarrow> power x > power y \<or> (power x = power y \<and> frequency x \<le> frequency y)"

definition exampleAnalyzer :: SpectrumAnalyzer where
  "exampleAnalyzer = new_SpectrumAnalyzer [1, 0, 0, 0] 8 None"

definition flatPower :: "string \<Rightarrow> real list \<Rightarrow> nat \<Rightarrow> real" where
  "flatPower w xs i = 1"

text \<open>
  \<open>changes_only W s s'\<close>: the store \<open>s'\<close> keeps every array of \<open>s\<close> outside \<open>W\<close> as it is,
  and may hold new arrays.
\<close>

definition changes_only :: "ref set \<Rightarrow> store \<Rightarrow> store \<Rightarrow> bool" where
  "changes_only W s s' \<longleftrightarrow>
     length s \<le> length s' \<and> (\<forall>a < length s. a \<notin> W \<longrightarrow> s' ! a = s ! a)"

definition callerStore :: store where
  "callerStore = [Nums [1, 2, 3, 4]]"

definition exampleOperations :: "core_operation list" where
  "exampleOperations =
     [NewSpectrumAnalyzer 0 8 None,
      CalculatePowerSpectrum
        \<lparr>samplesRef = 1, obj_sampleRate = 8, obj_windowType = ''hamming'',
         powerSpectrumRef = None, frequenciesRef = None\<rparr>,
      GetStrongestFrequencies
        \<lparr>samplesRef = 1, obj_sampleRate = 8, obj_windowType = ''hamming'',
         powerSpectrumRef = Some 0, frequenciesRef = Some 0\<rparr> 5,
      NewFrequencyAnalysis 0,
      ExtractShortFileSections 0 8,
      ExtractSections 0 8 2 0.5]"

section \<open>Properties of the Doppler formula\<close>

lemma calculateSpeed_pos_sum:
  assumes "a + r \<noteq> 0"
  shows "calculateSpeed c a r =
           (let s = soundSpeed c * (a - r) / (a + r) * 3.6
            in if s \<ge> maxReasonableSpeed c \<or> s < minReasonableSpeed c then Num 0 else Num s)"
  unfolding calculateSpeed_def Let_def using assms by (simp only: if_False)

text \<open>
  C2, as stated, fails: the calculator returns 0 once the Doppler value reaches the upper
  limit of 1000 km/h. At \<open>f1 = 100\<close>, \<open>f2 = 1\<close> the formula gives about 1210 km/h and the
  calculator returns 0.
\<close>

theorem C2_counterexample:
  "calculateSpeed new_DopplerSpeedCalculator 100 1 \<noteq> Num (343 * (100 - 1) / (100 + 1) * 3.6)"
  by (simp add: calculateSpeed_def new_DopplerSpeedCalculator_def Let_def)

text \<open>
  C2 (amended): for all \<open>f1 > f2 > 0\<close>, \<open>calculateSpeed\<close> of the default calculator returns
  \<open>343 * (f1 - f2) / (f1 + f2) * 3.6\<close> km/h when that value is below 1000, and 0 otherwise.
\<close>

theorem C2_calculateSpeed_formula:
  assumes "f1 > f2" and "f2 > 0"
  shows "calculateSpeed new_DopplerSpeedCalculator f1 f2 =
           (if 343 * (f1 - f2) / (f1 + f2) * 3.6 < 1000
            then Num (343 * (f1 - f2) / (f1 + f2) * 3.6) else Num 0)"
proof -
  define s where "s = 343 * (f1 - f2) / (f1 + f2) * 3.6"
  have sum: "f1 + f2 \<noteq> 0" using assms by linarith
  have "0 \<le> 343 * (f1 - f2) / (f1 + f2)" using assms by simp
  then have "0 \<le> s" unfolding s_def by (rule mult_nonneg_nonneg) simp
  then have nonneg: "\<not> s < 0" by simp
  have "calculateSpeed new_DopplerSpeedCalculator f1 f2 =
          (if s \<ge> 1000 \<or> s < 0 then Num 0 else Num s)"
    unfolding calculateSpeed_pos_sum [OF sum] Let_def s_def
    by (simp only: new_DopplerSpeedCalculator_def DopplerSpeedCalculator.simps)
  also have "\<dots> = (if s < 1000 then Num s else Num 0)"
    using nonneg by auto
  finally show ?thesis unfolding s_def .
qed

theorem C2_calculateSpeed_formula_witness:
  "(1100::real) > 950 \<and> (950::real) > 0 \<and>
   calculateSpeed new_DopplerSpeedCalculator 1100 950 = Num (343 * (1100 - 950) / (1100 + 950) * 3.6)"
  using C2_calculateSpeed_formula [of 950 1100] by simp

lemma number_le_finite [simp]: "number_le (Finite x) (Finite y) \<longleftrightarrow> x \<le> y"
  by (simp add: number_le_def not_less)

lemma speedKmh_finite:
  "a + r \<noteq> 0 \<Longrightarrow>
   number_mul (number_div (number_mul (Finite s) (number_sub (Finite a) (Finite r)))
                          (number_add (Finite a) (Finite r))) (Finite k)
     = Finite (s * (a - r) / (a + r) * k)"
  by (simp add: number_sub_def)

lemma speedKmh_zero_sum:
  "a + r = 0 \<Longrightarrow> 0 < k \<Longrightarrow>
   number_mul (number_div (number_mul (Finite s) (number_sub (Finite a) (Finite r)))
                          (number_add (Finite a) (Finite r))) (Finite k)
     = (if s * (a - r) > 0 then PlusInfinity
        else if s * (a - r) < 0 then MinusInfinity else NotANumber)"
  by (simp add: number_sub_def)

lemma calculateSpeed_any_finite:
  assumes "ToNumber f1 = Finite a" "ToNumber f2 = Finite r" "a + r \<noteq> 0"
  shows "calculateSpeed_any c f1 f2 =
           (if maxReasonableSpeed c \<le> soundSpeed c * (a - r) / (a + r) * 3.6 \<or>
               soundSpeed c * (a - r) / (a + r) * 3.6 < minReasonableSpeed c
            then (if has_toFixed f1 \<and> has_toFixed f2 then Inr (Finite 0) else Inl TypeError)
            else Inr (Finite (soundSpeed c * (a - r) / (a + r) * 3.6)))"
  unfolding calculateSpeed_any_def Let_def assms(1,2) speedKmh_finite [OF assms(3)]
  by (simp only: number_le_finite number_less.simps)

lemma calculateSpeed_any_numbers:
  "calculateSpeed_any c (Number (Finite a)) (Number (Finite r)) = Inr (as_number (calculateSpeed c a r))"
proof (cases "a + r = 0")
  case False
  have "calculateSpeed_any c (Number (Finite a)) (Number (Finite r)) =
           (if maxReasonableSpeed c \<le> soundSpeed c * (a - r) / (a + r) * 3.6 \<or>
               soundSpeed c * (a - r) / (a + r) * 3.6 < minReasonableSpeed c
            then Inr (Finite 0)
            else Inr (Finite (soundSpeed c * (a - r) / (a + r) * 3.6)))"
    using calculateSpeed_any_finite [of "Number (Finite a)" a "Number (Finite r)" r c] False
    by simp
  moreover have "calculateSpeed c a r =
           (if maxReasonableSpeed c \<le> soundSpeed c * (a - r) / (a + r) * 3.6 \<or>
               soundSpeed c * (a - r) / (a + r) * 3.6 < minReasonableSpeed c
            then Num 0
            else Num (soundSpeed c * (a - r) / (a + r) * 3.6))"
    unfolding calculateSpeed_def Let_def using False by (simp only: if_False)
  ultimately show ?thesis by simp
next
  case True
  have k: "(0::real) < 3.6" by simp
  have "calculateSpeed_any c (Number (Finite a)) (Number (Finite r)) =
          (if soundSpeed c * (a - r) = 0 then Inr NotANumber else Inr (Finite 0))"
    unfolding calculateSpeed_any_def Let_def ToNumber.simps speedKmh_zero_sum [OF True k]
    by (auto simp add: number_le_def)
  moreover have "calculateSpeed c a r = (if soundSpeed c * (a - r) = 0 then NaN else Num 0)"
    unfolding calculateSpeed_def using True by (simp only: if_True refl)
  ultimately show ?thesis by simp
qed

lemma not_le_zero_finite:
  assumes "\<not> number_le n (Finite 0)" "\<not> nan_or_infinity n"
  obtains x where "n = Finite x" "0 < x"
  using assms by (cases n) (auto simp add: number_le_def)

lemma try_early:
  assumes "number_le (ToNumber f1) (Finite 0) \<or> number_le (ToNumber f2) (Finite 0) \<or>
           number_less (number_abs (number_sub (ToNumber f1) (ToNumber f2))) (Finite 1)"
  shows "\<exists>result. calculateSpeedWithValidation c f1 f2 = Inr result \<and> \<not> valid result \<and>
           speedKMH result = Finite 0 \<and> speedMPH result = Finite 0 \<and> error result \<noteq> None"
  using assms by (auto simp add: calculateSpeedWithValidation_def calculateSpeedWithValidation_try_def)

lemma returns_result: "\<exists>result. calculateSpeedWithValidation c f1 f2 = Inr result"
  by (simp add: calculateSpeedWithValidation_def split: sum.splits)


lemma shift_finite [simp]:
  "number_abs (number_sub (Finite a) (Finite r)) = Finite \<bar>a - r\<bar>"
  by (simp add: number_sub_def)

lemma max_finite [simp]: "number_max (Finite a) (Finite r) = Finite (max a r)"
  by (simp add: number_max_def max_def)

lemma finite_rejected:
  assumes "ToNumber f1 = Finite a" "ToNumber f2 = Finite r" "0 < a" "0 < r"
    and "\<bar>a - r\<bar> < 1 \<or>
         maxReasonableSpeed c \<le> soundSpeed c * (a - r) / (a + r) * 3.6 \<or>
         soundSpeed c * (a - r) / (a + r) * 3.6 < minReasonableSpeed c"
  shows "\<exists>result. calculateSpeedWithValidation c f1 f2 = Inr result \<and> \<not> valid result \<and>
           speedKMH result = Finite 0 \<and> speedMPH result = Finite 0 \<and> error result \<noteq> None"
proof (cases "\<bar>a - r\<bar> < 1")
  case True
  then have "number_less (number_abs (number_sub (ToNumber f1) (ToNumber f2))) (Finite 1)"
    by (simp add: assms(1,2))
  then show ?thesis using try_early by blast
next
  case False
  have sum: "a + r \<noteq> 0" using assms(3,4) by linarith
  have out: "maxReasonableSpeed c \<le> soundSpeed c * (a - r) / (a + r) * 3.6 \<or>
         soundSpeed c * (a - r) / (a + r) * 3.6 < minReasonableSpeed c"
    using assms(5) False by blast
  have speed: "calculateSpeed_any c f1 f2 =
      (if has_toFixed f1 \<and> has_toFixed f2 then Inr (Finite 0) else Inl TypeError)"
    unfolding calculateSpeed_any_finite [OF assms(1,2) sum] using out by (simp only: if_True)
  have guards: "\<not> (number_le (ToNumber f1) (Finite 0) \<or> number_le (ToNumber f2) (Finite 0))"
       "\<not> number_less (number_abs (number_sub (ToNumber f1) (ToNumber f2))) (Finite 1)"
    using assms(3,4) False by (simp_all add: assms(1,2))
  show ?thesis
    unfolding calculateSpeedWithValidation_def calculateSpeedWithValidation_try_def speed
    using guards by (simp add: Let_def)
qed

lemma finite_computed:
  assumes "ToNumber f1 = Finite a" "ToNumber f2 = Finite r" "0 < a" "0 < r"
    and "\<not> \<bar>a - r\<bar> < 1"
    and "minReasonableSpeed c \<le> soundSpeed c * (a - r) / (a + r) * 3.6"
    and "soundSpeed c * (a - r) / (a + r) * 3.6 < maxReasonableSpeed c"
  shows "calculateSpeedWithValidation c f1 f2 =
           Inr \<lparr>speedKMH = Finite (soundSpeed c * (a - r) / (a + r) * 3.6),
                speedMPH = Finite (soundSpeed c * (a - r) / (a + r) * 3.6 * 0.621371),
                valid = (0 < soundSpeed c * (a - r) / (a + r) * 3.6),
                error = (if soundSpeed c * (a - r) / (a + r) * 3.6 = 0
                         then Some (Text ''Speed outside reasonable range'') else None),
                frequencyShift = Some (Finite \<bar>a - r\<bar>),
                relativeFactor = Some (Finite (\<bar>a - r\<bar> / max a r))\<rparr>"
proof -
  define v where "v = soundSpeed c * (a - r) / (a + r) * 3.6"
  have sum: "a + r \<noteq> 0" using assms(3,4) by linarith
  have inb: "\<not> (maxReasonableSpeed c \<le> v \<or> v < minReasonableSpeed c)"
    using assms(6,7) by (simp add: v_def)
  have speed: "calculateSpeed_any c f1 f2 = Inr (Finite v)"
    unfolding calculateSpeed_any_finite [OF assms(1,2) sum] v_def [symmetric]
    using inb by (simp only: if_False)
  have guards: "\<not> (number_le (ToNumber f1) (Finite 0) \<or> number_le (ToNumber f2) (Finite 0))"
       "\<not> number_less (number_abs (number_sub (ToNumber f1) (ToNumber f2))) (Finite 1)"
    using assms(3,4,5) by (simp_all add: assms(1,2))
  have m: "max a r \<noteq> 0" using assms(3,4) by (simp add: max_def)
  have "calculateSpeedWithValidation c f1 f2 =
           Inr \<lparr>speedKMH = Finite v,
                speedMPH = Finite (v * 0.621371),
                valid = (0 < v),
                error = (if v = 0
                         then Some (Text ''Speed outside reasonable range'') else None),
                frequencyShift = Some (Finite \<bar>a - r\<bar>),
                relativeFactor = Some (Finite (\<bar>a - r\<bar> / max a r))\<rparr>"
    unfolding calculateSpeedWithValidation_def calculateSpeedWithValidation_try_def speed
    using guards m by (simp add: Let_def assms(1,2))
  then show ?thesis unfolding v_def .
qed

text \<open>
  C3, as stated, fails in its last part at two kinds of input. For an argument that is
  \<open>undefined\<close> (or \<open>NaN\<close>, or \<open>Infinity\<close>) neither guard applies, the computation gives
  \<open>NaN\<close>, and the result has \<open>valid = false\<close> with both speed fields \<open>NaN\<close> and
  \<open>error = null\<close>. With the limits \<open>(-100, 1000)\<close> and the pair \<open>(100, 110)\<close> the speed of
  -58.8 km/h is inside the bound and is reported, with \<open>valid = false\<close> and
  \<open>error = null\<close>.
\<close>

theorem C3_counterexample:
  "calculateSpeedWithValidation new_DopplerSpeedCalculator Undefined (Number (Finite 100)) =
     Inr \<lparr>speedKMH = NotANumber, speedMPH = NotANumber, valid = False, error = None,
          frequencyShift = Some NotANumber, relativeFactor = Some NotANumber\<rparr> \<and>
   calculateSpeedWithValidation (setSpeedLimits (-100) 1000 new_DopplerSpeedCalculator)
       (Number (Finite 100)) (Number (Finite 110)) =
     Inr \<lparr>speedKMH = Finite (-58.8), speedMPH = Finite (-58.8 * 0.621371), valid = False,
          error = None, frequencyShift = Some (Finite 10),
          relativeFactor = Some (Finite (10 / 110))\<rparr>"
proof -
  have 1: "calculateSpeedWithValidation new_DopplerSpeedCalculator Undefined (Number (Finite 100)) =
     Inr \<lparr>speedKMH = NotANumber, speedMPH = NotANumber, valid = False, error = None,
          frequencyShift = Some NotANumber, relativeFactor = Some NotANumber\<rparr>"
    by (simp add: calculateSpeedWithValidation_def calculateSpeedWithValidation_try_def
        calculateSpeed_any_def number_le_def number_sub_def number_max_def Let_def)
  have 2: "calculateSpeedWithValidation (setSpeedLimits (-100) 1000 new_DopplerSpeedCalculator)
       (Number (Finite 100)) (Number (Finite 110)) =
     Inr \<lparr>speedKMH = Finite (-58.8), speedMPH = Finite (-58.8 * 0.621371), valid = False,
          error = None, frequencyShift = Some (Finite 10),
          relativeFactor = Some (Finite (10 / 110))\<rparr>"
    using finite_computed [of "Number (Finite 100)" 100 "Number (Finite 110)" 110
        "setSpeedLimits (-100) 1000 new_DopplerSpeedCalculator"]
    by (simp add: setSpeedLimits_def new_DopplerSpeedCalculator_def)
  show ?thesis using 1 2 by blast
qed

text \<open>
  C3 (amended): for arguments of any kind (numbers with \<open>NaN\<close> and the infinities,
  \<open>undefined\<close>, \<open>null\<close>, booleans) and any calculator, \<open>calculateSpeedWithValidation\<close>
  returns a result object, and no exception leaves it. The result has \<open>valid = false\<close>
  whenever \<open>f1 <= 0\<close> or \<open>f2 <= 0\<close>, or \<open>|f1 - f2| < 1\<close> (in both cases with both speed fields
  0 and an \<open>error\<close> that is not \<open>null\<close>), or the arguments are positive and the computed
  speed lies outside the configured bound; for a sound speed that is not negative, also
  whenever the first argument is the lower of two positive frequencies (the reversed
  call). When the lower limit is not negative and neither argument is \<open>NaN\<close>, \<open>undefined\<close>
  or \<open>Infinity\<close>, every result with \<open>valid = false\<close> has both speed fields 0 and an
  \<open>error\<close> that is not \<open>null\<close>.
\<close>

theorem C3_validation:
  "\<exists>result. calculateSpeedWithValidation c f1 f2 = Inr result \<and>
     (number_le (ToNumber f1) (Finite 0) \<or> number_le (ToNumber f2) (Finite 0)
        \<longrightarrow> \<not> valid result \<and> speedKMH result = Finite 0 \<and> speedMPH result = Finite 0 \<and>
            error result \<noteq> None) \<and>
     (number_less (number_abs (number_sub (ToNumber f1) (ToNumber f2))) (Finite 1)
        \<longrightarrow> \<not> valid result \<and> speedKMH result = Finite 0 \<and> speedMPH result = Finite 0 \<and>
            error result \<noteq> None) \<and>
     (ToNumber f1 = Finite a \<and> ToNumber f2 = Finite r \<and> 0 < a \<and> 0 < r \<and>
        (soundSpeed c * (a - r) / (a + r) * 3.6 < minReasonableSpeed c \<or>
         soundSpeed c * (a - r) / (a + r) * 3.6 > maxReasonableSpeed c)
        \<longrightarrow> \<not> valid result) \<and>
     (0 \<le> soundSpeed c \<and> ToNumber f1 = Finite a \<and> ToNumber f2 = Finite r \<and> 0 < a \<and> a < r
        \<longrightarrow> \<not> valid result) \<and>
     (0 \<le> minReasonableSpeed c \<and> \<not> nan_or_infinity (ToNumber f1) \<and>
      \<not> nan_or_infinity (ToNumber f2) \<and> \<not> valid result
        \<longrightarrow> speedKMH result = Finite 0 \<and> speedMPH result = Finite 0 \<and> error result \<noteq> None)"
proof -
  obtain result where res: "calculateSpeedWithValidation c f1 f2 = Inr result"
    using returns_result by blast
  have early: "number_le (ToNumber f1) (Finite 0) \<or> number_le (ToNumber f2) (Finite 0) \<or>
           number_less (number_abs (number_sub (ToNumber f1) (ToNumber f2))) (Finite 1)
        \<Longrightarrow> \<not> valid result \<and> speedKMH result = Finite 0 \<and> speedMPH result = Finite 0 \<and>
            error result \<noteq> None"
    using try_early [of f1 f2 c] res by auto
  have out: "\<not> valid result"
    if "ToNumber f1 = Finite a" "ToNumber f2 = Finite r" "0 < a" "0 < r"
       "soundSpeed c * (a - r) / (a + r) * 3.6 < minReasonableSpeed c \<or>
        soundSpeed c * (a - r) / (a + r) * 3.6 > maxReasonableSpeed c"
    using finite_rejected [OF that(1-4), of c] that(5) res by auto
  have rev: "\<not> valid result"
    if "0 \<le> soundSpeed c" "ToNumber f1 = Finite a" "ToNumber f2 = Finite r" "0 < a" "a < r"
  proof -
    have r: "0 < r" using that by linarith
    have "soundSpeed c * (a - r) / (a + r) \<le> 0"
      using that r by (simp add: divide_nonpos_pos mult_nonneg_nonpos)
    then have le: "soundSpeed c * (a - r) / (a + r) * 3.6 \<le> 0"
      by (rule mult_nonpos_nonneg) simp
    show ?thesis
    proof (cases "\<bar>a - r\<bar> < 1 \<or>
         maxReasonableSpeed c \<le> soundSpeed c * (a - r) / (a + r) * 3.6 \<or>
         soundSpeed c * (a - r) / (a + r) * 3.6 < minReasonableSpeed c")
      case True
      then show ?thesis using finite_rejected [OF that(2,3,4) r, of c] res by auto
    next
      case False
      then show ?thesis
        using finite_computed [OF that(2,3,4) r, of c] res le by auto
    qed
  qed
  have fields: "speedKMH result = Finite 0 \<and> speedMPH result = Finite 0 \<and> error result \<noteq> None"
    if h: "0 \<le> minReasonableSpeed c" "\<not> nan_or_infinity (ToNumber f1)"
       "\<not> nan_or_infinity (ToNumber f2)" "\<not> valid result"
  proof (cases "number_le (ToNumber f1) (Finite 0) \<or> number_le (ToNumber f2) (Finite 0)")
    case True
    then show ?thesis using early by blast
  next
    case False
    then obtain a' where a': "ToNumber f1 = Finite a'" "0 < a'"
      using h(2) not_le_zero_finite [of "ToNumber f1"] by blast
    from False obtain r' where r': "ToNumber f2 = Finite r'" "0 < r'"
      using h(3) not_le_zero_finite [of "ToNumber f2"] by blast
    show ?thesis
    proof (cases "\<bar>a' - r'\<bar> < 1 \<or>
         maxReasonableSpeed c \<le> soundSpeed c * (a' - r') / (a' + r') * 3.6 \<or>
         soundSpeed c * (a' - r') / (a' + r') * 3.6 < minReasonableSpeed c")
      case True
      then show ?thesis using finite_rejected [OF a'(1) r'(1) a'(2) r'(2), of c] res by auto
    next
      case False
      then have eq: "calculateSpeedWithValidation c f1 f2 =
           Inr \<lparr>speedKMH = Finite (soundSpeed c * (a' - r') / (a' + r') * 3.6),
                speedMPH = Finite (soundSpeed c * (a' - r') / (a' + r') * 3.6 * 0.621371),
                valid = (0 < soundSpeed c * (a' - r') / (a' + r') * 3.6),
                error = (if soundSpeed c * (a' - r') / (a' + r') * 3.6 = 0
                         then Some (Text ''Speed outside reasonable range'') else None),
                frequencyShift = Some (Finite \<bar>a' - r'\<bar>),
                relativeFactor = Some (Finite (\<bar>a' - r'\<bar> / max a' r'))\<rparr>"
        using finite_computed [OF a'(1) r'(1) a'(2) r'(2), of c] by auto
      define v where "v = soundSpeed c * (a' - r') / (a' + r') * 3.6"
      have "\<not> 0 < v" using eq res h(4) unfolding v_def by auto
      moreover have "0 \<le> v" using False h(1) unfolding v_def by auto
      ultimately have "v = 0" by simp
      then show ?thesis using eq res unfolding v_def by auto
    qed
  qed
  show ?thesis using res early out rev fields by blast
qed

theorem C3_validation_witness:
  "\<not> valid (projr (calculateSpeedWithValidation new_DopplerSpeedCalculator
                     (Number (Finite 0)) (Number (Finite 100)))) \<and>
   \<not> valid (projr (calculateSpeedWithValidation new_DopplerSpeedCalculator
                     (Number (Finite 100)) (Number (Finite 100.5)))) \<and>
   \<not> valid (projr (calculateSpeedWithValidation new_DopplerSpeedCalculator
                     (Number (Finite 100)) (Number (Finite 1)))) \<and>
   \<not> valid (projr (calculateSpeedWithValidation new_DopplerSpeedCalculator
                     (Number (Finite 950)) (Number (Finite 1100)))) \<and>
   speedKMH (projr (calculateSpeedWithValidation new_DopplerSpeedCalculator
                     (Number (Finite 950)) (Number (Finite 1100)))) = Finite 0 \<and>
   speedMPH (projr (calculateSpeedWithValidation new_DopplerSpeedCalculator
                     (Number (Finite 950)) (Number (Finite 1100)))) = Finite 0 \<and>
   error (projr (calculateSpeedWithValidation new_DopplerSpeedCalculator
                     (Number (Finite 950)) (Number (Finite 1100)))) \<noteq> None \<and>
   \<not> isl (calculateSpeedWithValidation new_DopplerSpeedCalculator
                     (Boolean True) (Number (Finite 3))) \<and>
   \<not> valid (projr (calculateSpeedWithValidation new_DopplerSpeedCalculator
                     (Boolean True) (Number (Finite 3)))) \<and>
   error (projr (calculateSpeedWithValidation new_DopplerSpeedCalculator
                     (Boolean True) (Number (Finite 3)))) \<noteq> None"
proof -
  let ?c = new_DopplerSpeedCalculator
  have c: "0 \<le> soundSpeed ?c" "0 \<le> minReasonableSpeed ?c"
    by (simp_all add: new_DopplerSpeedCalculator_def)
  have nonpos: "number_le (ToNumber (Number (Finite 0))) (Finite 0) \<or>
                number_le (ToNumber (Number (Finite 100))) (Finite 0)"
    by simp
  have small: "number_less (number_abs (number_sub (ToNumber (Number (Finite 100)))
                 (ToNumber (Number (Finite 100.5))))) (Finite 1)"
    by simp
  have out: "ToNumber (Number (Finite 100)) = Finite 100 \<and> ToNumber (Number (Finite 1)) = Finite 1 \<and>
       (0::real) < 100 \<and> (0::real) < 1 \<and>
       (soundSpeed ?c * (100 - 1) / (100 + 1) * 3.6 < minReasonableSpeed ?c \<or>
        soundSpeed ?c * (100 - 1) / (100 + 1) * 3.6 > maxReasonableSpeed ?c)"
    by (simp add: new_DopplerSpeedCalculator_def)
  have rev: "ToNumber (Number (Finite 950)) = Finite 950 \<and>
       ToNumber (Number (Finite 1100)) = Finite 1100 \<and> (0::real) < 950 \<and> (950::real) < 1100"
    by simp
  have fin: "\<not> nan_or_infinity (ToNumber (Number (Finite 950)))"
            "\<not> nan_or_infinity (ToNumber (Number (Finite 1100)))"
    by simp_all
  have bool: "ToNumber (Boolean True) = Finite 1 \<and> ToNumber (Number (Finite 3)) = Finite 3 \<and>
       (0::real) < 1 \<and> (1::real) < 3"
    by simp
  have finb: "\<not> nan_or_infinity (ToNumber (Boolean True))"
             "\<not> nan_or_infinity (ToNumber (Number (Finite 3)))"
    by simp_all
  have 1: "\<not> valid (projr (calculateSpeedWithValidation ?c (Number (Finite 0)) (Number (Finite 100))))"
    using C3_validation [where c = ?c and ?f1.0 = "Number (Finite 0)" and ?f2.0 = "Number (Finite 100)"
        and a = 0 and r = 0] nonpos
    by auto
  have 2: "\<not> valid (projr (calculateSpeedWithValidation ?c (Number (Finite 100)) (Number (Finite 100.5))))"
    using C3_validation [where c = ?c and ?f1.0 = "Number (Finite 100)"
        and ?f2.0 = "Number (Finite 100.5)" and a = 0 and r = 0] small
    by auto
  have 3: "\<not> valid (projr (calculateSpeedWithValidation ?c (Number (Finite 100)) (Number (Finite 1))))"
    using C3_validation [where c = ?c and ?f1.0 = "Number (Finite 100)"
        and ?f2.0 = "Number (Finite 1)" and a = 100 and r = 1] out
    by auto
  obtain res where res: "calculateSpeedWithValidation ?c (Number (Finite 950)) (Number (Finite 1100)) = Inr res"
      "\<not> valid res"
      "speedKMH res = Finite 0 \<and> speedMPH res = Finite 0 \<and> error res \<noteq> None"
    using C3_validation [where c = ?c and ?f1.0 = "Number (Finite 950)"
        and ?f2.0 = "Number (Finite 1100)" and a = 950 and r = 1100] rev c fin
    by blast
  obtain resb where resb: "calculateSpeedWithValidation ?c (Boolean True) (Number (Finite 3)) = Inr resb"
      "\<not> valid resb" "error resb \<noteq> None"
    using C3_validation [where c = ?c and ?f1.0 = "Boolean True"
        and ?f2.0 = "Number (Finite 3)" and a = 1 and r = 3] bool c finb
    by blast
  show ?thesis using 1 2 3 res resb by simp
qed

section \<open>The strategies and the final selection\<close>

lemma first_lowest_single: "first_lowest key [x] x"
  by (simp add: first_lowest_def)

lemma first_lowest_step:
  assumes "first_lowest key (lower_by key x y # ys) b"
  shows "first_lowest key (x # y # ys) b"
proof (cases "key y < key x")
  case True
  with assms show ?thesis
    by (auto simp add: first_lowest_def lower_by_def split: if_splits)
next
  case False
  with assms show ?thesis
    by (auto simp add: first_lowest_def lower_by_def split: if_splits)
qed

lemma foldl_lower_by: "first_lowest key (x # xs) (foldl (lower_by key) x xs)"
proof (induction xs arbitrary: x)
  case Nil
  show ?case by (simp add: first_lowest_single)
next
  case (Cons y ys)
  have "first_lowest key (lower_by key x y # ys) (foldl (lower_by key) (lower_by key x y) ys)"
    by (rule Cons.IH)
  then show ?case by (simp add: first_lowest_step)
qed

lemma foldl_keep_lower_Some:
  "foldl (keep_lower key) (Some b) cs = Some (foldl (lower_by key) b cs)"
  by (induction cs arbitrary: b) (simp_all add: keep_lower_def lower_by_def)

lemma foldl_keep_lower_None:
  "foldl (keep_lower key) None cs = js_reduce (lower_by key) cs"
  by (cases cs) (simp_all add: foldl_keep_lower_Some, simp add: keep_lower_def foldl_keep_lower_Some)

lemma js_reduce_lower_by:
  assumes "cs \<noteq> []"
  obtains b where "js_reduce (lower_by key) cs = Some b" "first_lowest key cs b"
  using assms foldl_lower_by [of key] by (cases cs) auto

lemma lowerSpeed_lower_by: "lowerSpeed = lower_by speedMph"
  by (intro ext) (simp add: lowerSpeed_def lower_by_def)

lemma chooseBestResult_empty: "chooseBestResult [] = Inl ''No valid frequency pairs found''"
  by (simp add: chooseBestResult_def)

lemma chooseBestResult_nonempty:
  assumes "strategies \<noteq> []"
  shows "\<exists>b. chooseBestResult strategies = Inr b \<and>
             first_lowest speedMph
               (if filter (\<lambda>s. 10 \<le> speedMph s \<and> speedMph s \<le> 100) strategies \<noteq> []
                then filter (\<lambda>s. 10 \<le> speedMph s \<and> speedMph s \<le> 100) strategies
                else strategies) b"
proof (cases "filter (\<lambda>s. 10 \<le> speedMph s \<and> speedMph s \<le> 100) strategies = []")
  case True
  obtain b where "js_reduce (lower_by speedMph) strategies = Some b"
      "first_lowest speedMph strategies b"
    using assms by (rule js_reduce_lower_by)
  then show ?thesis using True assms
    by (simp add: chooseBestResult_def lowerSpeed_lower_by Let_def)
next
  case False
  obtain b where "js_reduce (lower_by speedMph)
        (filter (\<lambda>s. 10 \<le> speedMph s \<and> speedMph s \<le> 100) strategies) = Some b"
      "first_lowest speedMph (filter (\<lambda>s. 10 \<le> speedMph s \<and> speedMph s \<le> 100) strategies) b"
    using False by (rule js_reduce_lower_by)
  then show ?thesis using False assms
    by (simp add: chooseBestResult_def lowerSpeed_lower_by Let_def)
qed

lemma considerOrdered_eq:
  "considerOrdered veryLenient e best p =
     (if qualifies p then keep_lower pair_error best (tertiaryCandidate e p) else best)"
proof (cases p)
  case (Pair f1 f2)
  show ?thesis
  proof (cases "calculateSpeed veryLenient f1 f2")
    case NaN
    then show ?thesis using Pair by (simp add: considerOrdered_def qualifies_def)
  next
    case (Num k)
    then show ?thesis using Pair
      by (simp add: considerOrdered_def qualifies_def keep_lower_def tertiaryCandidate_def
          anchorError_def anchored_def pairKmh_def Let_def split: option.splits)
  qed
qed

lemma foldl_filter_map:
  "foldl (\<lambda>s p. if P p then f s (g p) else s) s ps = foldl f s (map g (filter P ps))"
  by (induction ps arbitrary: s) simp_all

lemma foldl_concat_map:
  "foldl (\<lambda>s x. foldl f s (h x)) s xs = foldl f s (concat (map h xs))"
  by (induction xs arbitrary: s) simp_all

lemma tryTertiaryStrategy_reduce:
  "tryTertiaryStrategy as rs e =
     js_reduce (lower_by pair_error)
       (map (tertiaryCandidate e) (filter qualifies (orderedPairs as rs)))"
proof -
  have "tryTertiaryStrategy as rs e =
          foldl (\<lambda>s a. foldl (\<lambda>s r. foldl (considerOrdered veryLenient e) s
                    [(frequency a, frequency r), (frequency r, frequency a)]) s (take 10 rs))
                None (take 10 as)"
    by (simp only: tryTertiaryStrategy_def veryLenient_def Let_def)
  also have "\<dots> = foldl (considerOrdered veryLenient e) None (orderedPairs as rs)"
    by (simp only: foldl_concat_map orderedPairs_def)
  also have "\<dots> = foldl (keep_lower pair_error) None
                    (map (tertiaryCandidate e) (filter qualifies (orderedPairs as rs)))"
    by (simp only: considerOrdered_eq [abs_def] foldl_filter_map)
  finally show ?thesis by (simp only: foldl_keep_lower_None)
qed

lemma find_map_image:
  "List.find P (map g xs) = map_option g (List.find (\<lambda>x. P (g x)) xs)"
  by (induction xs) simp_all

lemma first_lowest_map:
  assumes "first_lowest key (map g xs) b" and "\<And>x. h (g x) = x"
  shows "first_lowest (\<lambda>x. key (g x)) xs (h b) \<and> g (h b) = b \<and> h b \<in> set xs"
proof -
  from assms(1) have all: "list_all (\<lambda>y. key b \<le> key (g y)) xs"
    and fnd: "List.find (\<lambda>y. key y = key b) (map g xs) = Some b"
    by (simp_all add: first_lowest_def list_all_iff)
  from fnd obtain p where p: "List.find (\<lambda>x. key (g x) = key b) xs = Some p" "g p = b"
    by (auto simp add: find_map_image)
  have hb: "h b = p" using p(2) assms(2) by auto
  have "p \<in> set xs" using p(1) by (auto simp add: find_Some_iff)
  then show ?thesis using all p hb by (simp add: first_lowest_def)
qed

lemma first_lowest_const:
  assumes "first_lowest (\<lambda>x. 0) xs p"
  shows "p = hd xs"
  using assms by (cases xs) (simp_all add: first_lowest_def)

lemma tertiaryCandidate_pair:
  "(approachFreq (tertiaryCandidate e x), recedeFreq (tertiaryCandidate e x)) = x"
  by (simp add: tertiaryCandidate_def)

lemma tertiary_characterisation:
  "(filter qualifies (orderedPairs as rs) = [] \<longrightarrow> tryTertiaryStrategy as rs e = None) \<and>
   (filter qualifies (orderedPairs as rs) \<noteq> [] \<longrightarrow>
      (\<exists>p. tryTertiaryStrategy as rs e = Some (tertiaryCandidate e p) \<and>
           p \<in> set (orderedPairs as rs) \<and> qualifies p \<and>
           (if anchored e
            then first_lowest (\<lambda>q. \<bar>pairKmh q * 0.621371 - the e\<bar>)
                   (filter qualifies (orderedPairs as rs)) p
            else p = hd (filter qualifies (orderedPairs as rs)))))"
proof (intro conjI impI)
  assume "filter qualifies (orderedPairs as rs) = []"
  then show "tryTertiaryStrategy as rs e = None"
    by (simp add: tryTertiaryStrategy_reduce)
next
  let ?Q = "filter qualifies (orderedPairs as rs)"
  assume ne: "?Q \<noteq> []"
  then have "map (tertiaryCandidate e) ?Q \<noteq> []" by simp
  then obtain b where b: "js_reduce (lower_by pair_error) (map (tertiaryCandidate e) ?Q) = Some b"
      "first_lowest pair_error (map (tertiaryCandidate e) ?Q) b"
    by (rule js_reduce_lower_by)
  define p where "p = (approachFreq b, recedeFreq b)"
  have fl: "first_lowest (\<lambda>x. pair_error (tertiaryCandidate e x)) ?Q p"
    and bp: "tertiaryCandidate e p = b" and mem: "p \<in> set ?Q"
    using first_lowest_map [OF b(2), of "\<lambda>b. (approachFreq b, recedeFreq b)"]
      tertiaryCandidate_pair unfolding p_def by blast+
  have key: "(\<lambda>x. pair_error (tertiaryCandidate e x)) = anchorError e"
    by (simp add: tertiaryCandidate_def)
  have sel: "if anchored e
        then first_lowest (\<lambda>q. \<bar>pairKmh q * 0.621371 - the e\<bar>) ?Q p
        else p = hd ?Q"
  proof (cases "anchored e")
    case True
    then have "anchorError e = (\<lambda>q. \<bar>pairKmh q * 0.621371 - the e\<bar>)"
      unfolding anchorError_def by (simp only: if_True)
    then show ?thesis using fl key True by simp
  next
    case False
    then have "anchorError e = (\<lambda>q. 0)" by (intro ext) (simp add: anchorError_def)
    then show ?thesis using fl key False first_lowest_const [of ?Q p] by simp
  qed
  show "\<exists>p. tryTertiaryStrategy as rs e = Some (tertiaryCandidate e p) \<and>
           p \<in> set (orderedPairs as rs) \<and> qualifies p \<and>
           (if anchored e
            then first_lowest (\<lambda>q. \<bar>pairKmh q * 0.621371 - the e\<bar>) ?Q p
            else p = hd ?Q)"
    using b(1) bp mem sel by (intro exI [of _ p]) (simp add: tryTertiaryStrategy_reduce)
qed

lemma example_speeds:
  "calculateSpeed veryLenient 1100 900 = Num 123.48"
  "calculateSpeed veryLenient 900 1100 = Num 0"
  "calculateSpeed veryLenient 1000 900 = Num (1234.8 / 19)"
  "calculateSpeed veryLenient 900 1000 = Num 0"
  by (simp_all add: calculateSpeed_def veryLenient_def setSpeedLimits_def
      new_DopplerSpeedCalculator_def Let_def)

lemma example_pairs:
  "orderedPairs exampleApproach exampleRecede = [(1100, 900), (900, 1100), (1000, 900), (900, 1000)]"
  by (simp add: orderedPairs_def exampleApproach_def exampleRecede_def)

lemma example_qualifying:
  "filter qualifies (orderedPairs exampleApproach exampleRecede) = [(1100, 900), (1000, 900)]"
  by (simp add: example_pairs qualifies_def example_speeds)

text \<open>
  C5, as stated, fails without an anchor: every qualifying pair then has error 0, so the
  first qualifying pair is kept, not the one of lowest speed. With approach candidates
  1100 Hz and 1000 Hz and the recede candidate 900 Hz the strategy returns the pair
  (1100, 900) at 123.48 km/h, although (1000, 900) qualifies at about 65 km/h.
\<close>

theorem C5_counterexample:
  "map_option speedKmh (tryTertiaryStrategy exampleApproach exampleRecede None) = Some 123.48 \<and>
   (1000, 900) \<in> set (orderedPairs exampleApproach exampleRecede) \<and>
   calculateSpeed veryLenient 1000 900 = Num (1234.8 / 19) \<and>
   (0::real) < 1234.8 / 19 \<and> (1234.8 / 19 :: real) < 123.48"
proof -
  have "map_option speedKmh (tryTertiaryStrategy exampleApproach exampleRecede None) = Some 123.48"
    by (simp add: tryTertiaryStrategy_reduce example_qualifying example_speeds
        lower_by_def tertiaryCandidate_def anchorError_def anchored_def pairKmh_def)
  moreover have "(1000, 900) \<in> set (orderedPairs exampleApproach exampleRecede)"
    by (simp add: example_pairs)
  ultimately show ?thesis by (simp add: example_speeds)
qed

text \<open>
  C5 (amended): the tertiary strategy enumerates the first 10 approach candidates and the
  first 10 recede candidates, each pair in both orders \<open>(a, r)\<close> and \<open>(r, a)\<close>, and keeps
  the ordered pairs whose speed is strictly between 0 and 1000 km/h. When none qualifies
  it returns \<open>valid = false\<close>. Otherwise it returns the candidate of a qualifying pair:
  with an anchor speed (neither \<open>null\<close> nor 0) the first pair that minimises
  \<open>|speedMph - anchor|\<close>, and without one the first qualifying pair in enumeration order.
\<close>

theorem C5_tertiary:
  "(filter qualifies (orderedPairs as rs) = [] \<longrightarrow> tryTertiaryStrategy as rs e = None) \<and>
   (filter qualifies (orderedPairs as rs) \<noteq> [] \<longrightarrow>
      (\<exists>p. tryTertiaryStrategy as rs e = Some (tertiaryCandidate e p) \<and>
           p \<in> set (orderedPairs as rs) \<and> qualifies p \<and>
           (if anchored e
            then first_lowest (\<lambda>q. \<bar>pairKmh q * 0.621371 - the e\<bar>)
                   (filter qualifies (orderedPairs as rs)) p
            else p = hd (filter qualifies (orderedPairs as rs)))))"
  by (rule tertiary_characterisation)

theorem C5_tertiary_witness:
  "filter qualifies (orderedPairs exampleApproach exampleRecede) \<noteq> [] \<and>
   tryTertiaryStrategy exampleApproach exampleRecede (Some 40)
     = Some (tertiaryCandidate (Some 40) (1000, 900)) \<and>
   tryTertiaryStrategy exampleApproach exampleRecede None
     = Some (tertiaryCandidate None (1100, 900)) \<and>
   tryTertiaryStrategy exampleApproach ([] :: frequency_candidate list) (Some 40) = None"
proof -
  let ?Q = "filter qualifies (orderedPairs exampleApproach exampleRecede)"
  have ne: "?Q \<noteq> []" by (simp add: example_qualifying)
  from C5_tertiary [of exampleApproach exampleRecede "Some 40"] ne
  obtain p where p: "tryTertiaryStrategy exampleApproach exampleRecede (Some 40)
        = Some (tertiaryCandidate (Some 40) p)"
      "first_lowest (\<lambda>q. \<bar>pairKmh q * 0.621371 - 40\<bar>) ?Q p"
    by (auto simp add: anchored_def)
  from p(2) have "p = (1000, 900)"
    by (simp add: example_qualifying first_lowest_def pairKmh_def example_speeds split: if_splits)
  with p(1) have a: "tryTertiaryStrategy exampleApproach exampleRecede (Some 40)
     = Some (tertiaryCandidate (Some 40) (1000, 900))" by simp
  from C5_tertiary [of exampleApproach exampleRecede None] ne
  have b: "tryTertiaryStrategy exampleApproach exampleRecede None
     = Some (tertiaryCandidate None (1100, 900))"
    by (auto simp add: anchored_def example_qualifying)
  have "filter qualifies (orderedPairs exampleApproach ([] :: frequency_candidate list)) = []"
    by (simp add: orderedPairs_def)
  with C5_tertiary [of exampleApproach "[] :: frequency_candidate list" "Some 40"]
  have c: "tryTertiaryStrategy exampleApproach ([] :: frequency_candidate list) (Some 40) = None"
    by blast
  show ?thesis using ne a b c by blast
qed

lemma strategy_tag_result: "strategy (tag_result t r) = t"
  by (simp add: tag_result_def speed_result.extend_def tier_result.fields_def)

lemma secondary_tag:
  "trySecondaryStrategy as rs e = Some r \<Longrightarrow> strategy r = Secondary"
  by (auto simp add: trySecondaryStrategy_def Let_def strategy_tag_result split: sum.splits)

lemma tertiary_tag:
  assumes "tryTertiaryStrategy as rs e = Some r"
  shows "strategy r = Tertiary"
proof (cases "filter qualifies (orderedPairs as rs) = []")
  case True
  with assms show ?thesis by (simp add: tryTertiaryStrategy_reduce)
next
  case False
  then obtain p where "tryTertiaryStrategy as rs e = Some (tertiaryCandidate e p)"
    using tertiary_characterisation [of as rs e] by blast
  with assms show ?thesis by (auto simp add: tertiaryCandidate_def)
qed

lemma collectStrategies_order:
  "subseq (map strategy (collectStrategies as rs e)) [Primary, Secondary, Tertiary]"
proof -
  define P where "P = findOptimalSpeedCalculation new_DopplerSpeedCalculator as rs (or_default e 30)"
  define S where "S = trySecondaryStrategy as rs e"
  define T where "T = tryTertiaryStrategy as rs e"
  have eq: "collectStrategies as rs e =
      (case P of Inr r \<Rightarrow> [tag_result Primary r] | Inl _ \<Rightarrow> []) @
      (case S of Some r \<Rightarrow> [r] | None \<Rightarrow> []) @ (case T of Some r \<Rightarrow> [r] | None \<Rightarrow> [])"
    by (simp add: collectStrategies_def P_def S_def T_def)
  have s: "\<And>r. S = Some r \<Longrightarrow> strategy r = Secondary"
    unfolding S_def by (rule secondary_tag)
  have t: "\<And>r. T = Some r \<Longrightarrow> strategy r = Tertiary"
    unfolding T_def by (rule tertiary_tag)
  show ?thesis
    unfolding eq using s t
    by (cases P; cases S; cases T) (simp_all add: strategy_tag_result)
qed

text \<open>
  C1: the final selection of \<open>findBestSpeedCalculation\<close>. With no valid tier result the
  output has \<open>valid = false\<close>. Otherwise the output is a tier result: the first one of
  lowest \<open>speedMph\<close> among those with \<open>10 \<le> speedMph \<le> 100\<close> when there is one, and the
  first one of lowest \<open>speedMph\<close> among all otherwise. The tier results are collected in
  the order Primary, Secondary, Tertiary, so that a tie goes to the earliest tier.
\<close>

theorem C1_final_selection:
  "chooseBestResult [] = Inl ''No valid frequency pairs found'' \<and>
   (strategies \<noteq> [] \<longrightarrow>
      (\<exists>b. chooseBestResult strategies = Inr b \<and>
           first_lowest speedMph (if band strategies \<noteq> [] then band strategies else strategies) b)) \<and>
   findBestSpeedCalculation as rs e = chooseBestResult (collectStrategies as rs e) \<and>
   subseq (map strategy (collectStrategies as rs e)) [Primary, Secondary, Tertiary]"
  using chooseBestResult_empty chooseBestResult_nonempty [of strategies]
    collectStrategies_order [of as rs e]
  by (auto simp add: band_def findBestSpeedCalculation_def)

theorem C1_final_selection_witness:
  "[tierAt Primary 120, tierAt Secondary 45, tierAt Tertiary 200] \<noteq> [] \<and>
   chooseBestResult [tierAt Primary 120, tierAt Secondary 45, tierAt Tertiary 200]
     = Inr (tierAt Secondary 45) \<and>
   chooseBestResult [tierAt Primary 45, tierAt Secondary 45, tierAt Tertiary 45]
     = Inr (tierAt Primary 45) \<and>
   chooseBestResult [tierAt Primary 120, tierAt Secondary 5, tierAt Tertiary 5]
     = Inr (tierAt Secondary 5)"
proof -
  let ?none = "[] :: frequency_candidate list"
  let ?A = "[tierAt Primary 120, tierAt Secondary 45, tierAt Tertiary 200]"
  let ?B = "[tierAt Primary 45, tierAt Secondary 45, tierAt Tertiary 45]"
  let ?C = "[tierAt Primary 120, tierAt Secondary 5, tierAt Tertiary 5]"
  have neA: "?A \<noteq> []" and neB: "?B \<noteq> []" and neC: "?C \<noteq> []" by simp_all
  have mph: "\<And>t m. speedMph (tierAt t m) = m" by (simp add: tierAt_def)
  have bandA: "band ?A = [tierAt Secondary 45]"
    and bandB: "band ?B = ?B" and bandC: "band ?C = []"
    by (simp_all add: band_def tierAt_def)
  from C1_final_selection [of ?A ?none ?none None] neA
  obtain a where a: "chooseBestResult ?A = Inr a"
      "first_lowest speedMph (if band ?A \<noteq> [] then band ?A else ?A) a"
    by blast
  from a(2) have "a = tierAt Secondary 45"
    by (simp add: bandA first_lowest_def mph split: if_splits)
  with a(1) have 1: "chooseBestResult ?A = Inr (tierAt Secondary 45)" by simp
  from C1_final_selection [of ?B ?none ?none None] neB
  obtain b where b: "chooseBestResult ?B = Inr b"
      "first_lowest speedMph (if band ?B \<noteq> [] then band ?B else ?B) b"
    by blast
  from b(2) have "b = tierAt Primary 45"
    by (simp add: bandB first_lowest_def mph split: if_splits)
  with b(1) have 2: "chooseBestResult ?B = Inr (tierAt Primary 45)" by simp
  from C1_final_selection [of ?C ?none ?none None] neC
  obtain c where c: "chooseBestResult ?C = Inr c"
      "first_lowest speedMph (if band ?C \<noteq> [] then band ?C else ?C) c"
    by blast
  from c(2) have "c = tierAt Secondary 5"
    by (simp add: bandC first_lowest_def mph split: if_splits)
  with c(1) have 3: "chooseBestResult ?C = Inr (tierAt Secondary 5)" by simp
  show ?thesis using 1 2 3 by simp
qed

section \<open>Pair confidence and matching\<close>

lemma speedConfidence_eq: "speedConfidence (Num s) = speedReasonableness s"
  by (simp add: speedReasonableness_def)

lemma calculateSpeedConfidence_composite:
  assumes "frequency a > frequency r"
    and "overallConfidence qa = Num x" and "overallConfidence qr = Num y"
  shows "calculateSpeedConfidence a r (Num s) qa qr =
           Num (compositeScore (min (or_half (powerScore a)) (or_half (powerScore r)))
                  ((x + y) / 2) (speedReasonableness s) (separationScore a r) (rankBonus a r))"
proof (cases "frequency r = 0")
  case True
  then have pos: "frequency a > 0" using assms by simp
  have "calculateSpeedConfidence a r (Num s) qa qr =
      Num (max 0 (min 1 (min (or_half (powerScore a)) (or_half (powerScore r)) * 0.3 +
         (x + y) / 2 * 0.25 +
         speedConfidence (Num s) * 0.2 +
         1 * 0.15 +
         max 0 (1 - ((real (rank a) - 1) * 0.1 + (real (rank r) - 1) * 0.1)) * 0.1)))"
    unfolding calculateSpeedConfidence_def Let_def assms(2,3) using True pos by simp
  also have "\<dots> = Num (compositeScore (min (or_half (powerScore a)) (or_half (powerScore r)))
                  ((x + y) / 2) (speedReasonableness s) (separationScore a r) (rankBonus a r))"
    unfolding compositeScore_def clamp01_def separationScore_def rankBonus_def
      speedConfidence_eq using True
    by (simp add: algebra_simps)
  finally show ?thesis .
next
  case False
  have "calculateSpeedConfidence a r (Num s) qa qr =
      Num (max 0 (min 1 (min (or_half (powerScore a)) (or_half (powerScore r)) * 0.3 +
         (x + y) / 2 * 0.25 +
         speedConfidence (Num s) * 0.2 +
         min 1 ((frequency a - frequency r) / frequency r * 10) * 0.15 +
         max 0 (1 - ((real (rank a) - 1) * 0.1 + (real (rank r) - 1) * 0.1)) * 0.1)))"
    unfolding calculateSpeedConfidence_def Let_def assms(2,3) using False
    by (simp only: if_False prod.case jsnum.case)
  also have "\<dots> = Num (compositeScore (min (or_half (powerScore a)) (or_half (powerScore r)))
                  ((x + y) / 2) (speedReasonableness s) (separationScore a r) (rankBonus a r))"
    unfolding compositeScore_def clamp01_def separationScore_def rankBonus_def
      speedConfidence_eq using False
    by (simp add: algebra_simps)
  finally show ?thesis .
qed

lemma calculateSpeedConfidence_NaN:
  "overallConfidence qa = NaN \<or> overallConfidence qr = NaN \<Longrightarrow>
   calculateSpeedConfidence a r s qa qr = NaN"
  by (auto simp add: calculateSpeedConfidence_def split: jsnum.splits)

lemma calculateSpeed_number:
  assumes "a > r" "soundSpeed c \<noteq> 0"
  shows "calculateSpeed c a r \<noteq> NaN"
  using assms by (simp add: calculateSpeed_def Let_def)

lemma js_insort_key:
  "js_insort (\<lambda>a b. f b - f a) x ys = insort_key (\<lambda>x. - f x) x ys"
  by (induction ys) simp_all

lemma js_sort_key: "js_sort (\<lambda>a b. f b - f a) xs = sort_key (\<lambda>x. - f x) xs"
  by (induction xs) (simp_all add: js_sort_def sort_key_def js_insort_key)

lemma js_sort_set: "set (js_sort (\<lambda>a b. f b - f a) xs) = set xs"
  by (simp add: js_sort_key)

lemma js_sort_descending:
  "sorted_wrt (\<lambda>x y. f x \<ge> f y) (js_sort (\<lambda>a b. f b - f a) xs)"
proof -
  have "sorted (map (\<lambda>x. - f x) (sort_key (\<lambda>x. - f x) xs))" by (rule sorted_sort_key)
  then show ?thesis by (simp add: js_sort_key sorted_map)
qed

lemma js_sort_stable:
  "filter (\<lambda>y. f y = k) (js_sort (\<lambda>a b. f b - f a) xs) = filter (\<lambda>y. f y = k) xs"
proof -
  have "filter (\<lambda>y. - f y = - k) (sort_key (\<lambda>x. - f x) xs) = filter (\<lambda>y. - f y = - k) xs"
    by (rule sort_key_stable)
  then show ?thesis by (simp add: js_sort_key)
qed

lemma considerCombination_append:
  "considerCombination fa qa qr calcs a r = calcs @ considerCombination fa qa qr [] a r"
  by (simp add: considerCombination_def Let_def split: jsnum.splits)

lemma foldl_append_each:
  "foldl (\<lambda>acc x. acc @ g x) acc xs = acc @ concat (map g xs)"
  by (induction xs arbitrary: acc) simp_all

lemma considerCombination_single:
  "considerCombination fa qa qr [] a r =
     (if frequency a > frequency r then
        (case pairConfidence fa qa qr a r of
           NaN \<Rightarrow> []
         | Num k \<Rightarrow> if k \<ge> confidenceThreshold fa then [pairEntry fa a r k] else [])
      else [])"
  by (simp add: considerCombination_def pairConfidence_def pairEntry_def Let_def not_le
      split: jsnum.splits)

lemma combineAnalyses_valid:
  assumes "sa_valid A" "sa_valid R"
  shows "speedCalculations (combineAnalyses fa A R) =
           js_sort (\<lambda>a b. confidence b - confidence a) (pushedCalculations fa A R)"
    and "bestSpeed (combineAnalyses fa A R) =
           (case speedCalculations (combineAnalyses fa A R) of [] \<Rightarrow> None | x # _ \<Rightarrow> Some x)"
proof -
  have inner: "\<And>calcs a. foldl (\<lambda>calcs r. considerCombination fa (qualityMetrics A) (qualityMetrics R) calcs a r)
                 calcs (take 5 (frequencies R)) =
        calcs @ concat (map (\<lambda>r. considerCombination fa (qualityMetrics A) (qualityMetrics R) [] a r)
                         (take 5 (frequencies R)))"
    by (subst considerCombination_append) (rule foldl_append_each)
  have pushed: "foldl (\<lambda>calcs a. foldl (\<lambda>calcs r. considerCombination fa (qualityMetrics A) (qualityMetrics R) calcs a r)
                 calcs (take 5 (frequencies R))) [] (take 5 (frequencies A)) = pushedCalculations fa A R"
    unfolding inner pushedCalculations_def by (simp only: foldl_append_each append_Nil)
  show "speedCalculations (combineAnalyses fa A R) =
           js_sort (\<lambda>a b. confidence b - confidence a) (pushedCalculations fa A R)"
    using assms by (simp add: combineAnalyses_def Let_def pushed)
  show "bestSpeed (combineAnalyses fa A R) =
           (case speedCalculations (combineAnalyses fa A R) of [] \<Rightarrow> None | x # _ \<Rightarrow> Some x)"
    using assms by (simp add: combineAnalyses_def Let_def pushed)
qed

lemma combineAnalyses_invalid:
  assumes "\<not> (sa_valid A \<and> sa_valid R)"
  shows "speedCalculations (combineAnalyses fa A R) = []"
    and "bestSpeed (combineAnalyses fa A R) = None"
  using assms by (auto simp add: combineAnalyses_def)

lemma single_member:
  "c \<in> set (considerCombination fa qa qr [] a r) \<longleftrightarrow>
     frequency a > frequency r \<and>
     (case pairConfidence fa qa qr a r of
        NaN \<Rightarrow> False
      | Num k \<Rightarrow> k \<ge> confidenceThreshold fa \<and> c = pairEntry fa a r k)"
proof (cases "frequency a > frequency r")
  case False
  then have "considerCombination fa qa qr [] a r = []"
    by (simp only: considerCombination_single if_False)
  then show ?thesis using False by simp
next
  case True
  then have eq: "considerCombination fa qa qr [] a r =
      (case pairConfidence fa qa qr a r of
           NaN \<Rightarrow> []
         | Num k \<Rightarrow> if k \<ge> confidenceThreshold fa then [pairEntry fa a r k] else [])"
    by (simp only: considerCombination_single if_True)
  show ?thesis
  proof (cases "pairConfidence fa qa qr a r")
    case NaN
    then show ?thesis using True eq by simp
  next
    case (Num k)
    then show ?thesis using True eq by auto
  qed
qed

lemma pushed_member:
  "c \<in> set (pushedCalculations fa A R) \<longleftrightarrow>
     (\<exists>a \<in> set (take 5 (frequencies A)). \<exists>r \<in> set (take 5 (frequencies R)).
        frequency a > frequency r \<and>
        (case pairConfidence fa (qualityMetrics A) (qualityMetrics R) a r of
           NaN \<Rightarrow> False
         | Num k \<Rightarrow> k \<ge> confidenceThreshold fa \<and> c = pairEntry fa a r k))"
  by (simp add: pushedCalculations_def single_member)

lemma kept_calculations:
  "c \<in> set (speedCalculations (combineAnalyses fa A R)) \<longleftrightarrow>
     sa_valid A \<and> sa_valid R \<and>
     (\<exists>a \<in> set (take 5 (frequencies A)). \<exists>r \<in> set (take 5 (frequencies R)).
        frequency a > frequency r \<and>
        (case pairConfidence fa (qualityMetrics A) (qualityMetrics R) a r of
           NaN \<Rightarrow> False
         | Num k \<Rightarrow> k \<ge> confidenceThreshold fa \<and> c = pairEntry fa a r k))"
proof (cases "sa_valid A \<and> sa_valid R")
  case True
  then show ?thesis
    using combineAnalyses_valid(1) [of A R fa] by (simp add: js_sort_set pushed_member)
next
  case False
  then show ?thesis using combineAnalyses_invalid(1) [OF False, of fa] by auto
qed

lemma calculations_sorted:
  "sorted_wrt (\<lambda>x y. confidence x \<ge> confidence y) (speedCalculations (combineAnalyses fa A R))"
proof (cases "sa_valid A \<and> sa_valid R")
  case True
  then show ?thesis
    using combineAnalyses_valid(1) [of A R fa] by (simp add: js_sort_descending)
next
  case False
  then show ?thesis using combineAnalyses_invalid(1) [OF False, of fa] by simp
qed

lemma best_is_first:
  "bestSpeed (combineAnalyses fa A R) =
     (case speedCalculations (combineAnalyses fa A R) of [] \<Rightarrow> None | x # _ \<Rightarrow> Some x)"
proof (cases "sa_valid A \<and> sa_valid R")
  case True
  then show ?thesis using combineAnalyses_valid(2) [of A R fa] by simp
next
  case False
  then show ?thesis
    using combineAnalyses_invalid [OF False, of fa] by simp
qed

lemma singleQuality_overall: "overallConfidence singleQuality = Num 0.9"
  by (simp add: singleQuality_def calculateSectionQuality_def calculateVariance_def Let_def)

lemma pairQuality_overall: "overallConfidence pairQuality = NaN"
  by (simp add: pairQuality_def calculateSectionQuality_def Let_def)

lemma calculateSectionQuality_several:
  "length fs > 1 \<Longrightarrow> overallConfidence (calculateSectionQuality fs) = NaN"
  by (auto simp add: calculateSectionQuality_def Let_def)

lemma example_default_speed: "calculateSpeed new_DopplerSpeedCalculator 1100 900 = Num 123.48"
  by (simp add: calculateSpeed_def new_DopplerSpeedCalculator_def Let_def)

lemma example_second_speed: "calculateSpeed new_DopplerSpeedCalculator 1050 950 = Num 61.74"
  by (simp add: calculateSpeed_def new_DopplerSpeedCalculator_def Let_def)

lemma example_score_kmh:
  "compositeScore (min (or_half (powerScore exampleRankedApproach))
                       (or_half (powerScore exampleRankedRecede)))
     ((0.9 + 0.9) / 2) (speedReasonableness 123.48)
     (separationScore exampleRankedApproach exampleRankedRecede)
     (rankBonus exampleRankedApproach exampleRankedRecede) = 0.92804"
  by (simp add: compositeScore_def speedReasonableness_def separationScore_def
      rankBonus_def clamp01_def exampleRankedApproach_def exampleRankedRecede_def)

lemma example_score_mph:
  "compositeScore (min 1 1) ((0.9 + 0.9) / 2) (speedReasonableness (123.48 * 0.621371))
     (separationScore exampleRankedApproach exampleRankedRecede)
     (rankBonus exampleRankedApproach exampleRankedRecede) = 0.975"
  by (simp add: compositeScore_def speedReasonableness_def separationScore_def
      rankBonus_def clamp01_def exampleRankedApproach_def exampleRankedRecede_def)

lemma example_score_fallback:
  "compositeScore (min (or_half (powerScore zeroPowerApproach))
                       (or_half (powerScore fullPowerRecede)))
     ((0.9 + 0.9) / 2) (speedReasonableness 61.74)
     (separationScore zeroPowerApproach fullPowerRecede)
     (rankBonus zeroPowerApproach fullPowerRecede) = 0.815"
  by (simp add: compositeScore_def speedReasonableness_def separationScore_def
      rankBonus_def clamp01_def zeroPowerApproach_def fullPowerRecede_def)

lemma example_score_zero:
  "compositeScore (min 0 1) ((0.9 + 0.9) / 2) (speedReasonableness (61.74 * 0.621371))
     (separationScore zeroPowerApproach fullPowerRecede)
     (rankBonus zeroPowerApproach fullPowerRecede) = 0.665"
  by (simp add: compositeScore_def speedReasonableness_def separationScore_def
      rankBonus_def clamp01_def zeroPowerApproach_def fullPowerRecede_def)

lemma default_calculator:
  "dopplerCalculator (new_FrequencyAnalysis None None) = new_DopplerSpeedCalculator"
  by (simp add: new_FrequencyAnalysis_def)

lemma example_pairConfidence:
  "pairConfidence (new_FrequencyAnalysis None None) singleQuality singleQuality
     exampleRankedApproach exampleRankedRecede = Num 0.92804"
proof -
  have f: "frequency exampleRankedApproach = 1100" "frequency exampleRankedRecede = 900"
    by (simp_all add: exampleRankedApproach_def exampleRankedRecede_def)
  have gt: "frequency exampleRankedApproach > frequency exampleRankedRecede"
    by (simp add: f)
  show ?thesis
    unfolding pairConfidence_def default_calculator f example_default_speed
    by (simp only: calculateSpeedConfidence_composite [OF gt singleQuality_overall singleQuality_overall]
        example_score_kmh)
qed

lemma fallback_pairConfidence:
  "pairConfidence (new_FrequencyAnalysis None None) singleQuality singleQuality
     zeroPowerApproach fullPowerRecede = Num 0.815"
proof -
  have f: "frequency zeroPowerApproach = 1050" "frequency fullPowerRecede = 950"
    by (simp_all add: zeroPowerApproach_def fullPowerRecede_def)
  have gt: "frequency zeroPowerApproach > frequency fullPowerRecede"
    by (simp add: f)
  show ?thesis
    unfolding pairConfidence_def default_calculator f example_second_speed
    by (simp only: calculateSpeedConfidence_composite [OF gt singleQuality_overall singleQuality_overall]
        example_score_fallback)
qed

text \<open>
  C4, as stated, fails in three ways. The speed score is computed from the number that
  \<open>calculateSpeed\<close> returns, which is in km/h: the pair 1100 Hz and 900 Hz has 123.48 km/h,
  about 76.7 mph, inside \<open>[5, 100]\<close> mph, and its speed score is 0.7652, not 1, so that the
  confidence is 0.92804 and not 0.975. A power score of 0 is replaced by 0.5
  (\<open>powerScore || 0.5\<close>): for a candidate of power 0 beside one of full power the confidence
  is 0.815, and not the 0.665 that the least of the two power scores gives. And for a
  section with more than one frequency \<open>calculateSectionQuality\<close> returns an overall
  confidence of \<open>NaN\<close>, and the confidence of every pair is \<open>NaN\<close>.
\<close>

theorem C4_counterexample:
  "calculateSpeed new_DopplerSpeedCalculator
     (frequency exampleRankedApproach) (frequency exampleRankedRecede) = Num 123.48 \<and>
   (5::real) \<le> 123.48 * 0.621371 \<and> (123.48 * 0.621371 :: real) \<le> 100 \<and>
   overallConfidence singleQuality = Num 0.9 \<and>
   powerScore exampleRankedApproach = Num 1 \<and> powerScore exampleRankedRecede = Num 1 \<and>
   compositeScore (min 1 1) ((0.9 + 0.9) / 2) (speedReasonableness (123.48 * 0.621371))
     (separationScore exampleRankedApproach exampleRankedRecede)
     (rankBonus exampleRankedApproach exampleRankedRecede) = 0.975 \<and>
   pairConfidence (new_FrequencyAnalysis None None) singleQuality singleQuality
     exampleRankedApproach exampleRankedRecede = Num 0.92804 \<and>
   calculateSpeed new_DopplerSpeedCalculator
     (frequency zeroPowerApproach) (frequency fullPowerRecede) = Num 61.74 \<and>
   powerScore zeroPowerApproach = Num 0 \<and> powerScore fullPowerRecede = Num 1 \<and>
   compositeScore (min 0 1) ((0.9 + 0.9) / 2) (speedReasonableness (61.74 * 0.621371))
     (separationScore zeroPowerApproach fullPowerRecede)
     (rankBonus zeroPowerApproach fullPowerRecede) = 0.665 \<and>
   pairConfidence (new_FrequencyAnalysis None None) singleQuality singleQuality
     zeroPowerApproach fullPowerRecede = Num 0.815 \<and>
   overallConfidence pairQuality = NaN \<and>
   pairConfidence (new_FrequencyAnalysis None None) pairQuality pairQuality
     exampleRankedApproach exampleRankedRecede = NaN"
proof -
  have a: "calculateSpeed new_DopplerSpeedCalculator
     (frequency exampleRankedApproach) (frequency exampleRankedRecede) = Num 123.48"
    by (simp add: exampleRankedApproach_def exampleRankedRecede_def example_default_speed)
  have b: "(5::real) \<le> 123.48 * 0.621371" and c: "(123.48 * 0.621371 :: real) \<le> 100"
    by simp_all
  have d: "powerScore exampleRankedApproach = Num 1" "powerScore exampleRankedRecede = Num 1"
          "powerScore zeroPowerApproach = Num 0" "powerScore fullPowerRecede = Num 1"
    by (simp_all add: exampleRankedApproach_def exampleRankedRecede_def zeroPowerApproach_def
        fullPowerRecede_def)
  have e: "calculateSpeed new_DopplerSpeedCalculator
     (frequency zeroPowerApproach) (frequency fullPowerRecede) = Num 61.74"
    by (simp add: zeroPowerApproach_def fullPowerRecede_def example_second_speed)
  have f: "pairConfidence (new_FrequencyAnalysis None None) pairQuality pairQuality
     exampleRankedApproach exampleRankedRecede = NaN"
    unfolding pairConfidence_def
    by (rule calculateSpeedConfidence_NaN) (simp add: pairQuality_overall)
  show ?thesis
    using a b c d e f singleQuality_overall pairQuality_overall example_score_mph
      example_pairConfidence example_score_zero fallback_pairConfidence
    by blast
qed

text \<open>
  C4 (amended): for every pair with \<open>a.frequency > r.frequency\<close> whose two section qualities
  are numbers, the confidence equals
  \<open>0.3 powerScore + 0.25 sectionQuality + 0.2 speedReasonableness + 0.15 separationScore +
  0.1 rankBonus\<close> clamped to \<open>[0, 1]\<close>, where \<open>powerScore\<close> is the least of the two power
  scores, each replaced by 0.5 when it is 0 or \<open>NaN\<close>; \<open>sectionQuality\<close> is the mean of the
  two overall confidences; \<open>speedReasonableness\<close> is taken on the speed in km/h as
  \<open>calculateSpeed\<close> returns it (1 in \<open>[5, 100]\<close>, \<open>speed / 5\<close> below 5,
  \<open>max(0.2, 1 - (speed - 100) / 100)\<close> above 100), which is a number for every sound speed
  other than 0; \<open>separationScore\<close> and \<open>rankBonus\<close> are as the claim has them, the
  quotient of \<open>separationScore\<close> being \<open>Infinity\<close> for a recede frequency of 0. The kept
  calculations are exactly the entries of the pairs among the first 5 frequencies of two
  valid sections with \<open>a.frequency > r.frequency\<close> and a confidence that is a number not
  below the threshold (0.3 by default); they are sorted by confidence, descending, and
  the best is the first.
\<close>

theorem C4_pair_confidence:
  "(frequency a > frequency r \<and> overallConfidence qa = Num x \<and> overallConfidence qr = Num y \<and>
    calculateSpeed (dopplerCalculator fa) (frequency a) (frequency r) = Num kmh \<longrightarrow>
      pairConfidence fa qa qr a r =
        Num (compositeScore (min (or_half (powerScore a)) (or_half (powerScore r)))
               ((x + y) / 2) (speedReasonableness kmh) (separationScore a r) (rankBonus a r))) \<and>
   (frequency a > frequency r \<and> soundSpeed (dopplerCalculator fa) \<noteq> 0 \<longrightarrow>
      calculateSpeed (dopplerCalculator fa) (frequency a) (frequency r) \<noteq> NaN) \<and>
   (c \<in> set (speedCalculations (combineAnalyses fa A R)) \<longleftrightarrow>
      sa_valid A \<and> sa_valid R \<and>
      (\<exists>a' \<in> set (take 5 (frequencies A)). \<exists>r' \<in> set (take 5 (frequencies R)).
         frequency a' > frequency r' \<and>
         (case pairConfidence fa (qualityMetrics A) (qualityMetrics R) a' r' of
            NaN \<Rightarrow> False
          | Num k \<Rightarrow> k \<ge> confidenceThreshold fa \<and> c = pairEntry fa a' r' k))) \<and>
   sorted_wrt (\<lambda>x y. confidence x \<ge> confidence y)
     (speedCalculations (combineAnalyses fa A R)) \<and>
   bestSpeed (combineAnalyses fa A R) =
     (case speedCalculations (combineAnalyses fa A R) of [] \<Rightarrow> None | first # _ \<Rightarrow> Some first) \<and>
   confidenceThreshold (new_FrequencyAnalysis t None) = 0.3"
proof -
  have 1: "frequency a > frequency r \<and> overallConfidence qa = Num x \<and> overallConfidence qr = Num y \<and>
    calculateSpeed (dopplerCalculator fa) (frequency a) (frequency r) = Num kmh \<longrightarrow>
      pairConfidence fa qa qr a r =
        Num (compositeScore (min (or_half (powerScore a)) (or_half (powerScore r)))
               ((x + y) / 2) (speedReasonableness kmh) (separationScore a r) (rankBonus a r))"
    unfolding pairConfidence_def using calculateSpeedConfidence_composite [of r a qa x qr y kmh]
    by auto
  have 2: "frequency a > frequency r \<and> soundSpeed (dopplerCalculator fa) \<noteq> 0 \<longrightarrow>
      calculateSpeed (dopplerCalculator fa) (frequency a) (frequency r) \<noteq> NaN"
    using calculateSpeed_number by blast
  have 3: "confidenceThreshold (new_FrequencyAnalysis t None) = 0.3"
    by (simp add: new_FrequencyAnalysis_def or_default_def)
  show ?thesis
    using 1 2 3 kept_calculations [of c fa A R] calculations_sorted [of fa A R]
      best_is_first [of fa A R]
    by blast
qed

theorem C4_pair_confidence_witness:
  "frequency exampleRankedApproach > frequency exampleRankedRecede \<and>
   overallConfidence singleQuality = Num 0.9 \<and>
   soundSpeed (dopplerCalculator (new_FrequencyAnalysis None None)) \<noteq> 0 \<and>
   calculateSpeed (dopplerCalculator (new_FrequencyAnalysis None None))
     (frequency exampleRankedApproach) (frequency exampleRankedRecede) = Num 123.48 \<and>
   pairConfidence (new_FrequencyAnalysis None None) singleQuality singleQuality
     exampleRankedApproach exampleRankedRecede = Num 0.92804 \<and>
   pairEntry (new_FrequencyAnalysis None None) exampleRankedApproach exampleRankedRecede 0.92804
     \<in> set (speedCalculations (combineAnalyses (new_FrequencyAnalysis None None)
               exampleApproachAnalysis exampleRecedeAnalysis)) \<and>
   bestSpeed (combineAnalyses (new_FrequencyAnalysis None None)
               exampleApproachAnalysis exampleRecedeAnalysis)
     = Some (pairEntry (new_FrequencyAnalysis None None)
               exampleRankedApproach exampleRankedRecede 0.92804)"
proof -
  let ?fa = "new_FrequencyAnalysis None None"
  let ?A = exampleApproachAnalysis and ?R = exampleRecedeAnalysis
  let ?a = exampleRankedApproach and ?r = exampleRankedRecede
  let ?e = "pairEntry ?fa ?a ?r 0.92804"
  note inst = C4_pair_confidence [where a = ?a and r = ?r and qa = singleQuality
      and qr = singleQuality and x = "0.9" and y = "0.9" and kmh = "123.48" and fa = ?fa
      and A = ?A and R = ?R and t = None]
  have vA: "sa_valid ?A" and vR: "sa_valid ?R"
    by (simp_all add: exampleApproachAnalysis_def exampleRecedeAnalysis_def)
  have gt: "frequency ?a > frequency ?r"
    by (simp add: exampleRankedApproach_def exampleRankedRecede_def)
  have sound: "soundSpeed (dopplerCalculator ?fa) \<noteq> 0"
    by (simp add: new_FrequencyAnalysis_def new_DopplerSpeedCalculator_def)
  have speed: "calculateSpeed (dopplerCalculator ?fa) (frequency ?a) (frequency ?r) = Num 123.48"
    by (simp add: default_calculator exampleRankedApproach_def exampleRankedRecede_def
        example_default_speed)
  have fr: "take 5 (frequencies ?A) = [?a]" "take 5 (frequencies ?R) = [?r]"
    by (simp_all add: exampleApproachAnalysis_def exampleRecedeAnalysis_def)
  have q: "qualityMetrics ?A = singleQuality" "qualityMetrics ?R = singleQuality"
    by (simp_all add: exampleApproachAnalysis_def exampleRecedeAnalysis_def)
  have thr: "confidenceThreshold ?fa = 0.3"
    by (simp add: new_FrequencyAnalysis_def or_default_def)
  have "pairConfidence ?fa singleQuality singleQuality ?a ?r =
        Num (compositeScore (min (or_half (powerScore ?a)) (or_half (powerScore ?r)))
               ((0.9 + 0.9) / 2) (speedReasonableness 123.48) (separationScore ?a ?r)
               (rankBonus ?a ?r))"
    using inst [where c = ?e] gt singleQuality_overall speed by blast
  then have 1: "pairConfidence ?fa singleQuality singleQuality ?a ?r = Num 0.92804"
    by (simp only: example_score_kmh)
  have mem: "\<And>c. c \<in> set (speedCalculations (combineAnalyses ?fa ?A ?R)) \<longleftrightarrow> c = ?e"
  proof -
    fix c
    have "c \<in> set (speedCalculations (combineAnalyses ?fa ?A ?R)) \<longleftrightarrow>
      sa_valid ?A \<and> sa_valid ?R \<and>
      (\<exists>a' \<in> set (take 5 (frequencies ?A)). \<exists>r' \<in> set (take 5 (frequencies ?R)).
         frequency a' > frequency r' \<and>
         (case pairConfidence ?fa (qualityMetrics ?A) (qualityMetrics ?R) a' r' of
            NaN \<Rightarrow> False
          | Num k \<Rightarrow> k \<ge> confidenceThreshold ?fa \<and> c = pairEntry ?fa a' r' k))"
      using inst [where c = c] by blast
    then show "c \<in> set (speedCalculations (combineAnalyses ?fa ?A ?R)) \<longleftrightarrow> c = ?e"
      using vA vR gt by (simp add: fr q 1 thr)
  qed
  have 2: "?e \<in> set (speedCalculations (combineAnalyses ?fa ?A ?R))"
    by (simp add: mem)
  then obtain first rest where xs: "speedCalculations (combineAnalyses ?fa ?A ?R) = first # rest"
    by (cases "speedCalculations (combineAnalyses ?fa ?A ?R)") auto
  then have "first = ?e" using mem [of first] by simp
  moreover have "bestSpeed (combineAnalyses ?fa ?A ?R) =
     (case speedCalculations (combineAnalyses ?fa ?A ?R) of [] \<Rightarrow> None | first # _ \<Rightarrow> Some first)"
    using inst [where c = ?e] by blast
  ultimately have 3: "bestSpeed (combineAnalyses ?fa ?A ?R) = Some ?e"
    using xs by simp
  show ?thesis using gt singleQuality_overall sound speed 1 2 3 by blast
qed

section \<open>Sectioning and its validation\<close>

lemma isValid_validateSections: "isValid (validateSections s m) \<longleftrightarrow> bothAtLeast s m"
  by (auto simp add: validateSections_def bothAtLeast_def Let_def split: option.splits)

lemma buildStrategies_validated:
  "list_all validatedEntry (buildStrategies samples sampleRate idx)"
  by (simp add: buildStrategies_def Let_def validatedEntry_def strategyThreshold_def
      split: option.splits)

lemma buildStrategies_nonempty: "buildStrategies samples sampleRate idx \<noteq> []"
  by (simp add: buildStrategies_def Let_def)

lemma extractBestSections_validated:
  "\<exists>res. extractBestSections samples sampleRate idx = Inr res \<and>
         best_validation res = validateSections (chosen_sections res) (strategyThreshold (selectedStrategy res)) \<and>
         (selectedStrategy res = ''closest_approach'' \<or>
          selectedStrategy res = ''short_file_quarters'' \<or>
          selectedStrategy res = ''simple_quarters'')"
proof -
  define strategies where "strategies = buildStrategies samples sampleRate idx"
  define chosen where "chosen =
     (if length (filter (\<lambda>s. isValid (entry_validation s)) strategies) > 0
      then js_sort (\<lambda>a b. entry_confidence b - entry_confidence a)
             (filter (\<lambda>s. isValid (entry_validation s)) strategies)
      else js_sort (\<lambda>a b. entry_confidence b - entry_confidence a) strategies)"
  have sub: "set chosen \<subseteq> set strategies"
    by (auto simp add: chosen_def js_sort_set)
  have ne: "chosen \<noteq> []"
  proof (cases "length (filter (\<lambda>s. isValid (entry_validation s)) strategies) > 0")
    case True
    define V where "V = filter (\<lambda>s. isValid (entry_validation s)) strategies"
    have "0 < length V" using True by (simp only: V_def)
    then have "V \<noteq> []" by simp
    moreover have "chosen = js_sort (\<lambda>a b. entry_confidence b - entry_confidence a) V"
      using True by (simp only: chosen_def V_def if_True)
    ultimately have "set chosen \<noteq> {}" by (simp add: js_sort_set)
    then show ?thesis by auto
  next
    case False
    then have "set chosen = set strategies" by (simp add: chosen_def js_sort_set)
    then show ?thesis using buildStrategies_nonempty [of samples sampleRate idx]
      by (auto simp add: strategies_def)
  qed
  then obtain b rest where ch: "chosen = b # rest" by (cases chosen) auto
  then have "b \<in> set strategies" using sub by auto
  then have vb: "validatedEntry b"
    using buildStrategies_validated [of samples sampleRate idx]
    by (simp add: strategies_def list_all_iff)
  have "extractBestSections samples sampleRate idx =
        Inr \<lparr>chosen_sections = entry_sections b, selectedStrategy = name b,
             best_confidence = entry_confidence b, best_reason = reason b,
             best_validation = entry_validation b,
             alternativeStrategies = filter (\<lambda>s. name s \<noteq> name b) strategies\<rparr>"
    unfolding extractBestSections_def Let_def strategies_def [symmetric] chosen_def [symmetric] ch
    by simp
  then show ?thesis using vb by (simp add: validatedEntry_def)
qed

lemma js_slice_replicate:
  "0 \<le> a \<Longrightarrow> a \<le> b \<Longrightarrow> b \<le> int n \<Longrightarrow>
   js_slice (replicate n x) a b = replicate (nat (b - a)) x"
  by (auto simp add: js_slice_def Let_def min_def; linarith)

lemma js_slice_from_neg_replicate:
  "0 < a \<Longrightarrow> a \<le> int n \<Longrightarrow> js_slice_from (replicate n x) (- a) = replicate (nat a) x"
  by (auto simp add: js_slice_from_def js_slice_def Let_def min_def max_def; linarith)

lemma short6000:
  "extractShortFileSections (replicate 6000 0) 44100 =
     \<lparr>approaching = Some (replicate 1500 0), receding = Some (replicate 1500 0),
      approachDuration = 1500 / 44100, recedeDuration = 1500 / 44100,
      sec_strategy = Some ''short_file_quarters'',
      sec_metadata = QuarterMetadata 1500 6000, sectioningMethod = None\<rparr>"
  by (simp add: extractShortFileSections_def Let_def js_slice_replicate js_slice_from_neg_replicate)

lemma best6000:
  "bestHas (\<lambda>res. isValid (best_validation res) \<and>
                  selectedStrategy res = ''short_file_quarters'' \<and>
                  map_option length (approaching (chosen_sections res)) = Some 1500 \<and>
                  map_option length (receding (chosen_sections res)) = Some 1500)
     (extractBestSections (replicate 6000 0) 44100 None)"
  by (simp add: bestHas_def extractBestSections_def buildStrategies_def Let_def short6000
      isValid_validateSections bothAtLeast_def js_sort_def
      js_slice_replicate js_slice_from_neg_replicate)

lemma ratio_imbalanced:
  "n \<noteq> 0 \<Longrightarrow> real m / real n > 5 \<or> real m / real n < 0.2 \<longleftrightarrow> imbalanced m n"
proof -
  assume n: "n \<noteq> 0"
  then have pos: "0 < real n" by simp
  have "real m / real n > 5 \<longleftrightarrow> real m > 5 * real n"
    using pos by (simp add: field_simps)
  also have "\<dots> \<longleftrightarrow> m > 5 * n"
    by (metis of_nat_less_iff of_nat_mult of_nat_numeral)
  finally have 1: "real m / real n > 5 \<longleftrightarrow> m > 5 * n" .
  have "real m / real n < 0.2 \<longleftrightarrow> 5 * real m < real n"
    using pos by (simp add: field_simps)
  also have "\<dots> \<longleftrightarrow> 5 * m < n"
    by (metis of_nat_less_iff of_nat_mult of_nat_numeral)
  finally have 2: "real m / real n < 0.2 \<longleftrightarrow> 5 * m < n" .
  show ?thesis using 1 2 by (simp add: imbalanced_def)
qed

lemma isValid_lengths:
  "0 < m \<Longrightarrow>
   isValid (validateSections s m) \<longleftrightarrow>
     m \<le> sectionLength (approaching s) \<and> m \<le> sectionLength (receding s)"
  by (auto simp add: validateSections_def sectionLength_def Let_def split: option.splits)

lemma errors_validateSections:
  "0 < m \<Longrightarrow>
   errors (validateSections s m) =
     (if sectionLength (approaching s) < m
      then [ApproachingTooShort (sectionLength (approaching s)) m] else []) @
     (if sectionLength (receding s) < m
      then [RecedingTooShort (sectionLength (receding s)) m] else [])"
  by (auto simp add: validateSections_def sectionLength_def Let_def split: option.splits)

lemma warnings_validateSections:
  "warnings (validateSections s m) =
     (case (approaching s, receding s) of
        (Some a, Some r) \<Rightarrow>
          if imbalanced (length a) (length r)
          then [SectionLengthImbalance (length a) (length r)] else []
      | _ \<Rightarrow> [])"
proof (cases "approaching s")
  case None
  then show ?thesis by (simp add: validateSections_def Let_def)
next
  case (Some a)
  note a = this
  show ?thesis
  proof (cases "receding s")
    case None
    then show ?thesis using a by (simp add: validateSections_def Let_def)
  next
    case (Some r)
    show ?thesis
    proof (cases "length r = 0")
      case True
      then show ?thesis using a Some
        by (simp add: validateSections_def Let_def imbalanced_def)
    next
      case False
      then show ?thesis using a Some ratio_imbalanced [of "length r" "length a"]
        by (simp add: validateSections_def Let_def)
    qed
  qed
qed

lemma isValid_time:
  "0 < m \<Longrightarrow>
   tv_isValid (validateTimeSections t m) \<longleftrightarrow>
     m \<le> sectionLength (map_of (named_sections t) ''approaching'') \<and>
     m \<le> sectionLength (map_of (named_sections t) ''receding'')"
  by (auto simp add: validateTimeSections_def sectionLength_def Let_def split: option.splits)

lemma errors_time:
  "0 < m \<Longrightarrow>
   tv_errors (validateTimeSections t m) =
     (if sectionLength (map_of (named_sections t) ''approaching'') < m
      then [ApproachingTooShort (sectionLength (map_of (named_sections t) ''approaching'')) m]
      else []) @
     (if sectionLength (map_of (named_sections t) ''receding'') < m
      then [RecedingTooShort (sectionLength (map_of (named_sections t) ''receding'')) m]
      else [])"
  by (auto simp add: validateTimeSections_def sectionLength_def Let_def split: option.splits)

lemma warnings_time:
  "tv_warnings (validateTimeSections t m) =
     (case (map_of (named_sections t) ''approaching'', map_of (named_sections t) ''receding'') of
        (Some a, Some r) \<Rightarrow>
          if imbalanced (length a) (length r)
          then [SectionLengthImbalance (length a) (length r)] else []
      | _ \<Rightarrow> [])"
proof (cases "map_of (named_sections t) ''approaching''")
  case None
  then show ?thesis by (simp add: validateTimeSections_def Let_def)
next
  case (Some a)
  note a = this
  show ?thesis
  proof (cases "map_of (named_sections t) ''receding''")
    case None
    then show ?thesis using a by (simp add: validateTimeSections_def Let_def)
  next
    case (Some r)
    show ?thesis
    proof (cases "length r = 0")
      case True
      then show ?thesis using a Some
        by (simp add: validateTimeSections_def Let_def imbalanced_def)
    next
      case False
      then show ?thesis using a Some ratio_imbalanced [of "length r" "length a"]
        by (simp add: validateTimeSections_def Let_def)
    qed
  qed
qed

lemma sliced_validated:
  "0 < m \<Longrightarrow> validatedAt m (SlicedSections s (validateSections s m))"
  unfolding validatedAt_def
  by (simp only: validation_isValid.simps validation_errors.simps validation_warnings.simps
      sectioning_approaching.simps sectioning_receding.simps
      isValid_lengths errors_validateSections warnings_validateSections simp_thms)

lemma timed_validated:
  "0 < m \<Longrightarrow> validatedAt m (TimeSections t (validateTimeSections t m))"
  unfolding validatedAt_def
  by (simp only: validation_isValid.simps validation_errors.simps validation_warnings.simps
      sectioning_approaching.simps sectioning_receding.simps
      isValid_time errors_time warnings_time simp_thms)

lemma best_validated:
  "0 < m \<Longrightarrow>
   validatedAt m (BestSections (b\<lparr>best_validation := validateSections (chosen_sections b) m\<rparr>))"
  unfolding validatedAt_def
  by (simp add: isValid_lengths errors_validateSections warnings_validateSections)

lemma extractBestSections_returns:
  "\<exists>res. extractBestSections samples sampleRate idx = Inr res"
  using extractBestSections_validated [of samples sampleRate idx] by blast

lemma extractOptimalSections_validated:
  "\<exists>sectioning. extractOptimalSections samples sampleRate approachDetection config = Inr sectioning \<and>
     validatedAt 2048 sectioning"
proof -
  have p: "(0::nat) < 2048" by simp
  define idx where "idx = (case approachDetection of
                     None \<Rightarrow> None
                   | Some d \<Rightarrow> if found d then Some (int (closestApproachIndex d)) else None)"
  obtain b where b: "extractBestSections samples sampleRate idx = Inr b"
    using extractBestSections_returns by blast
  show ?thesis
    unfolding extractOptimalSections_def Let_def idx_def [symmetric] b
    using sliced_validated [OF p] timed_validated [OF p] best_validated [OF p]
    by (auto split: option.splits)
qed

text \<open>
  C6: for every input, \<open>extractOptimalSections\<close> returns an object whose validation is
  that of its two sections against 2048 samples, whichever strategy has produced them:
  \<open>isValid\<close> is false whenever the approaching or the receding section is absent or has
  fewer than 2048 samples, and true otherwise; the errors are those of the short
  sections and no others; and a ratio of the lengths above 5 to 1 or below 1 to 5 adds
  the imbalance warning, and nothing else does.
\<close>

theorem C6_section_validation:
  "\<exists>sectioning.
     extractOptimalSections samples sampleRate approachDetection config = Inr sectioning \<and>
     (sectionLength (sectioning_approaching sectioning) < 2048 \<or>
      sectionLength (sectioning_receding sectioning) < 2048
        \<longrightarrow> \<not> validation_isValid sectioning) \<and>
     (2048 \<le> sectionLength (sectioning_approaching sectioning) \<and>
      2048 \<le> sectionLength (sectioning_receding sectioning)
        \<longrightarrow> validation_isValid sectioning) \<and>
     validation_errors sectioning =
       (if sectionLength (sectioning_approaching sectioning) < 2048
        then [ApproachingTooShort (sectionLength (sectioning_approaching sectioning)) 2048]
        else []) @
       (if sectionLength (sectioning_receding sectioning) < 2048
        then [RecedingTooShort (sectionLength (sectioning_receding sectioning)) 2048]
        else []) \<and>
     validation_warnings sectioning =
       (case (sectioning_approaching sectioning, sectioning_receding sectioning) of
          (Some a, Some r) \<Rightarrow>
            if imbalanced (length a) (length r)
            then [SectionLengthImbalance (length a) (length r)] else []
        | _ \<Rightarrow> [])"
proof -
  obtain sectioning
    where s: "extractOptimalSections samples sampleRate approachDetection config = Inr sectioning"
      and v: "validatedAt 2048 sectioning"
    using extractOptimalSections_validated by blast
  from v have
    1: "validation_isValid sectioning =
         (2048 \<le> sectionLength (sectioning_approaching sectioning) \<and>
          2048 \<le> sectionLength (sectioning_receding sectioning))"
    and 2: "validation_errors sectioning =
       (if sectionLength (sectioning_approaching sectioning) < 2048
        then [ApproachingTooShort (sectionLength (sectioning_approaching sectioning)) 2048]
        else []) @
       (if sectionLength (sectioning_receding sectioning) < 2048
        then [RecedingTooShort (sectionLength (sectioning_receding sectioning)) 2048]
        else [])"
    and 3: "validation_warnings sectioning =
       (case (sectioning_approaching sectioning, sectioning_receding sectioning) of
          (Some a, Some r) \<Rightarrow>
            if imbalanced (length a) (length r)
            then [SectionLengthImbalance (length a) (length r)] else []
        | _ \<Rightarrow> [])"
    unfolding validatedAt_def by blast+
  have 4: "sectionLength (sectioning_approaching sectioning) < 2048 \<or>
      sectionLength (sectioning_receding sectioning) < 2048
        \<longrightarrow> \<not> validation_isValid sectioning"
    using 1 by auto
  have 5: "2048 \<le> sectionLength (sectioning_approaching sectioning) \<and>
      2048 \<le> sectionLength (sectioning_receding sectioning)
        \<longrightarrow> validation_isValid sectioning"
    using 1 by auto
  show ?thesis using s 2 3 4 5 by blast
qed

lemma js_slice_from_replicate:
  "0 \<le> a \<Longrightarrow> a \<le> int n \<Longrightarrow> js_slice_from (replicate n x) a = replicate (n - nat a) x"
  by (auto simp add: js_slice_from_def js_slice_def Let_def min_def max_def; linarith)

lemma slicer20000:
  "AudioSlicer_extractSections (replicate 20000 0) 1000 17000 20 =
     \<lparr>approaching = Some (replicate 16700 0), receding = Some (replicate 2700 0),
      approachDuration = 16700 / 1000, recedeDuration = 2700 / 1000,
      sec_strategy = Some ''closest_approach'',
      sec_metadata = ClosestApproachMetadata 17000 0.3 300 16700 17300,
      sectioningMethod = None\<rparr>"
  by (simp add: AudioSlicer_extractSections_def Let_def js_slice_replicate js_slice_from_replicate)

lemma optimal6000:
  "\<exists>b. extractBestSections (replicate 6000 0) 44100 None = Inr b \<and>
       extractOptimalSections (replicate 6000 0) 44100 None autoConfig =
         Inr (BestSections (b\<lparr>best_validation := validateSections (chosen_sections b) 2048\<rparr>))"
proof -
  obtain b where b: "extractBestSections (replicate 6000 0) 44100 None = Inr b"
    using extractBestSections_returns by blast
  show ?thesis
    using b by (simp add: extractOptimalSections_def Let_def autoConfig_def)
qed

lemma optimal20000:
  "extractOptimalSections (replicate 20000 0) 1000 (Some lateApproach) closestApproachConfig =
     Inr (SlicedSections
            (AudioSlicer_extractSections (replicate 20000 0) 1000 17000
               20)
            (validateSections
               (AudioSlicer_extractSections (replicate 20000 0) 1000 17000
                  20) 2048))"
  unfolding extractOptimalSections_def Let_def closestApproachConfig_def lateApproach_def
  by simp

theorem C6_section_validation_witness:
  "bestHas (\<lambda>res. isValid (best_validation res) \<and>
                  selectedStrategy res = ''short_file_quarters'')
     (extractBestSections (replicate 6000 0) 44100 None) \<and>
   sectionLength (sectioning_approaching
     (projr (extractOptimalSections (replicate 6000 0) 44100 None autoConfig))) = 1500 \<and>
   \<not> validation_isValid
       (projr (extractOptimalSections (replicate 6000 0) 44100 None autoConfig)) \<and>
   sectionLength (sectioning_approaching
     (projr (extractOptimalSections (replicate 20000 0) 1000 (Some lateApproach)
               closestApproachConfig))) = 16700 \<and>
   sectionLength (sectioning_receding
     (projr (extractOptimalSections (replicate 20000 0) 1000 (Some lateApproach)
               closestApproachConfig))) = 2700 \<and>
   validation_isValid
     (projr (extractOptimalSections (replicate 20000 0) 1000 (Some lateApproach)
               closestApproachConfig)) \<and>
   validation_warnings
     (projr (extractOptimalSections (replicate 20000 0) 1000 (Some lateApproach)
               closestApproachConfig)) = [SectionLengthImbalance 16700 2700]"
proof -
  let ?short = "extractOptimalSections (replicate 6000 0) 44100 None autoConfig"
  let ?late = "extractOptimalSections (replicate 20000 0) 1000 (Some lateApproach)
                 closestApproachConfig"
  obtain b where b: "extractBestSections (replicate 6000 0) 44100 None = Inr b"
      "?short = Inr (BestSections (b\<lparr>best_validation := validateSections (chosen_sections b) 2048\<rparr>))"
    using optimal6000 by blast
  have inner: "isValid (best_validation b)" "selectedStrategy b = ''short_file_quarters''"
      "map_option length (approaching (chosen_sections b)) = Some 1500"
    using best6000 b(1) by (simp_all add: bestHas_def)
  have 1: "bestHas (\<lambda>res. isValid (best_validation res) \<and>
                  selectedStrategy res = ''short_file_quarters'')
     (extractBestSections (replicate 6000 0) 44100 None)"
    using inner by (simp add: bestHas_def b(1))
  have 2: "sectionLength (sectioning_approaching (projr ?short)) = 1500"
    using inner(3) by (auto simp add: b(2) sectionLength_def)
  have 3: "\<not> validation_isValid (projr ?short)"
    using C6_section_validation [of "replicate 6000 0" 44100 None autoConfig] 2 by auto
  have a: "sectioning_approaching (projr ?late) = Some (replicate 16700 0)"
    and r: "sectioning_receding (projr ?late) = Some (replicate 2700 0)"
    by (simp_all add: optimal20000 slicer20000)
  have 4: "sectionLength (sectioning_approaching (projr ?late)) = 16700"
    and 5: "sectionLength (sectioning_receding (projr ?late)) = 2700"
    by (simp_all add: a r sectionLength_def)
  have 6: "validation_isValid (projr ?late)"
    using C6_section_validation [of "replicate 20000 0" 1000 "Some lateApproach"
        closestApproachConfig] 4 5
    by auto
  have "imbalanced 16700 2700" by (simp add: imbalanced_def)
  then have 7: "validation_warnings (projr ?late) = [SectionLengthImbalance 16700 2700]"
    using C6_section_validation [of "replicate 20000 0" 1000 "Some lateApproach"
        closestApproachConfig] a r
    by auto
  show ?thesis using 1 2 3 4 5 6 7 by blast
qed

lemma analyzer_sections_tagged:
  assumes "\<not> isShortFile (real (length samples) / sampleRate)"
  shows "AudioAnalyzer_extractSections samples sampleRate ''peak_rms_energy'' =
           (AudioSlicer_extractSections samples sampleRate (int (detectClosestApproach samples))
              (real (length samples) / sampleRate))
           \<lparr>sectioningMethod := Some ''peak_rms_energy''\<rparr>"
  using assms by (simp add: AudioAnalyzer_extractSections_def Let_def js_truthy_object_def)

text \<open>
  C9: with the default strategy on a file that is not short, \<open>extractSections\<close> of the
  analyzer returns the closest-approach sections tagged \<open>'peak_rms_energy'\<close> for every
  input, because the guard of the fallback tests an object, which is truthy whatever its
  \<open>isValid\<close> field holds.
\<close>

theorem C9_fallback_unreachable:
  assumes "\<not> isShortFile (real (length samples) / sampleRate)"
  shows "js_truthy_object (validateSections s 2048) \<and>
         AudioAnalyzer_extractSections samples sampleRate ''peak_rms_energy'' =
           (AudioSlicer_extractSections samples sampleRate (int (detectClosestApproach samples))
              (real (length samples) / sampleRate))
           \<lparr>sectioningMethod := Some ''peak_rms_energy''\<rparr>"
  using analyzer_sections_tagged [OF assms] by (simp add: js_truthy_object_def)

lemma detect300: "detectClosestApproach (replicate 300 0) = 0"
  unfolding detectClosestApproach_def by (subst detectLoop.simps) simp

lemma slicer300:
  "AudioSlicer_extractSections (replicate 300 0) 100 0 3 =
     \<lparr>approaching = Some (replicate 300 0), receding = Some (replicate 300 0),
      approachDuration = 3, recedeDuration = 3,
      sec_strategy = Some ''closest_approach'',
      sec_metadata = ClosestApproachMetadata 0 0.3 30 2048 (- 1748),
      sectioningMethod = None\<rparr>"
  by (simp add: AudioSlicer_extractSections_def Let_def js_slice_def js_slice_from_def)

theorem C9_fallback_unreachable_witness:
  "\<not> isShortFile (real (length (replicate 300 (0::real))) / 100) \<and>
   sectioningMethod (AudioAnalyzer_extractSections (replicate 300 0) 100 ''peak_rms_energy'')
     = Some ''peak_rms_energy'' \<and>
   \<not> isValid (validateSections
       (AudioAnalyzer_extractSections (replicate 300 0) 100 ''peak_rms_energy'') 2048)"
proof -
  have long: "\<not> isShortFile (real (length (replicate 300 (0::real))) / 100)"
    by (simp add: isShortFile_def)
  have eq: "AudioAnalyzer_extractSections (replicate 300 0) 100 ''peak_rms_energy'' =
      (AudioSlicer_extractSections (replicate 300 0) 100 0 3)
      \<lparr>sectioningMethod := Some ''peak_rms_energy''\<rparr>"
    using C9_fallback_unreachable [OF long] by (simp add: detect300)
  have "\<not> isValid (validateSections
       (AudioAnalyzer_extractSections (replicate 300 0) 100 ''peak_rms_energy'') 2048)"
    by (simp add: eq slicer300 isValid_validateSections bothAtLeast_def)
  moreover have "sectioningMethod
      (AudioAnalyzer_extractSections (replicate 300 0) 100 ''peak_rms_energy'')
     = Some ''peak_rms_energy''"
    by (simp add: eq)
  ultimately show ?thesis using long by blast
qed

section \<open>Closest-approach peak selection\<close>

lemma peakAt_confidence: "list_all (confidenceOf m) (peakAt profile m minProm i)"
  by (simp add: peakAt_def confidenceOf_def Let_def)

lemma findEnergyPeaks_confidence:
  "list_all (confidenceOf (Max (set (map energy profile)))) (findEnergyPeaks profile prom)"
proof (cases "length profile < 3")
  case True
  then show ?thesis by (simp add: findEnergyPeaks_def)
next
  case False
  then show ?thesis
    using peakAt_confidence
    by (auto simp add: findEnergyPeaks_def Let_def list_all_iff js_sort_set)
qed

lemma findEnergyPeaks_sorted:
  "sorted_wrt (\<lambda>a b. prominence a \<ge> prominence b) (findEnergyPeaks profile prom)"
  by (simp add: findEnergyPeaks_def Let_def js_sort_descending)

lemma select_none: "selectClosestApproachPeak [] profile w m =
     \<lparr>found = False, det_confidence = 0, det_reason = NoEnergyPeaksDetected,
      closestApproachIndex = length profile div 2,
      estimatedIndex = length profile div 2,
      det_energy = None, det_prominence = None, det_time = None, warning = None\<rparr>"
  by (simp add: selectClosestApproachPeak_def)

lemma select_some:
  assumes "peaks \<noteq> []"
  shows "found (selectClosestApproachPeak peaks profile w m) \<and>
         (case List.find (\<lambda>p. pk_confidence p \<ge> m) peaks of
            Some p \<Rightarrow>
              closestApproachIndex (selectClosestApproachPeak peaks profile w m) = pk_index p \<and>
              det_confidence (selectClosestApproachPeak peaks profile w m) = pk_confidence p \<and>
              det_reason (selectClosestApproachPeak peaks profile w m)
                = HighConfidencePeakDetected (pk_confidence p) \<and>
              warning (selectClosestApproachPeak peaks profile w m) = None
          | None \<Rightarrow>
              closestApproachIndex (selectClosestApproachPeak peaks profile w m)
                = pk_index (hd peaks) \<and>
              det_confidence (selectClosestApproachPeak peaks profile w m)
                = pk_confidence (hd peaks) \<and>
              det_reason (selectClosestApproachPeak peaks profile w m)
                = LowConfidencePeakSelected (pk_confidence (hd peaks)) \<and>
              warning (selectClosestApproachPeak peaks profile w m) \<noteq> None)"
proof -
  obtain first rest where p: "peaks = first # rest" using assms by (cases peaks) auto
  show ?thesis
    unfolding p
    by (cases "List.find (\<lambda>p. pk_confidence p \<ge> m) (first # rest)")
       (simp_all add: selectClosestApproachPeak_def)
qed

lemma example_energy [simp]: "energy (examplePoint i e) = e"
  and example_index [simp]: "index (examplePoint i e) = i + 5"
  and example_time [simp]: "time (examplePoint i e) = real i / 10"
  by (simp_all add: examplePoint_def)

lemma example_max: "Max (energy ` set exampleProfile) = 1"
  by (simp add: exampleProfile_def)

lemma example_len: "length exampleProfile = 10"
  by (simp add: exampleProfile_def)

lemma upt_1_9: "[Suc 0..<9] = [Suc 0, 2, 3, 4, 5, 6, 7, 8]"
  by code_simp

lemma example_peakAt:
  "peakAt exampleProfile 1 0.1 (Suc 0) = []" "peakAt exampleProfile 1 0.1 2 = []"
  "peakAt exampleProfile 1 0.1 3 = []" "peakAt exampleProfile 1 0.1 4 = []"
  "peakAt exampleProfile 1 0.1 6 = []" "peakAt exampleProfile 1 0.1 7 = []"
  "peakAt exampleProfile 1 0.1 8 = []"
  by (simp_all add: peakAt_def exampleProfile_def Let_def)

lemma example_peakAt5: "peakAt exampleProfile 1 0.1 5 = [examplePeak]"
  by (simp add: peakAt_def Let_def example_len minSurroundingEnergy_def upt_rec_numeral
      examplePeak_def) (simp add: exampleProfile_def)

lemma example_peaks: "findEnergyPeaks exampleProfile 0.1 = [examplePeak]"
  by (simp add: findEnergyPeaks_def Let_def example_len example_max upt_1_9
      example_peakAt example_peakAt5 js_sort_def)

text \<open>
  C7: the detector returns the first peak, in the order of descending prominence, whose
  confidence is at least the minimum; with no such peak it returns the first (most
  prominent) peak with \<open>found = true\<close>, a low-confidence reason and a warning; with no peak
  it returns \<open>found = false\<close> and the index at the midpoint of the energy profile. The peaks
  that \<open>findEnergyPeaks\<close> returns are sorted by prominence, descending, and each carries
  the confidence \<open>min(1, prominence / (globalMaxEnergy * 0.5))\<close>.
\<close>

theorem C7_peak_selection:
  assumes "list_all (\<lambda>e. 0 \<le> energy e) profile"
  shows "(peaks = [] \<longrightarrow>
            \<not> found (selectClosestApproachPeak peaks profile w m) \<and>
            closestApproachIndex (selectClosestApproachPeak peaks profile w m)
              = length profile div 2) \<and>
         (peaks \<noteq> [] \<longrightarrow>
            found (selectClosestApproachPeak peaks profile w m) \<and>
            (case List.find (\<lambda>p. pk_confidence p \<ge> m) peaks of
               Some p \<Rightarrow>
                 closestApproachIndex (selectClosestApproachPeak peaks profile w m) = pk_index p \<and>
                 det_confidence (selectClosestApproachPeak peaks profile w m) = pk_confidence p \<and>
                 det_reason (selectClosestApproachPeak peaks profile w m)
                   = HighConfidencePeakDetected (pk_confidence p) \<and>
                 warning (selectClosestApproachPeak peaks profile w m) = None
             | None \<Rightarrow>
                 closestApproachIndex (selectClosestApproachPeak peaks profile w m)
                   = pk_index (hd peaks) \<and>
                 det_confidence (selectClosestApproachPeak peaks profile w m)
                   = pk_confidence (hd peaks) \<and>
                 det_reason (selectClosestApproachPeak peaks profile w m)
                   = LowConfidencePeakSelected (pk_confidence (hd peaks)) \<and>
                 warning (selectClosestApproachPeak peaks profile w m) \<noteq> None)) \<and>
         sorted_wrt (\<lambda>a b. prominence a \<ge> prominence b) (findEnergyPeaks profile prom) \<and>
         list_all (confidenceOf (Max (set (map energy profile)))) (findEnergyPeaks profile prom)"
  using select_none [where profile = profile and w = w and m = m]
    select_some [where peaks = peaks and profile = profile and w = w and m = m]
    findEnergyPeaks_sorted [of profile prom] findEnergyPeaks_confidence [of profile prom]
  by auto

theorem C7_peak_selection_witness:
  "list_all (\<lambda>e. 0 \<le> energy e) exampleProfile \<and>
   findEnergyPeaks exampleProfile 0.1 = [examplePeak] \<and>
   confidenceOf 1 examplePeak \<and>
   found (selectClosestApproachPeak (findEnergyPeaks exampleProfile 0.1) exampleProfile 4 0.3) \<and>
   closestApproachIndex
     (selectClosestApproachPeak (findEnergyPeaks exampleProfile 0.1) exampleProfile 4 0.3) = 10 \<and>
   found (selectClosestApproachPeak [weakPeak] exampleProfile 4 0.3) \<and>
   closestApproachIndex (selectClosestApproachPeak [weakPeak] exampleProfile 4 0.3) = 7 \<and>
   warning (selectClosestApproachPeak [weakPeak] exampleProfile 4 0.3) \<noteq> None \<and>
   \<not> found (selectClosestApproachPeak [] exampleProfile 4 0.3) \<and>
   closestApproachIndex (selectClosestApproachPeak [] exampleProfile 4 0.3) = 5"
proof -
  have nonneg: "list_all (\<lambda>e. 0 \<le> energy e) exampleProfile"
    by (simp add: exampleProfile_def)
  note inst = C7_peak_selection [OF nonneg, where w = 4 and m = "0.3" and prom = "0.1"]
  have conf: "confidenceOf 1 examplePeak"
    using inst [of "[]"] by (simp add: example_peaks example_max)
  have hi: "found (selectClosestApproachPeak (findEnergyPeaks exampleProfile 0.1) exampleProfile 4 0.3) \<and>
     closestApproachIndex
       (selectClosestApproachPeak (findEnergyPeaks exampleProfile 0.1) exampleProfile 4 0.3) = 10"
    using inst [of "findEnergyPeaks exampleProfile 0.1"]
    by (simp add: example_peaks examplePeak_def)
  have lo: "found (selectClosestApproachPeak [weakPeak] exampleProfile 4 0.3) \<and>
     closestApproachIndex (selectClosestApproachPeak [weakPeak] exampleProfile 4 0.3) = 7 \<and>
     warning (selectClosestApproachPeak [weakPeak] exampleProfile 4 0.3) \<noteq> None"
    using inst [of "[weakPeak]"] by (simp add: weakPeak_def)
  have none: "\<not> found (selectClosestApproachPeak [] exampleProfile 4 0.3) \<and>
     closestApproachIndex (selectClosestApproachPeak [] exampleProfile 4 0.3) = 5"
    using inst [of "[]"] by (simp add: example_len)
  show ?thesis using nonneg example_peaks conf hi lo none by blast
qed

section \<open>Ranking the spectrum\<close>

lemma set_js_insort: "set (js_insort cmp x ys) = insert x (set ys)"
  by (induction ys) auto

lemma js_insort_ranked:
  assumes "sorted_wrt rankedBefore ys" and "\<forall>y \<in> set ys. frequency x \<le> frequency y"
  shows "sorted_wrt rankedBefore (js_insort (\<lambda>a b. power b - power a) x ys)"
  using assms
proof (induction ys)
  case Nil
  then show ?case by simp
next
  case (Cons y ys)
  show ?case
  proof (cases "power y - power x \<le> 0")
    case True
    have "\<forall>z \<in> set (y # ys). rankedBefore x z"
    proof
      fix z assume z: "z \<in> set (y # ys)"
      then have "power z \<le> power y"
        using Cons.prems(1) by (auto simp add: rankedBefore_def)
      moreover have "frequency x \<le> frequency z" using Cons.prems(2) z by blast
      ultimately show "rankedBefore x z" using True by (auto simp add: rankedBefore_def)
    qed
    then show ?thesis using True Cons.prems(1) by simp
  next
    case False
    then have "rankedBefore y x" by (simp add: rankedBefore_def)
    moreover have "sorted_wrt rankedBefore (js_insort (\<lambda>a b. power b - power a) x ys)"
      using Cons by simp
    ultimately show ?thesis using False Cons.prems(1) by (auto simp add: set_js_insort)
  qed
qed

lemma js_sort_ranked:
  assumes "sorted_wrt (\<lambda>x y. frequency x \<le> frequency y) xs"
  shows "sorted_wrt rankedBefore (js_sort (\<lambda>a b. power b - power a) xs)"
  using assms
proof (induction xs)
  case Nil
  then show ?case by (simp add: js_sort_def)
next
  case (Cons x xs)
  have "sorted_wrt rankedBefore (js_sort (\<lambda>a b. power b - power a) xs)"
    using Cons by simp
  moreover have "\<forall>y \<in> set (js_sort (\<lambda>a b. power b - power a) xs). frequency x \<le> frequency y"
    using Cons.prems by (simp add: js_sort_set)
  ultimately have "sorted_wrt rankedBefore
      (js_insort (\<lambda>a b. power b - power a) x (js_sort (\<lambda>a b. power b - power a) xs))"
    by (rule js_insort_ranked)
  then show ?case by (simp add: js_sort_def)
qed

lemma js_sort_mset: "mset (js_sort (\<lambda>a b. f b - f a) xs) = mset xs"
  by (simp add: js_sort_key)

lemma js_slice_take: "js_slice xs 0 (int k) = take k xs"
  by (simp add: js_slice_def Let_def min_def)

lemma ranked_power: "rankedBefore x y \<Longrightarrow> power y \<le> power x"
  by (auto simp add: rankedBefore_def)

lemma sorted_take_drop:
  assumes "sorted_wrt rankedBefore xs"
  shows "list_all (\<lambda>x. list_all (\<lambda>y. power y \<le> power x) (drop k xs)) (take k xs)"
proof -
  have "sorted_wrt rankedBefore (take k xs @ drop k xs)" using assms by simp
  then have "\<forall>x \<in> set (take k xs). \<forall>y \<in> set (drop k xs). rankedBefore x y"
    unfolding sorted_wrt_append by blast
  then show ?thesis by (auto simp add: list_all_iff ranked_power)
qed

lemma computed_candidates_ascending:
  assumes "calculatePowerSpectrum binPower a0 = Inr a" and "0 \<le> an_sampleRate a0"
  shows "sorted_wrt (\<lambda>x y. frequency x \<le> frequency y) (candidatesOf a)"
    and "powerSpectrum a \<noteq> None" and "spectrumFrequencies a \<noteq> None"
proof -
  define N where "N = fftLengthOf (length (an_samples a0))"
  define fs where "fs = map (\<lambda>i. real i * an_sampleRate a0 / real N) [0 ..< N div 2]"
  define ps where "ps = map (binPower (an_windowType a0)
      (if length (an_samples a0) < N
       then an_samples a0 @ replicate (N - length (an_samples a0)) 0
       else if length (an_samples a0) > N then js_slice (an_samples a0) 0 (int N)
       else an_samples a0)) [0 ..< N div 2]"
  have a: "a = a0\<lparr>powerSpectrum := Some ps, spectrumFrequencies := Some fs\<rparr>"
    using assms(1)
    by (simp add: calculatePowerSpectrum_def Let_def N_def fs_def ps_def split: if_splits)
  show "powerSpectrum a \<noteq> None" and "spectrumFrequencies a \<noteq> None" by (simp_all add: a)
  have mono: "\<And>i j. i \<le> j \<Longrightarrow> real i * an_sampleRate a0 / real N \<le> real j * an_sampleRate a0 / real N"
    using assms(2) by (simp add: divide_right_mono mult_right_mono)
  have "candidatesOf a = map (\<lambda>i. \<lparr>frequency = fs ! i, power = ps ! i\<rparr>) [0 ..< length fs]"
    by (simp add: candidatesOf_def a)
  moreover have "sorted_wrt (\<lambda>x y. frequency x \<le> frequency y)
      (map (\<lambda>i. \<lparr>frequency = fs ! i, power = ps ! i\<rparr>) [0 ..< length fs])"
    unfolding sorted_wrt_map
    by (rule sorted_wrt_mono_rel [of _ "(<)"]) (auto simp add: fs_def mono)
  ultimately show "sorted_wrt (\<lambda>x y. frequency x \<le> frequency y) (candidatesOf a)" by simp
qed

lemma strongest_ranked:
  assumes "calculatePowerSpectrum binPower a0 = Inr a" and "0 \<le> an_sampleRate a0"
  shows "\<exists>ranked. mset ranked = mset (candidatesOf a) \<and>
           sorted_wrt rankedBefore ranked \<and>
           getStrongestFrequencies a (int k) = Inr (take k ranked) \<and>
           list_all (\<lambda>x. list_all (\<lambda>y. power y \<le> power x) (drop k ranked)) (take k ranked)"
proof -
  let ?ranked = "js_sort (\<lambda>a b. power b - power a) (candidatesOf a)"
  note c = computed_candidates_ascending [OF assms]
  have 1: "mset ?ranked = mset (candidatesOf a)" by (rule js_sort_mset)
  have 2: "sorted_wrt rankedBefore ?ranked" using c(1) by (rule js_sort_ranked)
  obtain ps fs where sp: "powerSpectrum a = Some ps" "spectrumFrequencies a = Some fs"
    using c(2,3) by auto
  have 3: "getStrongestFrequencies a (int k) = Inr (take k ?ranked)"
    by (simp add: getStrongestFrequencies_def candidatesOf_def sp Let_def js_slice_take)
  show ?thesis using 1 2 3 sorted_take_drop [OF 2] by blast
qed

lemma before_spectrum:
  assumes "powerSpectrum b = None"
  shows "getStrongestFrequencies b c = Inl ''Must call calculatePowerSpectrum() first''"
    and "findPeakFrequency b = Inl ''Must call calculatePowerSpectrum() first''"
  using assms by (simp_all add: getStrongestFrequencies_def findPeakFrequency_def)

lemma fftLengthOf_4: "fftLengthOf 4 = 4"
proof -
  have "log 2 (real 4) = real 2" by (rule log2_of_power_eq [symmetric]) simp
  then show ?thesis by (simp add: fftLengthOf_def)
qed

lemma example_computed:
  "calculatePowerSpectrum flatPower exampleAnalyzer =
     Inr (exampleAnalyzer\<lparr>powerSpectrum := Some [1, 1], spectrumFrequencies := Some [0, 2]\<rparr>)"
proof -
  have len: "length (an_samples exampleAnalyzer) = 4"
    by (simp add: exampleAnalyzer_def new_SpectrumAnalyzer_def)
  have rate: "an_sampleRate exampleAnalyzer = 8"
    by (simp add: exampleAnalyzer_def new_SpectrumAnalyzer_def)
  have upt: "[0..<2] = [0, Suc 0]" by code_simp
  show ?thesis
    by (simp add: calculatePowerSpectrum_def Let_def len fftLengthOf_4 rate upt flatPower_def)
qed

lemma example_strongest:
  "getStrongestFrequencies
     (exampleAnalyzer\<lparr>powerSpectrum := Some [1, 1], spectrumFrequencies := Some [0, 2]\<rparr>) 1
   = Inr [\<lparr>frequency = 0, power = 1\<rparr>]"
proof -
  have upt: "[0..<2] = [0, Suc 0]" by code_simp
  show ?thesis
    by (simp add: getStrongestFrequencies_def Let_def upt js_sort_def js_slice_def)
qed

text \<open>
  C8: once \<open>calculatePowerSpectrum\<close> has completed, \<open>getStrongestFrequencies(k)\<close> returns
  the first \<open>k\<close> elements of a rearrangement of all candidates that is sorted by power,
  descending, with equal powers in the order of ascending frequency; these are \<open>k\<close>
  candidates of highest power. Before the spectrum is computed, as for a new analyzer,
  \<open>getStrongestFrequencies\<close> and \<open>findPeakFrequency\<close> throw an error.
\<close>

theorem C8_strongest_frequencies:
  assumes "calculatePowerSpectrum binPower a0 = Inr a" and "0 \<le> an_sampleRate a0"
  shows "(\<exists>ranked. mset ranked = mset (candidatesOf a) \<and>
           sorted_wrt rankedBefore ranked \<and>
           getStrongestFrequencies a (int k) = Inr (take k ranked) \<and>
           list_all (\<lambda>x. list_all (\<lambda>y. power y \<le> power x) (drop k ranked)) (take k ranked)) \<and>
         powerSpectrum (new_SpectrumAnalyzer samples sampleRate w) = None \<and>
         (powerSpectrum b = None \<longrightarrow>
            getStrongestFrequencies b c = Inl ''Must call calculatePowerSpectrum() first'' \<and>
            findPeakFrequency b = Inl ''Must call calculatePowerSpectrum() first'')"
  using strongest_ranked [OF assms, where k = k] before_spectrum(1) [where b = b and c = c] before_spectrum(2) [where b = b]
  by (simp add: new_SpectrumAnalyzer_def)

theorem C8_strongest_frequencies_witness:
  "calculatePowerSpectrum flatPower exampleAnalyzer =
     Inr (exampleAnalyzer\<lparr>powerSpectrum := Some [1, 1], spectrumFrequencies := Some [0, 2]\<rparr>) \<and>
   0 \<le> an_sampleRate exampleAnalyzer \<and>
   getStrongestFrequencies
     (exampleAnalyzer\<lparr>powerSpectrum := Some [1, 1], spectrumFrequencies := Some [0, 2]\<rparr>) 1
     = Inr [\<lparr>frequency = 0, power = 1\<rparr>] \<and>
   powerSpectrum exampleAnalyzer = None \<and>
   getStrongestFrequencies exampleAnalyzer 5 = Inl ''Must call calculatePowerSpectrum() first'' \<and>
   findPeakFrequency exampleAnalyzer = Inl ''Must call calculatePowerSpectrum() first''"
proof -
  let ?a = "exampleAnalyzer\<lparr>powerSpectrum := Some [1, 1], spectrumFrequencies := Some [0, 2]\<rparr>"
  have rate: "0 \<le> an_sampleRate exampleAnalyzer"
    by (simp add: exampleAnalyzer_def new_SpectrumAnalyzer_def)
  note inst = C8_strongest_frequencies [OF example_computed rate,
      where k = 1 and samples = "[1, 0, 0, 0]" and sampleRate = 8 and w = None
        and b = exampleAnalyzer and c = 5]
  have none: "powerSpectrum exampleAnalyzer = None"
    using inst by (simp add: exampleAnalyzer_def)
  then have throws:
    "getStrongestFrequencies exampleAnalyzer 5 = Inl ''Must call calculatePowerSpectrum() first''"
    "findPeakFrequency exampleAnalyzer = Inl ''Must call calculatePowerSpectrum() first''"
    using inst by blast+
  from inst obtain ranked where r: "mset ranked = mset (candidatesOf ?a)"
      "sorted_wrt rankedBefore ranked"
      "getStrongestFrequencies ?a (int 1) = Inr (take 1 ranked)"
    by blast
  have "getStrongestFrequencies ?a 1 = Inr [\<lparr>frequency = 0, power = 1\<rparr>]"
    by (rule example_strongest)
  then show ?thesis using example_computed rate none throws by blast
qed

section \<open>The caller's samples are not written\<close>

lemma changes_only_refl: "changes_only W s s"
  by (simp add: changes_only_def)

lemma changes_only_trans:
  assumes "changes_only W s s'" and "changes_only W' s' s''"
    and "\<And>a. a \<in> W' \<Longrightarrow> a < length s \<Longrightarrow> a \<in> W"
  shows "changes_only W s s''"
  using assms unfolding changes_only_def
  by (metis (no_types, lifting) le_trans less_le_trans)

lemma changes_only_store_set: "changes_only {a} s (store_set a i v s)"
  by (simp add: changes_only_def store_set_def)

lemma changes_only_alloc: "changes_only W s (snd (alloc c s))"
  by (simp add: changes_only_def alloc_def nth_append)

lemma alloc_ref: "fst (alloc c s) = length s" "length (snd (alloc c s)) = Suc (length s)"
  by (simp_all add: alloc_def)

lemma changes_only_foldl:
  assumes "\<And>s i. changes_only W s (f s i)"
  shows "changes_only W s (foldl f s xs)"
proof (induction xs arbitrary: s)
  case Nil
  show ?case by (simp add: changes_only_refl)
next
  case (Cons x xs)
  have "changes_only W s (f s x)" by (rule assms)
  moreover have "changes_only W (f s x) (foldl f (f s x) xs)" by (rule Cons.IH)
  ultimately show ?case by (simp add: changes_only_trans [where W' = W])
qed

lemma changes_only_mono: "changes_only W s s' \<Longrightarrow> W \<subseteq> W' \<Longrightarrow> changes_only W' s s'"
  by (auto simp add: changes_only_def)

lemma changes_only_fresh:
  assumes "changes_only W s s'" and "\<And>a. a \<in> W \<Longrightarrow> length s0 \<le> a" and "changes_only V s0 s"
  shows "changes_only V s0 s'"
  using assms(3) assms(1)
proof (rule changes_only_trans)
  fix a assume "a \<in> W" "a < length s0"
  then show "a \<in> V" using assms(2) by fastforce
qed

lemma splitStep_changes: "changes_only {e, d} s (splitStep x e d s i)"
proof -
  have 1: "changes_only {e, d} s (store_set e (i * 2) (nums s x ! (i * 4)) s)"
    by (rule changes_only_mono [OF changes_only_store_set]) simp
  have 2: "\<And>t v j. changes_only {e, d} t (store_set e j v t)"
    by (rule changes_only_mono [OF changes_only_store_set]) simp
  have 3: "\<And>t v j. changes_only {e, d} t (store_set d j v t)"
    by (rule changes_only_mono [OF changes_only_store_set]) simp
  show ?thesis
    unfolding splitStep_def
    by (intro changes_only_trans [where W = "{e, d}" and W' = "{e, d}", OF _ 3]
              changes_only_trans [where W = "{e, d}" and W' = "{e, d}", OF _ 2] 1) simp_all
qed

lemma combineStep_changes: "changes_only {x} s (combineStep x e d N s k)"
  unfolding combineStep_def Let_def
  by (intro changes_only_trans [where W = "{x}" and W' = "{x}", OF _ changes_only_store_set]
            changes_only_store_set) simp_all

lemma fftRecursive_changes: "changes_only {x} s (fftRecursive x N s)"
proof (induction x N s rule: fftRecursive.induct)
  case (1 x N s)
  show ?case
  proof (cases "N \<le> 1")
    case True
    then show ?thesis by (subst fftRecursive.simps) (simp only: if_True changes_only_refl)
  next
    case False
    define e where "e = length s"
    define s1 where "s1 = snd (alloc (Nums (replicate N 0)) s)"
    define d where "d = length s1"
    define s2 where "s2 = snd (alloc (Nums (replicate N 0)) s1)"
    define s3 where "s3 = foldl (splitStep x e d) s2 [0 ..< N div 2]"
    define s4 where "s4 = fftRecursive e (N div 2) s3"
    define s5 where "s5 = fftRecursive d (N div 2) s4"
    define s6 where "s6 = foldl (combineStep x e d N) s5 [0 ..< N div 2]"
    have eq: "fftRecursive x N s = s6"
      using False
      by (subst fftRecursive.simps)
         (simp add: Let_def e_def s1_def d_def s2_def s3_def s4_def s5_def s6_def)
    have d: "d = Suc (length s)" by (simp add: d_def s1_def alloc_ref)
    have c1: "changes_only {x} s s1" unfolding s1_def by (rule changes_only_alloc)
    have c2: "changes_only {x} s s2"
      using c1 changes_only_alloc [of "{x}" s1] unfolding s2_def
      by (rule changes_only_trans) simp
    have "changes_only {e, d} s2 s3"
      unfolding s3_def by (rule changes_only_foldl) (rule splitStep_changes)
    then have c3: "changes_only {x} s s3"
      by (rule changes_only_fresh [OF _ _ c2]) (auto simp add: e_def d)
    have "changes_only {e} s3 s4"
      unfolding s4_def
      by (rule "1.IH"(1) [OF False e_def s1_def d_def s2_def s3_def])
    then have c4: "changes_only {x} s s4"
      by (rule changes_only_fresh [OF _ _ c3]) (simp add: e_def)
    have "changes_only {d} s4 s5"
      unfolding s5_def
      by (rule "1.IH"(2) [OF False e_def s1_def d_def s2_def s3_def s4_def])
    then have c5: "changes_only {x} s s5"
      by (rule changes_only_fresh [OF _ _ c4]) (simp add: d)
    have "changes_only {x} s5 s6"
      unfolding s6_def by (rule changes_only_foldl) (rule combineStep_changes)
    with c5 have "changes_only {x} s s6" by (rule changes_only_trans) simp
    then show ?thesis by (simp only: eq)
  qed
qed

lemma applyWindowByType_changes: "changes_only {} s (snd (applyWindowByType r w s))"
proof (cases "w = ''none''")
  case True
  then show ?thesis by (simp add: applyWindowByType_def changes_only_alloc)
next
  case False
  define N where "N = length (nums s r)"
  define s1 where "s1 = snd (alloc (Nums (replicate N 0)) s)"
  define s2 where "s2 = foldl (\<lambda>t i. store_set (length s) i (nums t r ! i * windowValue w N i) t)
      s1 [0 ..< N]"
  have eq: "snd (applyWindowByType r w s) = s2"
    using False by (simp add: applyWindowByType_def Let_def alloc_def N_def s1_def s2_def)
  have c1: "changes_only {} s s1" unfolding s1_def by (rule changes_only_alloc)
  have "changes_only {length s} s1 s2"
    unfolding s2_def by (rule changes_only_foldl) (rule changes_only_store_set)
  then have "changes_only {} s s2"
    by (rule changes_only_fresh [OF _ _ c1]) simp
  then show ?thesis by (simp only: eq)
qed

lemma padOrTruncate_changes: "changes_only {} s (snd (padOrTruncate r n s))"
proof -
  have two: "\<And>c1 c2. changes_only {} s (snd (alloc c2 (snd (alloc c1 s))))"
    by (rule changes_only_trans [where W = "{}" and W' = "{}",
          OF changes_only_alloc changes_only_alloc]) simp
  show ?thesis
    unfolding padOrTruncate_def Let_def split_beta
    by (simp add: changes_only_alloc changes_only_refl two)
qed

lemma fft_changes:
  assumes "fft r s = Inr (c, s')"
  shows "changes_only {} s s'"
proof -
  define n where "n = length (nums s r)"
  define s1 where "s1 = snd (alloc (Nums (replicate (n * 2) 0)) s)"
  define s2 where "s2 = foldl (\<lambda>t i. store_set (length s) (i * 2 + 1) 0
                                    (store_set (length s) (i * 2) (nums t r ! i) t)) s1 [0 ..< n]"
  have eq: "s' = fftRecursive (length s) n s2"
    using assms
    by (auto simp add: fft_def Let_def alloc_def n_def s1_def s2_def split: if_splits)
  have c1: "changes_only {} s s1" unfolding s1_def by (rule changes_only_alloc)
  have step: "\<And>t i. changes_only {length s} t
      (store_set (length s) (i * 2 + 1) 0 (store_set (length s) (i * 2) (nums t r ! i) t))"
    by (rule changes_only_trans [OF changes_only_store_set changes_only_store_set]) simp
  have "changes_only {length s} s1 s2"
    unfolding s2_def by (rule changes_only_foldl) (rule step)
  then have c2: "changes_only {} s s2"
    by (rule changes_only_fresh [OF _ _ c1]) simp
  have "changes_only {length s} s2 (fftRecursive (length s) n s2)"
    by (rule fftRecursive_changes)
  then have "changes_only {} s (fftRecursive (length s) n s2)"
    by (rule changes_only_fresh [OF _ _ c2]) simp
  then show ?thesis by (simp only: eq)
qed

lemma spectrumStep_changes:
  "changes_only {p, f} s (spectrumStep r p f g rate n s i)"
proof -
  have a: "\<And>t j v. changes_only {p, f} t (store_set p j v t)"
    by (rule changes_only_mono [OF changes_only_store_set]) simp
  have b: "\<And>t j v. changes_only {p, f} t (store_set f j v t)"
    by (rule changes_only_mono [OF changes_only_store_set]) simp
  show ?thesis
    unfolding spectrumStep_def Let_def
    by (rule changes_only_trans [where W = "{p, f}" and W' = "{p, f}", OF a b]) simp
qed

lemma calculatePowerSpectrum_store_changes:
  assumes "calculatePowerSpectrum_store this s = Inr (obj, s')"
  shows "changes_only {} s s'"
proof -
  define n where "n = fftLengthOf (length (nums s (samplesRef this)))"
  define s1 where "s1 = snd (alloc (Nums (nums s (samplesRef this))) s)"
  define p where "p = padOrTruncate (length s) n s1"
  define w where "w = applyWindowByType (fst p) (obj_windowType this) (snd p)"
  define g where "g = getCoherentGain (obj_windowType this) n"
  obtain r s4 where f: "fft (fst w) (snd w) = Inr (r, s4)"
    using assms
    by (cases "fft (fst w) (snd w)")
       (auto simp add: calculatePowerSpectrum_store_def Let_def split_beta alloc_ref
          n_def s1_def p_def w_def)
  define s5 where "s5 = snd (alloc (Nums (replicate (n div 2) 0)) s4)"
  define s6 where "s6 = snd (alloc (Nums (replicate (n div 2) 0)) s5)"
  define s7 where "s7 = foldl (spectrumStep r (length s4) (length s5) g (obj_sampleRate this) n)
      s6 [0 ..< n div 2]"
  have l5: "length s5 = Suc (length s4)" by (simp add: s5_def alloc_ref)
  have eq: "s' = s7"
    using assms f
    by (auto simp add: l5 calculatePowerSpectrum_store_def Let_def split_beta alloc_ref
          n_def [symmetric] s1_def [symmetric] p_def [symmetric] w_def [symmetric]
          g_def [symmetric] s5_def [symmetric] s6_def [symmetric] s7_def split: if_splits)
  have c1: "changes_only {} s s1" unfolding s1_def by (rule changes_only_alloc)
  have "changes_only {} s1 (snd p)" unfolding p_def by (rule padOrTruncate_changes)
  with c1 have c2: "changes_only {} s (snd p)" by (rule changes_only_trans) simp
  have "changes_only {} (snd p) (snd w)" unfolding w_def by (rule applyWindowByType_changes)
  with c2 have c3: "changes_only {} s (snd w)" by (rule changes_only_trans) simp
  have "changes_only {} (snd w) s4" using f by (rule fft_changes)
  with c3 have c4: "changes_only {} s s4" by (rule changes_only_trans) simp
  have "changes_only {} s4 s5" unfolding s5_def by (rule changes_only_alloc)
  with c4 have c5: "changes_only {} s s5" by (rule changes_only_trans) simp
  have "changes_only {} s5 s6" unfolding s6_def by (rule changes_only_alloc)
  with c5 have c6: "changes_only {} s s6" by (rule changes_only_trans) simp
  have len: "length s \<le> length s4" "length s \<le> length s5"
    using c4 c5 by (simp_all add: changes_only_def)
  have "changes_only {length s4, length s5} s6 s7"
    unfolding s7_def by (rule changes_only_foldl) (rule spectrumStep_changes)
  then have "changes_only {} s s7"
    by (rule changes_only_fresh [OF _ _ c6]) (use len in auto)
  then show ?thesis by (simp only: eq)
qed

lemma push_cand_changes: "changes_only {a} s (push_cand a c s)"
  by (simp add: changes_only_def push_cand_def)

lemma sort_cands_changes: "changes_only {a} s (sort_cands a cmp s)"
  by (simp add: changes_only_def sort_cands_def)

lemma getStrongestFrequencies_store_changes:
  assumes "getStrongestFrequencies_store this k s = Inr (r, s')"
  shows "changes_only {} s s'"
proof -
  obtain ps fs where refs: "powerSpectrumRef this = Some ps" "frequenciesRef this = Some fs"
    using assms by (auto simp add: getStrongestFrequencies_store_def split: option.splits)
  define s1 where "s1 = snd (alloc (Cands []) s)"
  define s2 where "s2 = foldl (\<lambda>t i. push_cand (length s)
                                    \<lparr>frequency = nums t fs ! i, power = nums t ps ! i\<rparr> t)
                          s1 [0 ..< length (nums s fs)]"
  define s3 where "s3 = sort_cands (length s) (\<lambda>a b. power b - power a) s2"
  have eq: "s' = snd (alloc (Cands (js_slice (cands s3 (length s)) 0 k)) s3)"
    using assms
    by (auto simp add: getStrongestFrequencies_store_def refs Let_def split_beta alloc_ref
          s1_def s2_def s3_def)
  have c1: "changes_only {} s s1" unfolding s1_def by (rule changes_only_alloc)
  have "changes_only {length s} s1 s2"
    unfolding s2_def by (rule changes_only_foldl) (rule push_cand_changes)
  then have c2: "changes_only {} s s2" by (rule changes_only_fresh [OF _ _ c1]) simp
  have "changes_only {length s} s2 s3" unfolding s3_def by (rule sort_cands_changes)
  then have c3: "changes_only {} s s3" by (rule changes_only_fresh [OF _ _ c2]) simp
  have "changes_only {} s3 (snd (alloc (Cands (js_slice (cands s3 (length s)) 0 k)) s3))"
    by (rule changes_only_alloc)
  with c3 show ?thesis unfolding eq by (rule changes_only_trans) simp
qed

lemma two_allocs: "changes_only {} s (snd (alloc c2 (snd (alloc c1 s))))"
  by (rule changes_only_trans [where W = "{}" and W' = "{}",
        OF changes_only_alloc changes_only_alloc]) simp

lemma perform_changes: "changes_only {} s (perform operation s)"
proof (cases operation)
  case (NewSpectrumAnalyzer samples sampleRate w)
  then show ?thesis
    by (simp add: construct_SpectrumAnalyzer_def split_beta changes_only_alloc)
next
  case (NewFrequencyAnalysis samples)
  then show ?thesis by (simp add: construct_FrequencyAnalysis_def changes_only_alloc)
next
  case (CalculatePowerSpectrum this)
  then show ?thesis
    using calculatePowerSpectrum_store_changes [of this s]
    by (auto simp add: changes_only_refl split: sum.splits)
next
  case (GetStrongestFrequencies this k)
  then show ?thesis
    using getStrongestFrequencies_store_changes [of this k s]
    by (auto simp add: changes_only_refl split: sum.splits)
next
  case (ExtractSections samples sampleRate idx duration)
  then show ?thesis
    by (simp add: extractSections_store_def Let_def split_beta two_allocs)
next
  case (ExtractShortFileSections samples sampleRate)
  then show ?thesis
    by (simp add: extractShortFileSections_store_def Let_def split_beta two_allocs)
next
  case (FindOptimalSpeedCalculation c a r e)
  then show ?thesis
    by (simp add: findOptimalSpeedCalculation_store_def changes_only_refl)
qed

lemma perform_all_changes: "changes_only {} s (foldl (\<lambda>s operation. perform operation s) s operations)"
  by (rule changes_only_foldl) (rule perform_changes)

text \<open>
  C10: the constructors of \<open>SpectrumAnalyzer\<close> and \<open>FrequencyAnalysis\<close> keep a new array
  that holds the elements of the array passed in, and after any sequence of core
  operations (constructions, the spectrum computation with its windowing and in-place
  transform, the ranking with its in-place sort, the sectioning by \<open>slice\<close>, the matching)
  with any arguments, every array that existed before holds the same elements in the
  same order.
\<close>

theorem C10_input_not_mutated:
  assumes "a < length s"
  shows "foldl (\<lambda>s operation. perform operation s) s operations ! a = s ! a \<and>
         samplesRef (fst (construct_SpectrumAnalyzer a sampleRate w s)) \<noteq> a \<and>
         nums (snd (construct_SpectrumAnalyzer a sampleRate w s))
              (samplesRef (fst (construct_SpectrumAnalyzer a sampleRate w s))) = nums s a \<and>
         fst (construct_FrequencyAnalysis a s) \<noteq> a \<and>
         nums (snd (construct_FrequencyAnalysis a s)) (fst (construct_FrequencyAnalysis a s))
           = nums s a"
proof -
  have "foldl (\<lambda>s operation. perform operation s) s operations ! a = s ! a"
    using perform_all_changes [of s operations] assms by (simp add: changes_only_def)
  then show ?thesis
    using assms
    by (simp add: construct_SpectrumAnalyzer_def construct_FrequencyAnalysis_def
        alloc_def nums_def)
qed

theorem C10_input_not_mutated_witness:
  "0 < length callerStore \<and>
   foldl (\<lambda>s operation. perform operation s) callerStore exampleOperations ! 0
     = Nums [1, 2, 3, 4] \<and>
   samplesRef (fst (construct_SpectrumAnalyzer 0 8 None callerStore)) = 1 \<and>
   nums (snd (construct_SpectrumAnalyzer 0 8 None callerStore)) 1 = [1, 2, 3, 4]"
proof -
  have valid: "0 < length callerStore" by (simp add: callerStore_def)
  have cell: "callerStore ! 0 = Nums [1, 2, 3, 4]" by (simp add: callerStore_def)
  have copy: "samplesRef (fst (construct_SpectrumAnalyzer 0 8 None callerStore)) = 1"
    by (simp add: construct_SpectrumAnalyzer_def alloc_def callerStore_def)
  from C10_input_not_mutated [OF valid, of exampleOperations 8 None]
  have kept: "foldl (\<lambda>s operation. perform operation s) callerStore exampleOperations ! 0
       = callerStore ! 0"
    and same: "nums (snd (construct_SpectrumAnalyzer 0 8 None callerStore))
              (samplesRef (fst (construct_SpectrumAnalyzer 0 8 None callerStore)))
            = nums callerStore 0"
    by blast+
  have "nums callerStore 0 = [1, 2, 3, 4]" by (simp add: nums_def callerStore_def)
  then have "nums (snd (construct_SpectrumAnalyzer 0 8 None callerStore)) 1 = [1, 2, 3, 4]"
    using same by (simp only: copy)
  then show ?thesis using valid kept cell copy by (simp only: simp_thms)
qed

end
